(* ===== verification/Prelude.thy ===== *)
theory Prelude
  imports Complex_Main "HOL-Library.Multiset"
begin

text \<open>
  Shared vocabulary of the development: the Python exceptions the modelled code can
  raise, and the Python built-ins it calls (slicing, indexing with negative indices,
  \<open>str.lower\<close>, \<open>str.isspace\<close>/\<open>str.strip\<close>, \<open>re.findall(r'\w+', s)\<close>,
  \<open>str(n)\<close> of a non-negative int, and the stable \<open>list.sort(key=..., reverse=True)\<close>),
  each with the lemmas the component theories use. Characters are Isabelle's 8-bit
  \<open>char\<close>; the character classes are those of Python on ASCII text.
\<close>

named_theorems py_simps "evaluation rules for the Python primitives of the model"

section \<open>Exceptions and results\<close>

datatype py_exc =
    ValueError string
  | IndexError
  | ZeroDivisionError
  | FileNotFoundError string
  | TypeError string
  | PlaywrightError string
  | SystemExit nat

type_synonym 'a py_result = "py_exc + 'a"

text \<open>The status of a process ended by an exception: \<open>sys.exit(n)\<close> raises \<open>SystemExit\<close>
  with status \<open>n\<close>; any other uncaught exception ends the interpreter with status 1.\<close>

fun exit_status :: "py_exc \<Rightarrow> nat" where
  "exit_status (SystemExit n) = n"
| "exit_status _ = 1"

type_synonym vec = "real list"

section \<open>Lists: slicing and indexing\<close>

text \<open>\<open>xs[a:b]\<close> for non-negative \<open>a\<close>, \<open>b\<close>.\<close>

definition py_slice :: "'a list \<Rightarrow> nat \<Rightarrow> nat \<Rightarrow> 'a list" where
  "py_slice xs a b = take (b - a) (drop a xs)"

text \<open>\<open>xs[:k]\<close> for any int \<open>k\<close>: a negative bound counts from the end.\<close>

definition py_prefix :: "'a list \<Rightarrow> int \<Rightarrow> 'a list" where
  "py_prefix xs k =
     (if 0 \<le> k then take (nat k) xs else take (length xs - nat (- k)) xs)"

text \<open>\<open>xs[i]\<close>: negative indices count from the end, out of range raises.\<close>

definition py_getitem :: "'a list \<Rightarrow> int \<Rightarrow> 'a py_result" where
  "py_getitem xs i =
     (if i < - int (length xs) \<or> int (length xs) \<le> i then Inl IndexError
      else if i < 0 then Inr (xs ! nat (int (length xs) + i))
      else Inr (xs ! nat i))"

lemma py_slice_length [simp]:
  "length (py_slice xs a b) = min (b - a) (length xs - a)"
  by (simp add: py_slice_def)

lemma py_prefix_nonneg [simp]: "0 \<le> k \<Longrightarrow> py_prefix xs k = take (nat k) xs"
  by (simp add: py_prefix_def)

lemma py_prefix_neg: "k < 0 \<Longrightarrow> py_prefix xs k = take (length xs - nat (- k)) xs"
  by (simp add: py_prefix_def)

lemma py_prefix_length:
  "length (py_prefix xs k) = (if 0 \<le> k then min (length xs) (nat k) else length xs - nat (- k))"
  by (simp add: py_prefix_def)

lemma py_getitem_nat [simp]:
  "i < length xs \<Longrightarrow> py_getitem xs (int i) = Inr (xs ! i)"
  by (simp add: py_getitem_def)

lemma py_getitem_nonneg:
  "0 \<le> i \<Longrightarrow> i < int (length xs) \<Longrightarrow> py_getitem xs i = Inr (xs ! nat i)"
  by (simp add: py_getitem_def)

lemma py_getitem_zero: "xs \<noteq> [] \<Longrightarrow> py_getitem xs 0 = Inr (xs ! 0)"
  by (simp add: py_getitem_def)

lemma py_getitem_Inr:
  "py_getitem xs i = Inr x \<Longrightarrow> x \<in> set xs"
  by (auto simp: py_getitem_def split: if_splits)

section \<open>Characters and strings\<close>

text \<open>\<open>str.isspace\<close> on ASCII: tab, line feed, vertical tab, form feed, carriage
  return, the four separators 0x1c to 0x1f, and space.\<close>

definition is_py_space :: "char \<Rightarrow> bool" where
  "is_py_space c = (let n = of_char c :: nat in (9 \<le> n \<and> n \<le> 13) \<or> (28 \<le> n \<and> n \<le> 32))"

text \<open>\<open>\w\<close> of Python's \<open>re\<close> on ASCII: letters, digits and the underscore.\<close>

definition is_word_char :: "char \<Rightarrow> bool" where
  "is_word_char c =
     (let n = of_char c :: nat
      in (48 \<le> n \<and> n \<le> 57) \<or> (65 \<le> n \<and> n \<le> 90) \<or> (97 \<le> n \<and> n \<le> 122) \<or> n = 95)"

definition py_lower_char :: "char \<Rightarrow> char" where
  "py_lower_char c = (let n = of_char c :: nat in if 65 \<le> n \<and> n \<le> 90 then char_of (n + 32) else c)"

definition py_lower :: "string \<Rightarrow> string" where
  "py_lower s = map py_lower_char s"

text \<open>\<open>not s.strip()\<close>: the string is empty or all whitespace.\<close>

definition py_is_blank :: "string \<Rightarrow> bool" where
  "py_is_blank s = list_all is_py_space s"

definition py_strip :: "string \<Rightarrow> string" where
  "py_strip s = rev (dropWhile is_py_space (rev (dropWhile is_py_space s)))"

lemma all_dropWhile_iff: "(\<forall>x\<in>set (dropWhile P s). P x) \<longleftrightarrow> (\<forall>x\<in>set s. P x)"
  by (induction s) auto

lemma py_strip_empty_iff: "py_strip s = [] \<longleftrightarrow> py_is_blank s"
  by (simp add: py_strip_def py_is_blank_def list_all_iff dropWhile_eq_Nil_conv all_dropWhile_iff)

lemma length_py_strip: "length (py_strip s) \<le> length s"
proof -
  have "length (dropWhile is_py_space s) \<le> length s" by (rule length_dropWhile_le)
  moreover have "length (dropWhile is_py_space (rev (dropWhile is_py_space s))) \<le>
                 length (dropWhile is_py_space s)"
    using length_dropWhile_le [of is_py_space "rev (dropWhile is_py_space s)"] by simp
  ultimately show ?thesis by (simp add: py_strip_def)
qed

lemma set_py_strip: "set (py_strip s) \<subseteq> set s"
proof
  fix x assume "x \<in> set (py_strip s)"
  then have "x \<in> set (dropWhile is_py_space (rev (dropWhile is_py_space s)))"
    by (simp add: py_strip_def)
  then have "x \<in> set (rev (dropWhile is_py_space s))" by (rule set_dropWhileD)
  then have "x \<in> set (dropWhile is_py_space s)" by simp
  then show "x \<in> set s" by (rule set_dropWhileD)
qed

text \<open>\<open>re.findall(r'\w+', s)\<close>: the maximal runs of word characters, left to right.
  \<open>cur\<close> is the current run, reversed.\<close>

fun words_acc :: "string \<Rightarrow> string \<Rightarrow> string list" where
  "words_acc cur [] = (if cur = [] then [] else [rev cur])"
| "words_acc cur (c # cs) =
     (if is_word_char c then words_acc (c # cur) cs
      else if cur = [] then words_acc [] cs
      else rev cur # words_acc [] cs)"

definition find_words :: "string \<Rightarrow> string list" where
  "find_words s = words_acc [] s"

lemma words_acc_concat:
  "list_all is_word_char cur \<Longrightarrow>
   concat (words_acc cur s) = rev cur @ filter is_word_char s"
  by (induction cur s rule: words_acc.induct) auto

lemma words_acc_words:
  "list_all is_word_char cur \<Longrightarrow> w \<in> set (words_acc cur s) \<Longrightarrow>
   w \<noteq> [] \<and> list_all is_word_char w"
  by (induction cur s rule: words_acc.induct) (auto split: if_splits)

lemma find_words_concat: "concat (find_words s) = filter is_word_char s"
  by (simp add: find_words_def words_acc_concat)

lemma find_words_words:
  "w \<in> set (find_words s) \<Longrightarrow> w \<noteq> [] \<and> list_all is_word_char w"
  unfolding find_words_def by (rule words_acc_words) simp_all

text \<open>\<open>str(n)\<close> for a non-negative int, and the decimal reading that inverts it.\<close>

definition digit_char :: "nat \<Rightarrow> char" where
  "digit_char d = char_of (48 + d)"

fun py_str_nat :: "nat \<Rightarrow> string" where
  "py_str_nat n = (if n < 10 then [digit_char n] else py_str_nat (n div 10) @ [digit_char (n mod 10)])"

declare py_str_nat.simps [simp del]

definition digit_value :: "char \<Rightarrow> nat" where
  "digit_value c = of_char c - 48"

definition read_nat :: "string \<Rightarrow> nat" where
  "read_nat s = foldl (\<lambda>a c. 10 * a + digit_value c) 0 s"

lemma digit_value_char [simp]: "d < 10 \<Longrightarrow> digit_value (digit_char d) = d"
  by (simp add: digit_value_def digit_char_def)

lemma read_nat_snoc: "read_nat (s @ [c]) = 10 * read_nat s + digit_value c"
  by (simp add: read_nat_def)

lemma py_str_nat_nonempty: "py_str_nat n \<noteq> []"
  by (subst py_str_nat.simps) simp

lemma read_py_str_nat: "read_nat (py_str_nat n) = n"
proof (induction n rule: py_str_nat.induct)
  case (1 n)
  show ?case
  proof (cases "n < 10")
    case True
    then show ?thesis by (simp add: py_str_nat.simps [of n] read_nat_def)
  next
    case False
    with "1.IH" have "read_nat (py_str_nat (n div 10)) = n div 10" by simp
    with False show ?thesis by (simp add: py_str_nat.simps [of n] read_nat_snoc)
  qed
qed

lemma py_str_nat_inj: "py_str_nat m = py_str_nat n \<Longrightarrow> m = n"
  by (metis read_py_str_nat)

text \<open>Evaluation of the string primitives on literals, for witnesses.\<close>

lemmas py_string_eval = py_lower_def py_lower_char_def char_of_def bit_simps is_word_char_def
  is_py_space_def py_is_blank_def py_strip_def find_words_def

section \<open>Stable descending sort\<close>

text \<open>
  \<open>xs.sort(key=f, reverse=True)\<close>: descending by key, and, as Python documents,
  stable, so that elements with equal keys keep their order. Written as the insertion
  sort it denotes: an element goes before the first element whose key is not larger.
\<close>

fun insort_desc :: "('a \<Rightarrow> 'k::linordered_ab_group_add) \<Rightarrow> 'a \<Rightarrow> 'a list \<Rightarrow> 'a list" where
  "insort_desc f x [] = [x]"
| "insort_desc f x (y # ys) = (if f y \<le> f x then x # y # ys else y # insort_desc f x ys)"

definition sort_desc :: "('a \<Rightarrow> 'k::linordered_ab_group_add) \<Rightarrow> 'a list \<Rightarrow> 'a list" where
  "sort_desc f xs = foldr (insort_desc f) xs []"

lemma insort_desc_insort_key: "insort_desc f x ys = insort_key (\<lambda>y. - f y) x ys"
  by (induction ys) auto

text \<open>The model of Python's sort is the library's stable ascending insertion sort on
  the negated key: every library fact about \<open>sort_key\<close> carries over.\<close>

lemma sort_desc_sort_key: "sort_desc f xs = sort_key (\<lambda>y. - f y) xs"
  by (simp add: sort_desc_def sort_key_def insort_desc_insort_key [abs_def])

lemma sort_desc_simps [simp]:
  "sort_desc f [] = []"
  "sort_desc f (x # xs) = insort_desc f x (sort_desc f xs)"
  by (simp_all add: sort_desc_def)

lemma mset_sort_desc [simp]: "mset (sort_desc f xs) = mset (xs)"
  by (simp add: sort_desc_sort_key)

lemma set_sort_desc [simp]: "set (sort_desc f xs) = set xs"
  by (simp add: sort_desc_sort_key)

lemma length_sort_desc [simp]: "length (sort_desc f xs) = length xs"
  by (simp add: sort_desc_sort_key)

lemma sorted_wrt_sort_desc: "sorted_wrt (\<lambda>a b. f b \<le> f a) (sort_desc f xs)"
proof -
  have "sorted (map (\<lambda>y. - f y) (sort_key (\<lambda>y. - f y) xs))"
    by (rule sorted_sort_key)
  then show ?thesis
    by (simp add: sort_desc_sort_key sorted_map sorted_wrt_iff_nth_less)
qed

lemma sort_desc_stable:
  "filter (\<lambda>y. f y = k) (sort_desc f xs) = filter (\<lambda>y. f y = k) xs"
proof -
  have "filter (\<lambda>y. - f y = - k) (sort_key (\<lambda>y. - f y) xs) = filter (\<lambda>y. - f y = - k) xs"
    by (rule sort_key_stable)
  then show ?thesis by (simp add: sort_desc_sort_key)
qed

section \<open>Maps of lists to counts\<close>

lemma card_set_inter_filter [py_simps]:
  "card (set xs \<inter> set ys) = length (remdups (filter (\<lambda>x. x \<in> set ys) xs))"
proof -
  have "set xs \<inter> set ys = set (filter (\<lambda>x. x \<in> set ys) xs)" by auto
  then show ?thesis by (simp add: length_remdups_card_conv)
qed


section \<open>Prefixes, suffixes and splitting\<close>

text \<open>\<open>s.startswith(p)\<close> and \<open>s.endswith(p)\<close>.\<close>

definition py_startswith :: "string \<Rightarrow> string \<Rightarrow> bool" where
  "py_startswith s p \<longleftrightarrow> take (length p) s = p"

definition py_endswith :: "string \<Rightarrow> string \<Rightarrow> bool" where
  "py_endswith s p \<longleftrightarrow> length p \<le> length s \<and> drop (length s - length p) s = p"

text \<open>\<open>s.split(c)\<close> for a one-character separator: the pieces between separators, an
  empty piece where two separators meet or one ends the string.\<close>

fun py_split_acc :: "char \<Rightarrow> string \<Rightarrow> string \<Rightarrow> string list" where
  "py_split_acc c cur [] = [cur]"
| "py_split_acc c cur (x # xs) =
     (if x = c then cur # py_split_acc c [] xs else py_split_acc c (cur @ [x]) xs)"

definition py_split :: "char \<Rightarrow> string \<Rightarrow> string list" where
  "py_split c s = py_split_acc c [] s"

lemma py_endswith_iff: "py_endswith s p \<longleftrightarrow> (\<exists>u. s = u @ p)"
proof
  assume "py_endswith s p"
  then have "s = take (length s - length p) s @ p"
    by (metis append_take_drop_id py_endswith_def)
  then show "\<exists>u. s = u @ p" by blast
next
  assume "\<exists>u. s = u @ p"
  then show "py_endswith s p" by (auto simp: py_endswith_def)
qed

lemma py_split_acc_nonempty [simp]: "py_split_acc c cur s \<noteq> []"
  by (induction c cur s rule: py_split_acc.induct) auto

lemma takeWhile_rev_all: "c \<notin> set s \<Longrightarrow> takeWhile (\<lambda>x. x \<noteq> c) (rev s) = rev s"
  by (rule takeWhile_eq_all_conv [THEN iffD2]) auto

lemma py_split_acc_last:
  "last (py_split_acc c cur s) =
     (if c \<in> set s then rev (takeWhile (\<lambda>x. x \<noteq> c) (rev s)) else cur @ s)"
proof (induction c cur s rule: py_split_acc.induct)
  case (1 c cur)
  then show ?case by simp
next
  case (2 c cur x xs)
  show ?case
  proof (cases "x = c")
    case True
    with 2 show ?thesis by (simp add: takeWhile_append takeWhile_rev_all)
  next
    case False
    with 2 show ?thesis by (auto simp: takeWhile_append)
  qed
qed

lemma py_split_last: "last (py_split c s) = rev (takeWhile (\<lambda>x. x \<noteq> c) (rev s))"
  by (simp add: py_split_def py_split_acc_last takeWhile_rev_all)

lemma takeWhile_rev_no_sep: "c \<notin> set (rev (takeWhile (\<lambda>x. x \<noteq> c) (rev s)))"
  using set_takeWhileD by fastforce

lemma takeWhile_rev_suffix:
  "c \<notin> set p \<Longrightarrow> \<exists>u. rev (takeWhile (\<lambda>x. x \<noteq> c) (rev (s @ p))) = u @ p"
  by (auto simp: takeWhile_append)

end
