(* ===== verification/Chunker.thy ===== *)
theory Chunker
  imports Prelude
begin

text \<open>
  The tokenizer/chunker of \<open>src/mha_chatbot/ingest2.py\<close> (\<open>chunk_text\<close>, lines 38-48
  and the constants of lines 23-24). The tokenizer is the embedding model's, an external
  collaborator: the model takes it as a record of its two operations. The loop over
  \<open>range(0, len(token_ids), stride)\<close> with its early \<open>break\<close> is a recursion on
  \<open>start\<close>, terminating because \<open>stride = max(1, chunk_size - overlap)\<close> is
  positive. The slices it takes are collected by \<open>chunk_slices\<close> and decoded by
  \<open>chunk_text\<close>. The lemmas show the contract of spec section 4.1: consecutive
  windows overlap by exactly \<open>overlap\<close> tokens, every window but the last has
  \<open>chunk_size\<close> tokens, and the windows reassemble the token stream.
\<close>

record 't tokenizer =
  tok_encode :: "string \<Rightarrow> 't list"
  tok_decode :: "'t list \<Rightarrow> string"

definition CHUNK_SIZE :: nat where
  "CHUNK_SIZE = 512"

definition CHUNK_OVERLAP :: nat where
  "CHUNK_OVERLAP = 75"

definition chunk_stride :: "nat \<Rightarrow> nat \<Rightarrow> nat" where
  "chunk_stride chunk_size overlap = max 1 (chunk_size - overlap)"

lemma chunk_stride_pos [simp]: "0 < chunk_stride chunk_size overlap"
  by (simp add: chunk_stride_def)

function chunk_slices :: "'t list \<Rightarrow> nat \<Rightarrow> nat \<Rightarrow> nat \<Rightarrow> 't list list" where
  "chunk_slices token_ids chunk_size overlap start =
     (if start < length token_ids then
        py_slice token_ids start (start + chunk_size) #
        (if length token_ids \<le> start + chunk_size then []
         else chunk_slices token_ids chunk_size overlap (start + chunk_stride chunk_size overlap))
      else [])"
  by pat_completeness auto
termination
  by (relation "measure (\<lambda>(ids, cs, ov, start). length ids - start)")
     (auto simp: diff_less_mono2 add_strict_increasing)

declare chunk_slices.simps [simp del]

definition chunk_text :: "'t tokenizer \<Rightarrow> string \<Rightarrow> nat \<Rightarrow> nat \<Rightarrow> string list" where
  "chunk_text tokenizer text chunk_size overlap =
     map (tok_decode tokenizer) (chunk_slices (tok_encode tokenizer text) chunk_size overlap 0)"

text \<open>Reassembly: the first window, then each later window without its first
  \<open>overlap\<close> tokens.\<close>

fun merge_windows :: "nat \<Rightarrow> 't list list \<Rightarrow> 't list" where
  "merge_windows overlap [] = []"
| "merge_windows overlap (w # ws) = w @ concat (map (drop overlap) ws)"

subsection \<open>Unfolding the loop\<close>

lemma chunk_slices_stop:
  "length token_ids \<le> start \<Longrightarrow> chunk_slices token_ids cs ov start = []"
  by (simp add: chunk_slices.simps)

lemma chunk_slices_last:
  "start < length token_ids \<Longrightarrow> length token_ids \<le> start + cs \<Longrightarrow>
   chunk_slices token_ids cs ov start = [drop start token_ids]"
  by (simp add: chunk_slices.simps py_slice_def)

lemma chunk_slices_step:
  "start + cs < length token_ids \<Longrightarrow>
   chunk_slices token_ids cs ov start =
     take cs (drop start token_ids) # chunk_slices token_ids cs ov (start + chunk_stride cs ov)"
  by (subst chunk_slices.simps) (simp add: py_slice_def)

lemmas chunk_slices_unfold = chunk_slices_stop chunk_slices_last chunk_slices_step

lemma stride_overlap:
  "ov < cs \<Longrightarrow> chunk_stride cs ov + ov = cs"
  by (simp add: chunk_stride_def)

subsection \<open>Window contents\<close>

lemma chunk_slices_empty_iff:
  "chunk_slices token_ids cs ov start = [] \<longleftrightarrow> length token_ids \<le> start"
  by (subst chunk_slices.simps) simp

lemma chunk_slices_nonempty:
  "0 < cs \<Longrightarrow> w \<in> set (chunk_slices token_ids cs ov start) \<Longrightarrow> w \<noteq> []"
proof (induction token_ids cs ov start rule: chunk_slices.induct)
  case (1 token_ids cs ov start)
  then show ?case
    by (subst (asm) chunk_slices.simps) (auto simp: py_slice_def split: if_splits)
qed

text \<open>Window sizes: every window the chunking loop takes, except the last, holds
  exactly \<open>chunk_size\<close> tokens, and none holds more.\<close>

theorem chunk_slices_sizes:
  "(\<forall>w \<in> set (butlast (chunk_slices token_ids cs ov start)). length w = cs) \<and>
   (\<forall>w \<in> set (chunk_slices token_ids cs ov start). length w \<le> cs)"
proof (induction token_ids cs ov start rule: chunk_slices.induct)
  case (1 token_ids cs ov start)
  consider "length token_ids \<le> start"
    | "start < length token_ids" "length token_ids \<le> start + cs"
    | "start + cs < length token_ids"
    by linarith
  then show ?case
  proof cases
    case 1
    then show ?thesis by (simp add: chunk_slices_stop)
  next
    case 2
    then show ?thesis by (simp add: chunk_slices_last)
  next
    case 3
    with "1.IH" show ?thesis
      by (cases "chunk_slices token_ids cs ov (start + chunk_stride cs ov) = []")
         (simp_all add: chunk_slices_step [OF 3])
  qed
qed

lemma stride_le: "0 < cs \<Longrightarrow> chunk_stride cs ov \<le> cs"
  by (simp add: chunk_stride_def)

lemma chunk_slices_starts:
  assumes "0 < cs" and "start < length token_ids"
  shows "chunk_slices token_ids cs ov start \<noteq> [] \<and>
    (\<forall>j < length (chunk_slices token_ids cs ov start).
       chunk_slices token_ids cs ov start ! j = take cs (drop (start + j * chunk_stride cs ov) token_ids)) \<and>
    (\<forall>j. Suc j < length (chunk_slices token_ids cs ov start) \<longrightarrow>
       start + j * chunk_stride cs ov + cs < length token_ids) \<and>
    length token_ids \<le> start + (length (chunk_slices token_ids cs ov start) - 1) * chunk_stride cs ov + cs"
  using assms
proof (induction token_ids cs ov start rule: chunk_slices.induct)
  case (1 token_ids cs ov start)
  let ?s = "chunk_stride cs ov"
  show ?case
  proof (cases "start + cs < length token_ids")
    case False
    then show ?thesis using "1.prems" by (simp add: chunk_slices_last)
  next
    case True
    let ?ws = "chunk_slices token_ids cs ov (start + ?s)"
    have lt: "start + ?s < length token_ids" using True stride_le [OF "1.prems"(1), of ov] by linarith
    have IH: "?ws \<noteq> [] \<and>
      (\<forall>j < length ?ws. ?ws ! j = take cs (drop (start + ?s + j * ?s) token_ids)) \<and>
      (\<forall>j. Suc j < length ?ws \<longrightarrow> start + ?s + j * ?s + cs < length token_ids) \<and>
      length token_ids \<le> start + ?s + (length ?ws - 1) * ?s + cs"
      using "1.IH" [OF "1.prems"(2) _ "1.prems"(1) lt] True by simp
    have unf: "chunk_slices token_ids cs ov start = take cs (drop start token_ids) # ?ws"
      by (rule chunk_slices_step [OF True])
    have nth: "\<forall>j < length (take cs (drop start token_ids) # ?ws).
       (take cs (drop start token_ids) # ?ws) ! j = take cs (drop (start + j * ?s) token_ids)"
    proof (intro allI impI)
      fix j assume j: "j < length (take cs (drop start token_ids) # ?ws)"
      show "(take cs (drop start token_ids) # ?ws) ! j = take cs (drop (start + j * ?s) token_ids)"
      proof (cases j)
        case 0
        then show ?thesis by simp
      next
        case (Suc i)
        then have "i < length ?ws" using j by simp
        with IH Suc show ?thesis by (simp add: add.assoc)
      qed
    qed
    have ends: "\<forall>j. Suc j < length (take cs (drop start token_ids) # ?ws) \<longrightarrow>
       start + j * ?s + cs < length token_ids"
    proof (intro allI impI)
      fix j assume j: "Suc j < length (take cs (drop start token_ids) # ?ws)"
      show "start + j * ?s + cs < length token_ids"
      proof (cases j)
        case 0
        then show ?thesis using True by simp
      next
        case (Suc i)
        then have "Suc i < length ?ws" using j by simp
        with IH Suc show ?thesis by (simp add: add.assoc)
      qed
    qed
    have last: "length token_ids \<le> start + (length (take cs (drop start token_ids) # ?ws) - 1) * ?s + cs"
    proof -
      obtain m where m: "length ?ws = Suc m" using IH by (cases ?ws) auto
      then show ?thesis using IH by (simp add: add.assoc)
    qed
    show ?thesis using nth ends last by (simp only: unf) simp
  qed
qed

text \<open>C2. Exact overlap: when \<open>overlap < chunk_size\<close>, the last \<open>overlap\<close> tokens
  of each window are the first \<open>overlap\<close> tokens of the next one.\<close>

theorem chunk_slices_overlap:
  "ov < cs \<Longrightarrow>
   successively (\<lambda>a b. drop (cs - ov) a = take ov b) (chunk_slices token_ids cs ov start)"
proof (induction token_ids cs ov start rule: chunk_slices.induct)
  case (1 token_ids cs ov start)
  let ?s = "chunk_stride cs ov"
  show ?case
  proof (cases "start + cs < length token_ids")
    case False
    then show ?thesis
      by (cases "start < length token_ids") (simp_all add: chunk_slices_unfold)
  next
    case True
    have IH: "successively (\<lambda>a b. drop (cs - ov) a = take ov b)
                (chunk_slices token_ids cs ov (start + ?s))"
      using "1.IH" "1.prems" True by simp
    have s: "?s = cs - ov" using "1.prems" by (simp add: chunk_stride_def)
    have ne: "start + ?s < length token_ids" using True "1.prems" s by linarith
    have next_hd: "take ov (hd (chunk_slices token_ids cs ov (start + ?s))) =
                   take ov (drop (start + ?s) token_ids)"
      using ne "1.prems"
      by (cases "start + ?s + cs < length token_ids")
         (simp_all add: chunk_slices_unfold min_def)
    have "drop (cs - ov) (take cs (drop start token_ids)) = take ov (drop (start + ?s) token_ids)"
      using "1.prems" s by (simp add: drop_take add.commute)
    then show ?thesis
      using IH next_hd ne
      by (cases "chunk_slices token_ids cs ov (start + ?s)")
         (simp_all add: chunk_slices_step [OF True] chunk_slices_empty_iff)
  qed
qed

subsection \<open>Reassembly\<close>

lemma concat_drop_chunk_slices:
  "ov < cs \<Longrightarrow>
   concat (map (drop ov) (chunk_slices token_ids cs ov start)) = drop (start + ov) token_ids"
proof (induction token_ids cs ov start rule: chunk_slices.induct)
  case (1 token_ids cs ov start)
  consider "length token_ids \<le> start"
    | "start < length token_ids" "length token_ids \<le> start + cs"
    | "start + cs < length token_ids"
    by linarith
  then show ?case
  proof cases
    case 1
    then show ?thesis by (simp add: chunk_slices_stop)
  next
    case 2
    then show ?thesis by (simp add: chunk_slices_last add.commute)
  next
    case 3
    have IH: "concat (map (drop ov) (chunk_slices token_ids cs ov (start + chunk_stride cs ov))) =
              drop (start + chunk_stride cs ov + ov) token_ids"
      using "1.IH" "1.prems" 3 by simp
    have "drop ov (take cs (drop start token_ids)) @ drop (start + cs) token_ids =
          drop (start + ov) token_ids"
    proof -
      have "drop ov (take cs (drop start token_ids)) = take (cs - ov) (drop (start + ov) token_ids)"
        by (simp add: drop_take add.commute)
      moreover have "drop (start + cs) token_ids = drop (cs - ov) (drop (start + ov) token_ids)"
        using "1.prems" by (simp add: add.commute)
      ultimately show ?thesis by (metis append_take_drop_id)
    qed
    with IH 3 "1.prems" show ?thesis
      by (simp add: chunk_slices_step stride_overlap add.assoc)
  qed
qed

text \<open>C1. Reassembly: when \<open>overlap < chunk_size\<close>, the first window followed by every
  later window without its first \<open>overlap\<close> tokens is the whole token stream: the
  windows cover it with no gap and no duplication.\<close>

theorem chunk_windows_reassemble:
  "ov < cs \<Longrightarrow> merge_windows ov (chunk_slices token_ids cs ov 0) = token_ids"
proof (cases "cs < length token_ids")
  case True
  assume ov: "ov < cs"
  have "merge_windows ov (chunk_slices token_ids cs ov 0) =
        take cs token_ids @ drop (chunk_stride cs ov + ov) token_ids"
    using True ov by (simp add: chunk_slices_step concat_drop_chunk_slices)
  also have "\<dots> = token_ids" using ov by (simp add: stride_overlap)
  finally show ?thesis .
next
  case False
  then show ?thesis
    by (cases "token_ids = []") (simp_all add: chunk_slices_unfold)
qed

text \<open>C3. Where the loop stops: for a positive \<open>chunk_size\<close> and a non-empty token list,
  window \<open>j\<close> is the slice starting at \<open>j * stride\<close>, every window but the last ends before
  the last token, and the last one reaches it: the early \<open>break\<close> ends the loop at
  the first window that reaches the end, so no window repeats the end of the one before.\<close>

theorem chunk_slices_windows:
  assumes "0 < cs" and "token_ids \<noteq> []"
  shows "(\<forall>j < length (chunk_slices token_ids cs ov 0).
            chunk_slices token_ids cs ov 0 ! j = take cs (drop (j * chunk_stride cs ov) token_ids)) \<and>
         (\<forall>j. Suc j < length (chunk_slices token_ids cs ov 0) \<longrightarrow>
            j * chunk_stride cs ov + cs < length token_ids) \<and>
         length token_ids \<le> (length (chunk_slices token_ids cs ov 0) - 1) * chunk_stride cs ov + cs"
  using chunk_slices_starts [OF assms(1), of 0 token_ids ov] assms(2) by simp

text \<open>Empty input: \<open>chunk_text\<close> returns no chunk exactly when the text
  encodes to no token.\<close>

theorem chunk_text_empty_iff:
  "chunk_text tokenizer text cs ov = [] \<longleftrightarrow> tok_encode tokenizer text = []"
  by (simp add: chunk_text_def chunk_slices_empty_iff)

subsection \<open>Witnesses\<close>

lemma chunk_slices_example:
  "chunk_slices [10, 20, 30, 40, 50 :: nat] 3 1 0 = [[10, 20, 30], [30, 40, 50]]"
  by (simp add: chunk_slices.simps py_slice_def chunk_stride_def)

theorem chunk_windows_reassemble_witness:
  "(1::nat) < 3 \<and> merge_windows 1 (chunk_slices [10, 20, 30, 40, 50 :: nat] 3 1 0) = [10, 20, 30, 40, 50]"
  using chunk_windows_reassemble [of 1 3 "[10, 20, 30, 40, 50 :: nat]"] by simp

theorem chunk_slices_overlap_witness:
  "(1::nat) < 3 \<and>
   successively (\<lambda>a b. drop (3 - 1) a = take 1 b) (chunk_slices [10, 20, 30, 40, 50 :: nat] 3 1 0)"
  using chunk_slices_overlap [of 1 3 "[10, 20, 30, 40, 50 :: nat]" 0] by simp

theorem chunk_slices_sizes_witness:
  "length (hd (chunk_slices [10, 20, 30, 40, 50 :: nat] 3 1 0)) = 3 \<and>
   length (last (chunk_slices [10, 20, 30, 40, 50 :: nat] 3 1 0)) \<le> 3"
proof -
  let ?ws = "chunk_slices [10, 20, 30, 40, 50 :: nat] 3 1 0"
  have full: "\<forall>w \<in> set (butlast ?ws). length w = 3"
    and bound: "\<forall>w \<in> set ?ws. length w \<le> 3"
    using chunk_slices_sizes [of "[10, 20, 30, 40, 50 :: nat]" 3 1 0] by blast+
  have "hd ?ws \<in> set (butlast ?ws)" and "last ?ws \<in> set ?ws"
    by (simp_all add: chunk_slices.simps py_slice_def chunk_stride_def)
  with full bound show ?thesis by blast
qed

theorem chunk_slices_windows_witness:
  "chunk_slices [10, 20, 30, 40, 50 :: nat] 3 1 0 ! 1 = [30, 40, 50] \<and>
   length [10, 20, 30, 40, 50 :: nat] \<le> (length (chunk_slices [10, 20, 30, 40, 50 :: nat] 3 1 0) - 1) * chunk_stride 3 1 + 3"
proof -
  have ne: "[10, 20, 30, 40, 50 :: nat] \<noteq> []" by simp
  have l: "length (chunk_slices [10, 20, 30, 40, 50 :: nat] 3 1 0) = 2"
    unfolding chunk_slices_example by simp
  show ?thesis
    using chunk_slices_windows [OF _ ne, of 3 1] l by (simp add: chunk_stride_def)
qed
end
