(* ===== verification/Extractor.thy ===== *)
theory Extractor
  imports Chunker
begin

text \<open>
  The OCR worker of \<open>src/mha_chatbot/ingest2.py\<close>, \<open>process_pdf_for_worker\<close>
  (lines 58-82). The PDF library and Tesseract are external: the data directory is a map
  from paths to files, a file either fails to open or is a list of pages, and a page is
  either the text Tesseract recognised or a rendering/OCR failure. The page loop keeps
  the accumulator \<open>chunks_with_meta\<close> of the source; any exception inside the
  \<open>try\<close> makes the whole document contribute no chunk.
\<close>

datatype page_scan = PageText string | PageError

datatype pdf_file = PdfPages "page_scan list" | PdfError

record doc_meta =
  filename :: string
  doc_title :: string
  doc_date :: string

record chunk =
  source :: string
  title :: string
  date :: string
  page :: nat
  chunk_index_on_page :: nat
  ctext :: string
  uid :: "nat option"

type_synonym data_dir = "string \<rightharpoonup> pdf_file"

text \<open>The chunks of one page: \<open>enumerate(text_chunks, start=1)\<close> (lines 69-78).\<close>

definition page_chunks :: "'t tokenizer \<Rightarrow> doc_meta \<Rightarrow> nat \<Rightarrow> string \<Rightarrow> chunk list" where
  "page_chunks tokenizer doc_meta page_num text =
     map (\<lambda>(idx, c). \<lparr>source = filename doc_meta, title = doc_title doc_meta,
                       date = doc_date doc_meta, page = page_num,
                       chunk_index_on_page = idx, ctext = c, uid = None\<rparr>)
         (enumerate 1 (chunk_text tokenizer text CHUNK_SIZE CHUNK_OVERLAP))"

text \<open>The loop over \<open>enumerate(pdf.pages, start=1)\<close> (lines 64-78); \<open>None\<close> is
  an exception raised by a page.\<close>

fun scan_pages ::
  "'t tokenizer \<Rightarrow> doc_meta \<Rightarrow> nat \<Rightarrow> chunk list \<Rightarrow> page_scan list \<Rightarrow> chunk list option" where
  "scan_pages tokenizer doc_meta page_num acc [] = Some acc"
| "scan_pages tokenizer doc_meta page_num acc (PageError # pages) = None"
| "scan_pages tokenizer doc_meta page_num acc (PageText text # pages) =
     scan_pages tokenizer doc_meta (Suc page_num)
       (if py_is_blank text then acc else acc @ page_chunks tokenizer doc_meta page_num text)
       pages"

definition process_pdf_for_worker ::
  "'t tokenizer \<Rightarrow> data_dir \<Rightarrow> string \<times> doc_meta \<Rightarrow> chunk list" where
  "process_pdf_for_worker tokenizer fs task =
     (case task of (pdf_path, doc_meta) \<Rightarrow>
       (case fs pdf_path of
          None \<Rightarrow> []
        | Some PdfError \<Rightarrow> []
        | Some (PdfPages pages) \<Rightarrow>
            (case scan_pages tokenizer doc_meta 1 [] pages of
               None \<Rightarrow> []
             | Some chunks_with_meta \<Rightarrow> chunks_with_meta)))"

text \<open>What one page contributes when no page fails.\<close>

fun page_contribution :: "'t tokenizer \<Rightarrow> doc_meta \<Rightarrow> nat \<times> page_scan \<Rightarrow> chunk list" where
  "page_contribution tokenizer doc_meta (n, PageText text) =
     (if py_is_blank text then [] else page_chunks tokenizer doc_meta n text)"
| "page_contribution tokenizer doc_meta (n, PageError) = []"

subsection \<open>The page loop\<close>

lemma scan_pages_error:
  "PageError \<in> set pages \<Longrightarrow> scan_pages tokenizer doc_meta n acc pages = None"
proof (induction pages arbitrary: n acc)
  case Nil
  then show ?case by simp
next
  case (Cons p pages)
  then show ?case by (cases p) auto
qed

lemma scan_pages_ok:
  "PageError \<notin> set pages \<Longrightarrow>
   scan_pages tokenizer doc_meta n acc pages =
     Some (acc @ concat (map (page_contribution tokenizer doc_meta) (enumerate n pages)))"
proof (induction pages arbitrary: n acc)
  case Nil
  then show ?case by simp
next
  case (Cons p pages)
  then show ?case by (cases p) auto
qed

lemma page_chunks_fields:
  "c \<in> set (page_chunks tokenizer doc_meta n text) \<Longrightarrow>
   source c = filename doc_meta \<and> title c = doc_title doc_meta \<and> date c = doc_date doc_meta \<and>
   page c = n \<and> 1 \<le> chunk_index_on_page c \<and> uid c = None"
  by (auto simp: page_chunks_def in_set_enumerate_eq)

lemma page_contribution_page:
  "c \<in> set (page_contribution tokenizer doc_meta (n, s)) \<Longrightarrow> page c = n"
  by (cases s) (auto split: if_splits dest: page_chunks_fields)

lemma filter_page_enumerate:
  "filter (\<lambda>c. page c = p) (concat (map (page_contribution tokenizer doc_meta) (enumerate n pages))) =
   (if n \<le> p \<and> p < n + length pages
    then page_contribution tokenizer doc_meta (p, pages ! (p - n)) else [])"
proof (induction pages arbitrary: n)
  case Nil
  then show ?case by auto
next
  case (Cons s pages)
  have own: "filter (\<lambda>c. page c = p) (page_contribution tokenizer doc_meta (n, s)) =
             (if p = n then page_contribution tokenizer doc_meta (n, s) else [])"
    by (auto simp: filter_id_conv filter_empty_conv dest: page_contribution_page)
  show ?case
  proof (cases "p = n")
    case True
    then show ?thesis using Cons.IH [of "Suc n"] own by simp
  next
    case False
    then show ?thesis using Cons.IH [of "Suc n"] by (auto simp: own nth_Cons' Suc_diff_Suc)
  qed
qed

lemma page_chunks_texts:
  "map ctext (page_chunks tokenizer doc_meta n text) = chunk_text tokenizer text CHUNK_SIZE CHUNK_OVERLAP"
proof -
  have "map ctext (page_chunks tokenizer doc_meta n text) =
        map snd (enumerate 1 (chunk_text tokenizer text CHUNK_SIZE CHUNK_OVERLAP))"
    by (simp add: page_chunks_def comp_def case_prod_beta)
  then show ?thesis by (simp only: map_snd_enumerate)
qed

lemma page_chunks_indices:
  "map chunk_index_on_page (page_chunks tokenizer doc_meta n text) =
   [1..<Suc (length (chunk_text tokenizer text CHUNK_SIZE CHUNK_OVERLAP))]"
proof -
  have "map chunk_index_on_page (page_chunks tokenizer doc_meta n text) =
        map fst (enumerate 1 (chunk_text tokenizer text CHUNK_SIZE CHUNK_OVERLAP))"
    by (simp add: page_chunks_def comp_def case_prod_beta)
  then show ?thesis by (simp only: map_fst_enumerate) simp
qed

subsection \<open>The worker\<close>

lemma worker_ok:
  "fs pdf_path = Some (PdfPages pages) \<Longrightarrow> PageError \<notin> set pages \<Longrightarrow>
   process_pdf_for_worker tokenizer fs (pdf_path, doc_meta) =
     concat (map (page_contribution tokenizer doc_meta) (enumerate 1 pages))"
  by (simp add: process_pdf_for_worker_def scan_pages_ok)

lemma worker_nonempty:
  "process_pdf_for_worker tokenizer fs (pdf_path, doc_meta) \<noteq> [] \<Longrightarrow>
   \<exists>pages. fs pdf_path = Some (PdfPages pages) \<and> PageError \<notin> set pages"
  by (auto simp: process_pdf_for_worker_def scan_pages_error
           split: option.splits pdf_file.splits)

lemma page_contribution_member:
  "c \<in> set (page_contribution tokenizer doc_meta (n, s)) \<Longrightarrow>
   \<exists>t. s = PageText t \<and> \<not> py_is_blank t \<and> c \<in> set (page_chunks tokenizer doc_meta n t)"
  by (cases s) (auto split: if_splits)

text \<open>C4. Per-document failure: a file that is missing, that cannot be opened, or any
  page of which fails to render or OCR, contributes no chunk at all, even from the pages
  read before the failure.\<close>

theorem worker_failure_no_chunks:
  assumes "fs pdf_path = None \<or> fs pdf_path = Some PdfError \<or>
           (\<exists>pages. fs pdf_path = Some (PdfPages pages) \<and> PageError \<in> set pages)"
  shows "process_pdf_for_worker tokenizer fs (pdf_path, doc_meta) = []"
  using assms by (auto simp: process_pdf_for_worker_def scan_pages_error)

text \<open>Per-page output: when no page fails, the chunks the worker emits for page
  \<open>p\<close> (1-based) are none for a blank page and otherwise exactly the numbered chunks of
  that page's text, in order.\<close>

theorem worker_page_chunks:
  assumes "fs pdf_path = Some (PdfPages pages)" and "PageError \<notin> set pages"
    and "1 \<le> p" and "p \<le> length pages" and "pages ! (p - 1) = PageText t"
  shows "filter (\<lambda>c. page c = p) (process_pdf_for_worker tokenizer fs (pdf_path, doc_meta)) =
         (if py_is_blank t then [] else page_chunks tokenizer doc_meta p t)"
  using assms by (simp add: worker_ok filter_page_enumerate)

text \<open>Numbering of a page's chunks: their texts are the chunker's output for the page
  text, and their \<open>chunk_index_on_page\<close> values are \<open>1, 2, ...\<close> in order.\<close>

theorem page_chunks_numbering:
  "map ctext (page_chunks tokenizer doc_meta n text) = chunk_text tokenizer text CHUNK_SIZE CHUNK_OVERLAP \<and>
   map chunk_index_on_page (page_chunks tokenizer doc_meta n text) =
     [1..<Suc (length (chunk_text tokenizer text CHUNK_SIZE CHUNK_OVERLAP))]"
  by (simp add: page_chunks_texts page_chunks_indices)

text \<open>C5. Provenance: every chunk the worker emits comes from a readable file, names
  the document's filename, title and date, lies on an existing non-blank page, has a
  positive index on that page and no uid yet.\<close>

theorem worker_chunk_provenance:
  assumes "c \<in> set (process_pdf_for_worker tokenizer fs (pdf_path, doc_meta))"
  shows "\<exists>pages t. fs pdf_path = Some (PdfPages pages) \<and>
           1 \<le> page c \<and> page c \<le> length pages \<and> pages ! (page c - 1) = PageText t \<and>
           \<not> py_is_blank t \<and> source c = filename doc_meta \<and> title c = doc_title doc_meta \<and>
           date c = doc_date doc_meta \<and> 1 \<le> chunk_index_on_page c \<and> uid c = None"
proof -
  from assms have "process_pdf_for_worker tokenizer fs (pdf_path, doc_meta) \<noteq> []" by auto
  then obtain pages where fs: "fs pdf_path = Some (PdfPages pages)"
    and ok: "PageError \<notin> set pages"
    using worker_nonempty by blast
  from assms fs ok obtain i s where
    mem: "(i, s) \<in> set (enumerate 1 pages)" and
    c: "c \<in> set (page_contribution tokenizer doc_meta (i, s))"
    by (auto simp: worker_ok)
  from c obtain t where s: "s = PageText t" and nb: "\<not> py_is_blank t"
    and cp: "c \<in> set (page_chunks tokenizer doc_meta i t)"
    by (blast dest: page_contribution_member)
  from mem have "1 \<le> i" "i \<le> length pages" "pages ! (i - 1) = s"
    by (auto simp: in_set_enumerate_eq)
  with fs s nb cp show ?thesis
    by (auto dest: page_chunks_fields)
qed

subsection \<open>Witnesses\<close>

lemma char_page_chunks_example:
  "page_chunks \<lparr>tok_encode = (\<lambda>s. s), tok_decode = (\<lambda>s. s)\<rparr>
     \<lparr>filename = ''d.pdf'', doc_title = ''T'', doc_date = ''D''\<rparr> (Suc 0) ''ab'' =
   [\<lparr>source = ''d.pdf'', title = ''T'', date = ''D'', page = Suc 0,
     chunk_index_on_page = Suc 0, ctext = ''ab'', uid = None\<rparr>]"
  by (simp add: page_chunks_def chunk_text_def chunk_slices.simps py_slice_def
                CHUNK_SIZE_def CHUNK_OVERLAP_def chunk_stride_def)

theorem worker_failure_no_chunks_witness:
  "(let fs = Map.empty(''d.pdf'' \<mapsto> PdfPages [PageText ''ab'', PageError]) in
     (\<exists>pages. fs ''d.pdf'' = Some (PdfPages pages) \<and> PageError \<in> set pages) \<and>
     process_pdf_for_worker \<lparr>tok_encode = (\<lambda>s. s), tok_decode = (\<lambda>s. s)\<rparr> fs
       (''d.pdf'', \<lparr>filename = ''d.pdf'', doc_title = ''T'', doc_date = ''D''\<rparr>) = [])"
  using worker_failure_no_chunks
    [where fs = "Map.empty(''d.pdf'' \<mapsto> PdfPages [PageText ''ab'', PageError])"
       and pdf_path = "''d.pdf''" and tokenizer = "\<lparr>tok_encode = (\<lambda>s. s), tok_decode = (\<lambda>s. s)\<rparr>"
       and doc_meta = "\<lparr>filename = ''d.pdf'', doc_title = ''T'', doc_date = ''D''\<rparr>"]
  by simp

theorem worker_page_chunks_witness:
  "(let fs = Map.empty(''d.pdf'' \<mapsto> PdfPages [PageText ''ab'', PageText '' '']);
        tok = \<lparr>tok_encode = (\<lambda>s. s), tok_decode = (\<lambda>s. s)\<rparr>;
        m = \<lparr>filename = ''d.pdf'', doc_title = ''T'', doc_date = ''D''\<rparr> in
     fs ''d.pdf'' = Some (PdfPages [PageText ''ab'', PageText '' '']) \<and>
     PageError \<notin> set [PageText ''ab'', PageText '' ''] \<and>
     [PageText ''ab'', PageText '' ''] ! (1 - 1) = PageText ''ab'' \<and>
     filter (\<lambda>c. page c = 1) (process_pdf_for_worker tok fs (''d.pdf'', m)) =
       [\<lparr>source = ''d.pdf'', title = ''T'', date = ''D'', page = 1,
         chunk_index_on_page = 1, ctext = ''ab'', uid = None\<rparr>])"
proof -
  have nb: "\<not> py_is_blank ''ab''" by (simp add: py_is_blank_def is_py_space_def)
  show ?thesis
    using worker_page_chunks
      [where fs = "Map.empty(''d.pdf'' \<mapsto> PdfPages [PageText ''ab'', PageText '' ''])"
         and pdf_path = "''d.pdf''" and pages = "[PageText ''ab'', PageText '' '']"
         and p = 1 and t = "''ab''" and tokenizer = "\<lparr>tok_encode = (\<lambda>s. s), tok_decode = (\<lambda>s. s)\<rparr>"
         and doc_meta = "\<lparr>filename = ''d.pdf'', doc_title = ''T'', doc_date = ''D''\<rparr>"]
    by (simp add: nb char_page_chunks_example)
qed

theorem worker_chunk_provenance_witness:
  "(let fs = Map.empty(''d.pdf'' \<mapsto> PdfPages [PageText ''ab'']);
        tok = \<lparr>tok_encode = (\<lambda>s. s), tok_decode = (\<lambda>s. s)\<rparr>;
        m = \<lparr>filename = ''d.pdf'', doc_title = ''T'', doc_date = ''D''\<rparr>;
        c = \<lparr>source = ''d.pdf'', title = ''T'', date = ''D'', page = 1,
             chunk_index_on_page = 1, ctext = ''ab'', uid = None\<rparr> in
     c \<in> set (process_pdf_for_worker tok fs (''d.pdf'', m)) \<and>
     source c = ''d.pdf'' \<and> page c = 1 \<and> uid c = None)"
proof -
  let ?fs = "Map.empty(''d.pdf'' \<mapsto> PdfPages [PageText ''ab''])"
  let ?tok = "\<lparr>tok_encode = (\<lambda>s. s), tok_decode = (\<lambda>s. s)\<rparr> :: char tokenizer"
  let ?m = "\<lparr>filename = ''d.pdf'', doc_title = ''T'', doc_date = ''D''\<rparr>"
  let ?c = "\<lparr>source = ''d.pdf'', title = ''T'', date = ''D'', page = 1,
             chunk_index_on_page = 1, ctext = ''ab'', uid = None\<rparr>"
  have nb: "\<not> py_is_blank ''ab''" by (simp add: py_is_blank_def is_py_space_def)
  have mem: "?c \<in> set (process_pdf_for_worker ?tok ?fs (''d.pdf'', ?m))"
    by (simp add: process_pdf_for_worker_def nb char_page_chunks_example)
  show ?thesis
    using worker_chunk_provenance [OF mem] mem by simp
qed

end
