(* ===== verification/Embedding.thy ===== *)
theory Embedding
  imports Prelude
begin

text \<open>
  Embedding vectors and the vector index. \<open>normalize_embeddings\<close>
  (\<open>src/mha_chatbot/ingest2.py\<close> 84-87) divides every row by its L2 norm floored at
  \<open>1e-12\<close>; \<open>retrieve\<close> (\<open>chat2.py\<close> 101) divides the query by its norm
  plus \<open>1e-12\<close>. Floats are idealised as reals. The flat inner-product index
  (\<open>faiss.IndexFlatIP\<close>, \<open>add\<close>, \<open>search\<close>) is a library the code only calls; it is
  modelled from its contract in spec section 4.4: exact search, scores descending, ties
  in position order, \<open>-1\<close> positions padding a result longer than the index.
\<close>

definition inner :: "vec \<Rightarrow> vec \<Rightarrow> real" where
  "inner a b = sum_list (map (\<lambda>(x, y). x * y) (zip a b))"

definition sq_norm :: "vec \<Rightarrow> real" where
  "sq_norm v = sum_list (map (\<lambda>x. x\<^sup>2) v)"

definition l2_norm :: "vec \<Rightarrow> real" where
  "l2_norm v = sqrt (sq_norm v)"

definition EPS :: real where
  "EPS = 1 / 10 ^ 12"

definition normalize_row :: "vec \<Rightarrow> vec" where
  "normalize_row v = map (\<lambda>x. x / max (l2_norm v) EPS) v"

definition normalize_embeddings :: "vec list \<Rightarrow> vec list" where
  "normalize_embeddings emb = map normalize_row emb"

definition normalize_query :: "vec \<Rightarrow> vec" where
  "normalize_query q = map (\<lambda>x. x / (l2_norm q + EPS)) q"

subsection \<open>The flat inner-product index\<close>

record flat_index =
  dim :: nat
  xb :: "vec list"

definition IndexFlatIP :: "nat \<Rightarrow> flat_index" where
  "IndexFlatIP d = \<lparr>dim = d, xb = []\<rparr>"

definition index_add :: "flat_index \<Rightarrow> vec list \<Rightarrow> flat_index py_result" where
  "index_add index x =
     (if list_all (\<lambda>v. length v = dim index) x then Inr (index\<lparr>xb := xb index @ x\<rparr>)
      else Inl (ValueError ''dimension mismatch in add''))"

text \<open>The score FAISS reports with a padding position: \<open>-FLT_MAX\<close>.\<close>

definition FAISS_PAD :: real where
  "FAISS_PAD = - 340282346638528859811704183484516925440"

text \<open>\<open>search\<close> for one query, as the pairs \<open>(I[0][j], D[0][j])\<close> the caller zips.\<close>

definition index_ranking :: "flat_index \<Rightarrow> vec \<Rightarrow> (int \<times> real) list" where
  "index_ranking index q = sort_desc snd (map (\<lambda>(i, v). (int i, inner q v)) (enumerate 0 (xb index)))"

definition index_search :: "flat_index \<Rightarrow> vec \<Rightarrow> nat \<Rightarrow> (int \<times> real) list" where
  "index_search index q k =
     take k (index_ranking index q) @ replicate (k - length (xb index)) (-1, FAISS_PAD)"

subsection \<open>Norms\<close>

lemma sq_norm_simps [simp]:
  "sq_norm [] = 0"
  "sq_norm (x # v) = x\<^sup>2 + sq_norm v"
  by (simp_all add: sq_norm_def)

lemma sq_norm_nonneg [simp]: "0 \<le> sq_norm v"
  by (induction v) simp_all

lemma l2_norm_nonneg [simp]: "0 \<le> l2_norm v"
  by (simp add: l2_norm_def)

lemma EPS_pos [simp]: "0 < EPS"
  by (simp add: EPS_def)

lemma sq_norm_scale: "sq_norm (map (\<lambda>x. x / c) v) = sq_norm v / c\<^sup>2"
  by (induction v) (simp_all add: power_divide add_divide_distrib)

lemma l2_norm_scale: "0 < c \<Longrightarrow> l2_norm (map (\<lambda>x. x / c) v) = l2_norm v / c"
  by (simp add: l2_norm_def sq_norm_scale real_sqrt_divide)

lemma sq_norm_zero_iff: "sq_norm v = 0 \<longleftrightarrow> (\<forall>x \<in> set v. x = 0)"
  by (induction v) (simp_all add: add_nonneg_eq_0_iff)

lemma l2_norm_zero_iff: "l2_norm v = 0 \<longleftrightarrow> (\<forall>x \<in> set v. x = 0)"
  by (simp add: l2_norm_def sq_norm_zero_iff)

lemma normalize_row_norm:
  "l2_norm (normalize_row v) = l2_norm v / max (l2_norm v) EPS"
  unfolding normalize_row_def by (rule l2_norm_scale) (simp add: less_max_iff_disj)

lemma normalize_query_norm:
  "l2_norm (normalize_query q) = l2_norm q / (l2_norm q + EPS)"
  unfolding normalize_query_def by (rule l2_norm_scale) (simp add: add_nonneg_pos)

lemma length_normalize_row [simp]: "length (normalize_row v) = length v"
  by (simp add: normalize_row_def)

lemma length_normalize_query [simp]: "length (normalize_query q) = length q"
  by (simp add: normalize_query_def)

subsection \<open>Inner products of short vectors\<close>

lemma two_inner_le: "2 * inner a b \<le> sq_norm a + sq_norm b"
proof (induction a arbitrary: b)
  case Nil
  then show ?case by (simp add: inner_def)
next
  case (Cons x a)
  show ?case
  proof (cases b)
    case Nil
    then show ?thesis
      by (simp add: inner_def add_nonneg_nonneg)
  next
    case (Cons y b')
    have xy: "2 * (x * y) \<le> x\<^sup>2 + y\<^sup>2"
      using sum_squares_bound [of x y] by (simp add: power2_eq_square)
    from Cons.IH [of b'] xy Cons show ?thesis
      by (simp add: inner_def algebra_simps)
  qed
qed

lemma inner_neg_left: "inner (map uminus a) b = - inner a b"
proof (induction a arbitrary: b)
  case Nil
  then show ?case by (simp add: inner_def)
next
  case (Cons x a)
  then show ?case by (cases b) (simp_all add: inner_def)
qed

lemma sq_norm_neg [simp]: "sq_norm (map uminus a) = sq_norm a"
  by (induction a) simp_all

lemma abs_inner_le: "2 * \<bar>inner a b\<bar> \<le> sq_norm a + sq_norm b"
  using two_inner_le [of a b] two_inner_le [of "map uminus a" b]
  by (simp add: inner_neg_left)

lemma sq_norm_le_one: "l2_norm v \<le> 1 \<Longrightarrow> sq_norm v \<le> 1"
  by (simp add: l2_norm_def)

subsection \<open>Index search\<close>

lemma length_index_ranking [simp]: "length (index_ranking index q) = length (xb index)"
  by (simp add: index_ranking_def)

lemma index_search_length [simp]: "length (index_search index q k) = k"
  by (simp add: index_search_def)

lemma index_ranking_mem:
  "(i, s) \<in> set (index_ranking index q) \<Longrightarrow>
   0 \<le> i \<and> i < int (length (xb index)) \<and> s = inner q (xb index ! nat i)"
  by (auto simp: index_ranking_def in_set_enumerate_eq)

lemma index_search_mem:
  "c \<in> set (index_search index q k) \<Longrightarrow>
   c = (-1, FAISS_PAD) \<or> c \<in> set (index_ranking index q)"
  by (auto simp: index_search_def dest: in_set_takeD)

lemma normalize_row_norm_le: "l2_norm (normalize_row v) \<le> 1"
  by (simp add: normalize_row_norm divide_le_eq_1 less_max_iff_disj)

lemma normalize_query_norm_lt: "l2_norm (normalize_query q) < 1"
  by (simp add: normalize_query_norm add_nonneg_pos)

subsection \<open>Properties\<close>

text \<open>C6. Stored embeddings: a row whose norm is at least the floor \<open>1e-12\<close> is stored
  with norm exactly 1.\<close>

theorem normalize_row_unit:
  assumes "EPS \<le> l2_norm v"
  shows "l2_norm (normalize_row v) = 1"
proof -
  have "0 < l2_norm v" using assms EPS_pos by linarith
  with assms show ?thesis by (simp add: normalize_row_norm max_def)
qed

text \<open>C7. Rows below the floor: a row whose norm is below \<open>1e-12\<close>, the zero embedding
  included, is divided by \<open>1e-12\<close> instead of its norm, so it is stored with norm
  \<open>|v| / 1e-12\<close>, strictly below 1.\<close>

theorem normalize_row_below_floor:
  assumes "l2_norm v < EPS"
  shows "normalize_row v = map (\<lambda>x. x / EPS) v \<and> l2_norm (normalize_row v) = l2_norm v / EPS \<and>
         l2_norm (normalize_row v) < 1"
proof -
  have m: "max (l2_norm v) EPS = EPS" using assms by simp
  have "l2_norm (normalize_row v) = l2_norm v / EPS" by (simp add: normalize_row_norm m)
  moreover have "l2_norm v / EPS < 1" using assms by simp
  ultimately show ?thesis by (simp add: normalize_row_def m)
qed

text \<open>Cosine range: the inner product of a normalised query with a stored normalised
  row lies in \<open>[-1, 1]\<close>.\<close>

theorem search_score_range: "\<bar>inner (normalize_query q) (normalize_row v)\<bar> \<le> 1"
proof -
  have "sq_norm (normalize_query q) \<le> 1"
    using normalize_query_norm_lt [of q] by (simp add: sq_norm_le_one)
  moreover have "sq_norm (normalize_row v) \<le> 1"
    using normalize_row_norm_le [of v] by (simp add: sq_norm_le_one)
  ultimately show ?thesis
    using abs_inner_le [of "normalize_query q" "normalize_row v"] by linarith
qed

theorem normalize_row_below_floor_witness:
  "l2_norm [EPS / 2] < EPS \<and> normalize_row [EPS / 2] = [1 / 2]"
proof -
  have n: "l2_norm [EPS / 2] = EPS / 2" by (simp add: l2_norm_def abs_of_pos)
  have e: "l2_norm [EPS / 2] < EPS" by (simp add: n)
  show ?thesis using normalize_row_below_floor [OF e] e EPS_pos by simp
qed

theorem normalize_row_unit_witness: "EPS \<le> l2_norm [3, 4] \<and> l2_norm (normalize_row [3, 4]) = 1"
proof -
  have n: "l2_norm [3, 4] = 5" by (simp add: l2_norm_def)
  have e: "EPS \<le> l2_norm [3, 4]" by (simp add: n EPS_def)
  show ?thesis using normalize_row_unit [OF e] e by simp
qed

end
