(* ===== verification/Retriever.thy ===== *)
theory Retriever
  imports Extractor Embedding
begin

text \<open>
  The hybrid retriever of \<open>src/mha_chatbot/chat2.py\<close>: \<open>retrieve\<close> (lines 86-141) over
  the state the module loads once (lines 65-77), kept here as an explicit context
  record \<open>chat_ctx\<close>: the index, the chunk list and the embedding model (a function from
  text to vector). The candidate loop (lines 106-126) is \<open>collect_hits\<close>; its guard
  skips the padding position \<open>-1\<close> and positions past the chunk list, and indexes the
  list with Python's semantics otherwise. The reranking sort of line 129 is the stable
  descending sort of the prelude, and line 130 slices with Python's \<open>[:k]\<close>. The hit
  record extends the public summary record: the three extra fields are the ones the
  returned dictionaries drop (lines 132-141).
\<close>

record summary =
  score :: real
  r_uid :: "nat option"
  r_source :: string
  r_page :: nat
  r_text :: string

record hit = summary +
  semantic_score :: real
  keyword_boost :: real
  keyword_matches :: "string set"

record chat_ctx =
  INDEX :: flat_index
  CHUNKS :: "chunk list"
  MODEL :: "string \<Rightarrow> vec"

definition KEYWORD_BOOST :: real where
  "KEYWORD_BOOST = 2 / 10"

text \<open>\<open>set(re.findall(r'\w+', s.lower()))\<close> (lines 107, 112-114).\<close>

definition word_set :: "string \<Rightarrow> string set" where
  "word_set s = set (find_words (py_lower s))"

text \<open>The dictionary built for one candidate (lines 111-126).\<close>

definition make_hit :: "string set \<Rightarrow> real \<Rightarrow> chunk \<Rightarrow> real \<Rightarrow> hit" where
  "make_hit query_words kw_boost chunk sem =
     (let matches = query_words \<inter> word_set (ctext chunk);
          boost = kw_boost * real (card matches)
      in \<lparr>score = sem + boost, r_uid = uid chunk, r_source = source chunk, r_page = page chunk,
          r_text = ctext chunk, semantic_score = sem, keyword_boost = boost,
          keyword_matches = matches\<rparr>)"

fun collect_hits ::
  "chunk list \<Rightarrow> string set \<Rightarrow> real \<Rightarrow> (int \<times> real) list \<Rightarrow> hit list py_result" where
  "collect_hits chunks query_words kw_boost [] = Inr []"
| "collect_hits chunks query_words kw_boost ((idx, sem) # cands) =
     (if idx = -1 \<or> int (length chunks) \<le> idx
      then collect_hits chunks query_words kw_boost cands
      else (case py_getitem chunks idx of
              Inl e \<Rightarrow> Inl e
            | Inr chunk \<Rightarrow>
                (case collect_hits chunks query_words kw_boost cands of
                   Inl e \<Rightarrow> Inl e
                 | Inr hits \<Rightarrow> Inr (make_hit query_words kw_boost chunk sem # hits))))"

definition rerank :: "hit list \<Rightarrow> hit list" where
  "rerank results = sort_desc score results"

text \<open>The contract of steps 5 and 6 of spec section 4.5 without the algorithm: a result of
  \<open>k\<close> best candidates of a pool is a sub-multiset of the pool with \<open>min(k, |pool|)\<close>
  elements, listed by key from the highest, such that no candidate left out has a larger
  key than a candidate kept.\<close>

definition top_k :: "('a \<Rightarrow> real) \<Rightarrow> nat \<Rightarrow> 'a list \<Rightarrow> 'a list \<Rightarrow> bool" where
  "top_k f k pool res \<longleftrightarrow>
     mset res \<subseteq># mset pool \<and> length res = min k (length pool) \<and>
     sorted_wrt (\<lambda>a b. f b \<le> f a) res \<and>
     (\<forall>x \<in># mset pool - mset res. \<forall>y \<in> set res. f x \<le> f y)"

definition dim_mismatch :: "nat \<Rightarrow> nat \<Rightarrow> py_exc" where
  "dim_mismatch q d =
     ValueError (''Embedding dimension mismatch! Query: '' @ py_str_nat q @ '', Index: '' @ py_str_nat d)"

definition retrieve :: "chat_ctx \<Rightarrow> string \<Rightarrow> int \<Rightarrow> real \<Rightarrow> summary list py_result" where
  "retrieve ctx query k kw_boost =
     (let q_emb = MODEL ctx query
      in if length q_emb \<noteq> dim (INDEX ctx) then Inl (dim_mismatch (length q_emb) (dim (INDEX ctx)))
         else
           (let cands = index_search (INDEX ctx) (normalize_query q_emb) (nat (max 50 k))
            in case collect_hits (CHUNKS ctx) (word_set query) kw_boost cands of
                 Inl e \<Rightarrow> Inl e
               | Inr results \<Rightarrow> Inr (map summary.truncate (py_prefix (rerank results) k))))"

subsection \<open>The example store\<close>

text \<open>The two-chunk store of the example of spec section 8.\<close>

definition chunk_A :: chunk where
  "chunk_A = \<lparr>source = ''doc.pdf'', title = ''T'', date = ''D'', page = 1,
     chunk_index_on_page = 1, ctext = ''Visa application fee is 500 rupees'', uid = Some 1\<rparr>"

definition chunk_B :: chunk where
  "chunk_B = \<lparr>source = ''doc.pdf'', title = ''T'', date = ''D'', page = 2,
     chunk_index_on_page = 1, ctext = ''Passport renewal takes 30 days'', uid = Some 2\<rparr>"

text \<open>Both stored rows and every query embed to the same unit vector, so the semantic
  scores tie and only the keyword boost separates the chunks.\<close>

definition example_ctx :: chat_ctx where
  "example_ctx = \<lparr>INDEX = \<lparr>dim = 1, xb = [[1], [1]]\<rparr>, CHUNKS = [chunk_A, chunk_B], MODEL = (\<lambda>_. [1])\<rparr>"

abbreviation example_sem :: real where
  "example_sem \<equiv> 1 / (1 + EPS)"

subsection \<open>The candidate loop\<close>

text \<open>The candidates the guard keeps: a position that is not \<open>-1\<close> and is below the
  length of the chunk list.\<close>

definition kept :: "chunk list \<Rightarrow> int \<times> real \<Rightarrow> bool" where
  "kept chunks cand = (fst cand \<noteq> -1 \<and> fst cand < int (length chunks))"

lemma collect_hits_ok:
  "(\<forall>c \<in> set cands. fst c = -1 \<or> 0 \<le> fst c) \<Longrightarrow>
   collect_hits chunks qw kb cands =
     Inr (map (\<lambda>(idx, sem). make_hit qw kb (chunks ! nat idx) sem) (filter (kept chunks) cands))"
proof (induction chunks qw kb cands rule: collect_hits.induct)
  case (1 chunks qw kb)
  then show ?case by simp
next
  case (2 chunks qw kb idx sem cands)
  show ?case
  proof (cases "idx = -1 \<or> int (length chunks) \<le> idx")
    case True
    with 2 show ?thesis by (auto simp: kept_def)
  next
    case False
    with "2.prems" have "0 \<le> idx" by auto
    with False have get: "py_getitem chunks idx = Inr (chunks ! nat idx)"
      by (simp add: py_getitem_def)
    from False "2.IH"(2) [OF False get] "2.prems" show ?thesis
      by (simp add: get kept_def)
  qed
qed

lemma collect_hits_Inr:
  "collect_hits chunks qw kb cands = Inr hits \<Longrightarrow> h \<in> set hits \<Longrightarrow>
   \<exists>c sem. c \<in> set chunks \<and> (\<exists>idx. idx \<noteq> -1 \<and> (idx, sem) \<in> set cands) \<and>
     h = make_hit qw kb c sem"
proof (induction chunks qw kb cands arbitrary: hits rule: collect_hits.induct)
  case (1 chunks qw kb)
  then show ?case by simp
next
  case (2 chunks qw kb idx sem cands)
  then show ?case
    by (fastforce split: if_splits sum.splits dest: py_getitem_Inr)
qed

lemma collect_hits_Inr_at:
  "collect_hits chunks qw kb cands = Inr hits \<Longrightarrow> h \<in> set hits \<Longrightarrow>
   \<exists>idx sem c. (idx, sem) \<in> set cands \<and> idx \<noteq> -1 \<and> idx < int (length chunks) \<and>
     py_getitem chunks idx = Inr c \<and> h = make_hit qw kb c sem"
proof (induction chunks qw kb cands arbitrary: hits rule: collect_hits.induct)
  case (1 chunks qw kb)
  then show ?case by simp
next
  case (2 chunks qw kb idx sem cands)
  then show ?case
    by (fastforce split: if_splits sum.splits)
qed

subsection \<open>Facts on one hit\<close>

lemma make_hit_score:
  "score (make_hit qw kb c sem) = sem + kb * real (card (qw \<inter> word_set (ctext c)))"
  by (simp add: make_hit_def Let_def)

lemma make_hit_fields:
  "semantic_score (make_hit qw kb c sem) = sem \<and>
   keyword_matches (make_hit qw kb c sem) = qw \<inter> word_set (ctext c) \<and>
   r_text (make_hit qw kb c sem) = ctext c \<and> r_source (make_hit qw kb c sem) = source c \<and>
   r_page (make_hit qw kb c sem) = page c \<and> r_uid (make_hit qw kb c sem) = uid c"
  by (simp add: make_hit_def Let_def)

lemma summary_truncate_fields [simp]:
  "score (summary.truncate h) = score h" "r_text (summary.truncate h) = r_text h"
  "r_source (summary.truncate h) = r_source h" "r_page (summary.truncate h) = r_page h"
  "r_uid (summary.truncate h) = r_uid h"
  by (simp_all add: summary.defs)

subsection \<open>Reranking\<close>

lemma rerank_sorted: "sorted_wrt (\<lambda>a b. score b \<le> score a) (rerank hits)"
  by (simp add: rerank_def sorted_wrt_sort_desc)

lemma set_rerank [simp]: "set (rerank hits) = set hits"
  by (simp add: rerank_def)

lemma length_rerank [simp]: "length (rerank hits) = length hits"
  by (simp add: rerank_def)

lemma sorted_wrt_py_prefix:
  "sorted_wrt P xs \<Longrightarrow> sorted_wrt P (py_prefix xs k)"
  by (simp add: py_prefix_def sorted_wrt_take)

lemma set_py_prefix: "set (py_prefix xs k) \<subseteq> set xs"
  by (auto simp: py_prefix_def dest: in_set_takeD)

lemma take_sort_desc_top_k: "top_k f k xs (take k (sort_desc f xs))"
proof -
  let ?ys = "sort_desc f xs"
  have split: "mset xs = mset (take k ?ys) + mset (drop k ?ys)"
    by (metis append_take_drop_id mset_append mset_sort_desc)
  have sorted: "sorted_wrt (\<lambda>a b. f b \<le> f a) (take k ?ys @ drop k ?ys)"
    by (simp add: sorted_wrt_sort_desc)
  then have "\<forall>y \<in> set (take k ?ys). \<forall>x \<in> set (drop k ?ys). f x \<le> f y"
    unfolding sorted_wrt_append by blast
  moreover have "sorted_wrt (\<lambda>a b. f b \<le> f a) (take k ?ys)"
    using sorted by (simp only: sorted_wrt_append)
  ultimately show ?thesis
    using split by (auto simp: top_k_def)
qed

lemma rerank_top_k: "k \<ge> 0 \<Longrightarrow> top_k score (nat k) hits (py_prefix (rerank hits) k)"
  by (simp add: py_prefix_def rerank_def take_sort_desc_top_k)

subsection \<open>The result of \<open>retrieve\<close>\<close>

lemma retrieve_Inr:
  "retrieve ctx query k kb = Inr rs \<Longrightarrow>
   length (MODEL ctx query) = dim (INDEX ctx) \<and>
   (\<exists>hits. collect_hits (CHUNKS ctx) (word_set query) kb
              (index_search (INDEX ctx) (normalize_query (MODEL ctx query)) (nat (max 50 k))) = Inr hits \<and>
           rs = map summary.truncate (py_prefix (rerank hits) k))"
  by (auto simp: retrieve_def Let_def split: if_splits sum.splits)

subsection \<open>Candidates from the index\<close>

lemma search_positions:
  "c \<in> set (index_search index q k) \<Longrightarrow> fst c = -1 \<or> 0 \<le> fst c"
  by (cases c) (auto dest!: index_search_mem index_ranking_mem)

lemma filter_kept_search:
  assumes "length (xb index) \<le> length chunks"
  shows "filter (kept chunks) (index_search index q k) = take k (index_ranking index q)"
proof -
  have "\<forall>c \<in> set (take k (index_ranking index q)). kept chunks c"
    using assms by (auto simp: kept_def dest!: in_set_takeD index_ranking_mem)
  then have "filter (kept chunks) (take k (index_ranking index q)) = take k (index_ranking index q)"
    by (simp add: filter_id_conv)
  moreover have "filter (kept chunks) (replicate (k - length (xb index)) (-1, FAISS_PAD)) = []"
    by (simp add: kept_def)
  ultimately show ?thesis by (simp add: index_search_def)
qed

lemma retrieve_ok:
  assumes "length (MODEL ctx query) = dim (INDEX ctx)"
  shows "retrieve ctx query k kb =
    Inr (map summary.truncate (py_prefix (rerank (map (\<lambda>(idx, sem). make_hit (word_set query) kb (CHUNKS ctx ! nat idx) sem)
          (filter (kept (CHUNKS ctx)) (index_search (INDEX ctx) (normalize_query (MODEL ctx query)) (nat (max 50 k)))))) k))"
  using assms by (simp add: retrieve_def collect_hits_ok search_positions)

lemma hit_score_decomp:
  "collect_hits chunks qw kb cands = Inr hits \<Longrightarrow> h \<in> set hits \<Longrightarrow>
   score h = semantic_score h + kb * real (card (keyword_matches h))"
  by (auto dest!: collect_hits_Inr simp: make_hit_score make_hit_fields)

subsection \<open>Properties of \<open>retrieve\<close>\<close>

text \<open>C8. Ordering: a successful \<open>retrieve\<close> returns its chunks sorted by combined score,
  highest first.\<close>

theorem retrieve_sorted:
  assumes "retrieve ctx query k kb = Inr rs"
  shows "sorted_wrt (\<lambda>a b. score b \<le> score a) rs"
proof -
  from retrieve_Inr [OF assms] obtain hits where
    rs: "rs = map summary.truncate (py_prefix (rerank hits) k)" by blast
  have "sorted_wrt (\<lambda>a b. score b \<le> score a) (py_prefix (rerank hits) k)"
    by (rule sorted_wrt_py_prefix) (rule rerank_sorted)
  then show ?thesis by (simp add: rs sorted_wrt_map)
qed

text \<open>C9. Top-k selection: for \<open>k \<ge> 0\<close>, a successful \<open>retrieve\<close> implements the contract
  \<open>top_k\<close> on the candidate pool: its results are the public fields of \<open>min(k, |pool|)\<close>
  hits of the pool collected from the index search, highest combined score first, and every
  hit of the pool it drops scores at most as much as every hit it returns.\<close>

theorem retrieve_top_k:
  assumes "retrieve ctx query k kb = Inr rs" and "0 \<le> k"
  shows "\<exists>hits sel. collect_hits (CHUNKS ctx) (word_set query) kb
              (index_search (INDEX ctx) (normalize_query (MODEL ctx query)) (nat (max 50 k))) = Inr hits \<and>
           top_k score (nat k) hits sel \<and> rs = map summary.truncate sel"
  using retrieve_Inr [OF assms(1)] rerank_top_k [OF assms(2)] by blast

text \<open>C10. Dimension check: when the query embedding's length differs from the index
  dimension, \<open>retrieve\<close> raises \<open>ValueError\<close> with the message of line 98, never
  searching with a truncated or padded vector.\<close>

theorem retrieve_dim_mismatch:
  assumes "length (MODEL ctx query) \<noteq> dim (INDEX ctx)"
  shows "retrieve ctx query k kb =
    Inl (ValueError (''Embedding dimension mismatch! Query: '' @ py_str_nat (length (MODEL ctx query)) @
                     '', Index: '' @ py_str_nat (dim (INDEX ctx))))"
  using assms by (simp add: retrieve_def dim_mismatch_def)

text \<open>C11. Result size: when the query has the index's dimension and the index has no more
  rows than the chunk list, \<open>retrieve\<close> with \<open>k \<ge> 0\<close> succeeds and returns
  \<open>min(k, rows)\<close> chunks.\<close>

theorem retrieve_length:
  assumes "length (MODEL ctx query) = dim (INDEX ctx)"
    and "length (xb (INDEX ctx)) \<le> length (CHUNKS ctx)" and "0 \<le> k"
  shows "\<exists>rs. retrieve ctx query k kb = Inr rs \<and> length rs = min (nat k) (length (xb (INDEX ctx)))"
proof -
  have "nat k \<le> nat (max 50 k)" by simp
  then show ?thesis
    using assms by (simp add: retrieve_ok filter_kept_search min_def)
qed

text \<open>C12. Negative \<open>k\<close>: \<open>results[:k]\<close> with \<open>k < 0\<close> drops the last \<open>-k\<close>
  reranked candidates of the pool of \<open>max(50, k) = 50\<close>, so the result has
  \<open>min(50, rows) + k\<close> chunks (none when that is not positive), not \<open>min(k, rows)\<close>.\<close>

theorem retrieve_negative_k:
  assumes "length (MODEL ctx query) = dim (INDEX ctx)"
    and "length (xb (INDEX ctx)) \<le> length (CHUNKS ctx)" and "k < 0"
  shows "\<exists>rs. retrieve ctx query k kb = Inr rs \<and>
              length rs = min 50 (length (xb (INDEX ctx))) - nat (- k)"
  using assms by (simp add: retrieve_ok filter_kept_search py_prefix_neg)

text \<open>C13. Keyword boost monotonicity: with a positive boost, of two candidates with the
  same semantic score the one with strictly more distinct query words ranks strictly
  before the other after reranking.\<close>

theorem rerank_keyword_monotone:
  assumes hits: "collect_hits chunks qw kb cands = Inr hits" and kb: "0 < kb"
    and h1: "h1 \<in> set hits" and h2: "h2 \<in> set hits"
    and same: "semantic_score h1 = semantic_score h2"
    and more: "card (keyword_matches h2) < card (keyword_matches h1)"
    and i: "i < length (rerank hits)" and j: "j < length (rerank hits)"
    and at: "rerank hits ! i = h1" "rerank hits ! j = h2"
  shows "i < j"
proof -
  have "score h2 < score h1"
    using hit_score_decomp [OF hits h1] hit_score_decomp [OF hits h2] same more kb
    by simp
  moreover have "j < i \<Longrightarrow> score (rerank hits ! i) \<le> score (rerank hits ! j)"
    using rerank_sorted [of hits] i by (simp add: sorted_wrt_iff_nth_less)
  ultimately show ?thesis
    using at by (metis less_le_not_le nat_neq_iff)
qed

text \<open>C14. Provenance of a result: every returned result comes from one position \<open>i\<close> of
  the store: it carries the uid, source, page and text of chunk \<open>i\<close> of the chunk list, and
  its score is the inner product of the normalised query with row \<open>i\<close> of the index plus
  the boost times the number of distinct query words in chunk \<open>i\<close>'s text.\<close>

theorem retrieve_result_provenance:
  assumes "retrieve ctx query k kb = Inr rs" and "r \<in> set rs"
  shows "\<exists>i < length (CHUNKS ctx). i < length (xb (INDEX ctx)) \<and>
           score r = inner (normalize_query (MODEL ctx query)) (xb (INDEX ctx) ! i)
                     + kb * real (card (word_set query \<inter> word_set (ctext (CHUNKS ctx ! i)))) \<and>
           r_text r = ctext (CHUNKS ctx ! i) \<and> r_source r = source (CHUNKS ctx ! i) \<and>
           r_page r = page (CHUNKS ctx ! i) \<and> r_uid r = uid (CHUNKS ctx ! i)"
proof -
  let ?q = "normalize_query (MODEL ctx query)"
  from retrieve_Inr [OF assms(1)] obtain hits where
    ch: "collect_hits (CHUNKS ctx) (word_set query) kb (index_search (INDEX ctx) ?q (nat (max 50 k))) = Inr hits"
    and rs: "rs = map summary.truncate (py_prefix (rerank hits) k)" by blast
  from assms(2) rs obtain h where h: "h \<in> set hits" and r: "r = summary.truncate h"
    using set_py_prefix by fastforce
  from collect_hits_Inr_at [OF ch h] obtain idx sem c where
    mem: "(idx, sem) \<in> set (index_search (INDEX ctx) ?q (nat (max 50 k)))" and idx: "idx \<noteq> -1"
    and lt: "idx < int (length (CHUNKS ctx))" and get: "py_getitem (CHUNKS ctx) idx = Inr c"
    and hc: "h = make_hit (word_set query) kb c sem" by blast
  from mem idx have "(idx, sem) \<in> set (index_ranking (INDEX ctx) ?q)"
    by (auto dest: index_search_mem)
  then have nn: "0 \<le> idx" and row: "nat idx < length (xb (INDEX ctx))"
    and semv: "sem = inner ?q (xb (INDEX ctx) ! nat idx)"
    by (auto dest!: index_ranking_mem)
  have i: "nat idx < length (CHUNKS ctx)" using lt nn by linarith
  have "c = CHUNKS ctx ! nat idx"
    using get lt nn by (auto simp: py_getitem_def)
  then have "score r = inner ?q (xb (INDEX ctx) ! nat idx)
                  + kb * real (card (word_set query \<inter> word_set (ctext (CHUNKS ctx ! nat idx)))) \<and>
        r_text r = ctext (CHUNKS ctx ! nat idx) \<and> r_source r = source (CHUNKS ctx ! nat idx) \<and>
        r_page r = page (CHUNKS ctx ! nat idx) \<and> r_uid r = uid (CHUNKS ctx ! nat idx)"
    by (simp add: r hc semv make_hit_score make_hit_fields)
  with i row show ?thesis by blast
qed

subsection \<open>Witnesses: the two-chunk store of spec section 8\<close>

lemma example_ctx_fields [simp]:
  "INDEX example_ctx = \<lparr>dim = 1, xb = [[1], [1]]\<rparr>" "CHUNKS example_ctx = [chunk_A, chunk_B]"
  "MODEL example_ctx q = [1]"
  by (simp_all add: example_ctx_def)

lemma example_chunk_fields [simp]:
  "uid chunk_A = Some 1" "source chunk_A = ''doc.pdf''" "page chunk_A = 1"
  "ctext chunk_A = ''Visa application fee is 500 rupees''"
  "uid chunk_B = Some 2" "source chunk_B = ''doc.pdf''" "page chunk_B = 2"
  "ctext chunk_B = ''Passport renewal takes 30 days''"
  by (simp_all add: chunk_A_def chunk_B_def)

lemma example_word_sets:
  "word_set ''visa fee'' = {''visa'', ''fee''}"
  "word_set ''Visa application fee is 500 rupees'' = {''visa'', ''application'', ''fee'', ''is'', ''500'', ''rupees''}"
  "word_set ''Passport renewal takes 30 days'' = {''passport'', ''renewal'', ''takes'', ''30'', ''days''}"
  by (simp_all add: word_set_def py_string_eval)

lemma example_ranking:
  "index_ranking \<lparr>dim = d, xb = [[1], [1]]\<rparr> (normalize_query [1]) =
   [(0, 1 / (1 + EPS)), (1, 1 / (1 + EPS))]"
  by (simp add: index_ranking_def inner_def normalize_query_def l2_norm_def)

lemma example_hits:
  "collect_hits [chunk_A, chunk_B] (word_set ''visa fee'') (1 / 5) (index_ranking \<lparr>dim = d, xb = [[1], [1]]\<rparr> (normalize_query [1])) =
   Inr [make_hit (word_set ''visa fee'') (1 / 5) chunk_A example_sem,
        make_hit (word_set ''visa fee'') (1 / 5) chunk_B example_sem]"
  by (simp add: example_ranking py_getitem_def)

lemma example_scores:
  "score (make_hit (word_set ''visa fee'') (1 / 5) chunk_A example_sem) = example_sem + 2 / 5"
  "score (make_hit (word_set ''visa fee'') (1 / 5) chunk_B example_sem) = example_sem"
  by (simp_all add: make_hit_score example_word_sets)

lemma example_rerank:
  "rerank [make_hit (word_set ''visa fee'') (1 / 5) chunk_A example_sem,
           make_hit (word_set ''visa fee'') (1 / 5) chunk_B example_sem] =
   [make_hit (word_set ''visa fee'') (1 / 5) chunk_A example_sem,
    make_hit (word_set ''visa fee'') (1 / 5) chunk_B example_sem]"
  by (simp add: rerank_def example_scores)

lemma example_retrieve:
  "retrieve example_ctx ''visa fee'' 2 (1 / 5) =
   Inr [\<lparr>score = example_sem + 2 / 5, r_uid = Some 1, r_source = ''doc.pdf'', r_page = 1,
          r_text = ''Visa application fee is 500 rupees''\<rparr>,
        \<lparr>score = example_sem, r_uid = Some 2, r_source = ''doc.pdf'', r_page = 2,
          r_text = ''Passport renewal takes 30 days''\<rparr>]"
proof -
  have "filter (kept [chunk_A, chunk_B]) (index_search \<lparr>dim = 1, xb = [[1], [1]]\<rparr> (normalize_query [1]) 50) =
        [(0, example_sem), (1, example_sem)]"
    by (simp add: filter_kept_search example_ranking)
  then have "retrieve example_ctx ''visa fee'' 2 (1 / 5) =
    Inr (map summary.truncate (py_prefix (rerank
      [make_hit (word_set ''visa fee'') (1 / 5) chunk_A example_sem,
       make_hit (word_set ''visa fee'') (1 / 5) chunk_B example_sem]) 2))"
    by (simp add: retrieve_ok)
  then show ?thesis
    by (simp add: example_rerank summary.defs example_scores make_hit_fields)
qed

theorem retrieve_sorted_witness:
  "\<exists>rs. retrieve example_ctx ''visa fee'' 2 (1 / 5) = Inr rs \<and> length rs = 2 \<and>
        sorted_wrt (\<lambda>a b. score b \<le> score a) rs"
  using retrieve_sorted [OF example_retrieve] example_retrieve by simp

lemma py_str_nat_small: "py_str_nat (Suc 0) = ''1''" "py_str_nat (Suc (Suc 0)) = ''2''"
  by (simp_all add: py_str_nat.simps digit_char_def py_string_eval)

theorem retrieve_dim_mismatch_witness:
  "length (MODEL (example_ctx\<lparr>MODEL := (\<lambda>_. [1, 0])\<rparr>) ''visa fee'') \<noteq>
     dim (INDEX (example_ctx\<lparr>MODEL := (\<lambda>_. [1, 0])\<rparr>)) \<and>
   retrieve (example_ctx\<lparr>MODEL := (\<lambda>_. [1, 0])\<rparr>) ''visa fee'' 2 (1 / 5) =
     Inl (ValueError ''Embedding dimension mismatch! Query: 2, Index: 1'')"
proof -
  have ne: "length (MODEL (example_ctx\<lparr>MODEL := (\<lambda>_. [1, 0])\<rparr>) ''visa fee'') \<noteq>
            dim (INDEX (example_ctx\<lparr>MODEL := (\<lambda>_. [1, 0])\<rparr>))"
    by (simp add: example_ctx_def)
  show ?thesis
    using retrieve_dim_mismatch [OF ne, of 2 "1 / 5"] ne
    by (simp add: py_str_nat_small)
qed

lemma example_retrieve_one:
  "retrieve example_ctx ''visa fee'' 1 (1 / 5) =
   Inr [\<lparr>score = example_sem + 2 / 5, r_uid = Some 1, r_source = ''doc.pdf'', r_page = 1,
          r_text = ''Visa application fee is 500 rupees''\<rparr>]"
proof -
  have "filter (kept [chunk_A, chunk_B]) (index_search \<lparr>dim = 1, xb = [[1], [1]]\<rparr> (normalize_query [1]) 50) =
        [(0, example_sem), (1, example_sem)]"
    by (simp add: filter_kept_search example_ranking)
  then have "retrieve example_ctx ''visa fee'' 1 (1 / 5) =
    Inr (map summary.truncate (py_prefix (rerank
      [make_hit (word_set ''visa fee'') (1 / 5) chunk_A example_sem,
       make_hit (word_set ''visa fee'') (1 / 5) chunk_B example_sem]) 1))"
    by (simp add: retrieve_ok)
  then show ?thesis
    by (simp add: example_rerank summary.defs example_scores make_hit_fields py_prefix_def)
qed

theorem retrieve_top_k_witness:
  "\<exists>hits. collect_hits [chunk_A, chunk_B] (word_set ''visa fee'') (1 / 5)
       (index_search \<lparr>dim = 1, xb = [[1], [1]]\<rparr> (normalize_query [1]) 50) = Inr hits \<and>
     length hits = 2 \<and> length (projr (retrieve example_ctx ''visa fee'' 1 (1 / 5))) = 1"
proof -
  have k: "(0::int) \<le> 1" by simp
  from retrieve_top_k [OF example_retrieve_one k] obtain hits sel where
    c: "collect_hits [chunk_A, chunk_B] (word_set ''visa fee'') (1 / 5)
          (index_search \<lparr>dim = 1, xb = [[1], [1]]\<rparr> (normalize_query [1]) 50) = Inr hits"
    and t: "top_k score 1 hits sel"
    by (auto simp: max_def)
  have "collect_hits [chunk_A, chunk_B] (word_set ''visa fee'') (1 / 5)
          (index_search \<lparr>dim = 1, xb = [[1], [1]]\<rparr> (normalize_query [1]) 50) =
        Inr [make_hit (word_set ''visa fee'') (1 / 5) chunk_A example_sem,
             make_hit (word_set ''visa fee'') (1 / 5) chunk_B example_sem]"
    by (simp add: collect_hits_ok search_positions filter_kept_search example_ranking)
  with c have "length hits = 2" by simp
  then show ?thesis using c example_retrieve_one by simp
qed

theorem retrieve_length_witness:
  "length (MODEL example_ctx ''visa fee'') = dim (INDEX example_ctx) \<and>
   length (xb (INDEX example_ctx)) \<le> length (CHUNKS example_ctx) \<and>
   (\<exists>rs. retrieve example_ctx ''visa fee'' 2 (1 / 5) = Inr rs \<and> length rs = 2)"
proof -
  have h: "length (MODEL example_ctx ''visa fee'') = dim (INDEX example_ctx)"
          "length (xb (INDEX example_ctx)) \<le> length (CHUNKS example_ctx)" "(0::int) \<le> 2"
    by simp_all
  show ?thesis using retrieve_length [OF h, of "1 / 5"] h by (simp add: numeral_2_eq_2)
qed

theorem retrieve_negative_k_witness:
  "length (MODEL example_ctx ''visa fee'') = dim (INDEX example_ctx) \<and>
   length (xb (INDEX example_ctx)) \<le> length (CHUNKS example_ctx) \<and>
   (\<exists>rs. retrieve example_ctx ''visa fee'' (-1) (1 / 5) = Inr rs \<and> length rs = 1)"
proof -
  have h: "length (MODEL example_ctx ''visa fee'') = dim (INDEX example_ctx)"
          "length (xb (INDEX example_ctx)) \<le> length (CHUNKS example_ctx)" "(-1::int) < 0"
    by simp_all
  show ?thesis using retrieve_negative_k [OF h, of "1 / 5"] h by simp
qed

theorem rerank_keyword_monotone_witness:
  "semantic_score (make_hit (word_set ''visa fee'') (1 / 5) chunk_A example_sem) =
     semantic_score (make_hit (word_set ''visa fee'') (1 / 5) chunk_B example_sem) \<and>
   card (keyword_matches (make_hit (word_set ''visa fee'') (1 / 5) chunk_B example_sem)) <
     card (keyword_matches (make_hit (word_set ''visa fee'') (1 / 5) chunk_A example_sem)) \<and>
   (0::nat) < 1"
proof -
  let ?qw = "word_set ''visa fee''"
  let ?hA = "make_hit ?qw (1 / 5) chunk_A example_sem"
  let ?hB = "make_hit ?qw (1 / 5) chunk_B example_sem"
  let ?cands = "index_ranking \<lparr>dim = 1, xb = [[1], [1]]\<rparr> (normalize_query [1])"
  have hits: "collect_hits [chunk_A, chunk_B] ?qw (1 / 5) ?cands = Inr [?hA, ?hB]"
    by (rule example_hits)
  have same: "semantic_score ?hA = semantic_score ?hB" by (simp add: make_hit_fields)
  have more: "card (keyword_matches ?hB) < card (keyword_matches ?hA)"
    by (simp add: make_hit_fields example_word_sets)
  have "(0::nat) < 1"
    by (rule rerank_keyword_monotone [OF hits _ _ _ same more, where i = 0 and j = 1])
       (simp_all add: example_rerank)
  with same more show ?thesis by simp
qed

theorem retrieve_result_provenance_witness:
  "(\<exists>rs. retrieve example_ctx ''visa fee'' 2 (1 / 5) = Inr rs \<and> rs \<noteq> [] \<and>
     (\<exists>i < length (CHUNKS example_ctx). r_text (hd rs) = ctext (CHUNKS example_ctx ! i) \<and>
        r_page (hd rs) = page (CHUNKS example_ctx ! i) \<and> r_uid (hd rs) = uid (CHUNKS example_ctx ! i)))"
proof -
  let ?rs = "[\<lparr>score = example_sem + 2 / 5, r_uid = Some 1, r_source = ''doc.pdf'', r_page = 1,
          r_text = ''Visa application fee is 500 rupees''\<rparr>,
        \<lparr>score = example_sem, r_uid = Some 2, r_source = ''doc.pdf'', r_page = 2,
          r_text = ''Passport renewal takes 30 days''\<rparr>]"
  have mem: "hd ?rs \<in> set ?rs" by simp
  from retrieve_result_provenance [OF example_retrieve mem]
  have "\<exists>i < length (CHUNKS example_ctx). r_text (hd ?rs) = ctext (CHUNKS example_ctx ! i) \<and>
          r_page (hd ?rs) = page (CHUNKS example_ctx ! i) \<and> r_uid (hd ?rs) = uid (CHUNKS example_ctx ! i)"
    by blast
  with example_retrieve show ?thesis by blast
qed

end
