(* ===== verification/Ingestion.thy ===== *)
theory Ingestion
  imports Extractor Embedding
begin

text \<open>
  The ingestion run of \<open>src/mha_chatbot/ingest2.py\<close>, \<open>main\<close> (lines 90-183) with
  \<open>load_metadata\<close> (50-56). Everything the run does outside the process is an input:
  \<open>ingest_env\<close> says whether each external call succeeds (directory creation, model
  load, encoding, the two writes), holds the metadata file (\<open>None\<close>: missing), the data
  directory and the embedding model as a function from text to vector. The process pool's
  \<open>imap_unordered\<close> delivers the workers' results in an order the run does not choose:
  it is a parameter, a permutation of the task indices (\<open>completion_order\<close>). The
  result of a run is the exit status and the two files on disk, \<open>index.faiss\<close> and
  \<open>chunks.json\<close>; \<open>sys.exit(n)\<close> is the status \<open>n\<close> with the disk as it is.
\<close>

record disk =
  index_file :: "flat_index option"
  chunks_file :: "chunk list option"

record ingest_env =
  makedirs_ok :: bool
  metadata_file :: "doc_meta list option"
  data_dir :: data_dir
  pool_ok :: bool
  model_ok :: bool
  encode :: "string \<Rightarrow> vec"
  encode_ok :: bool
  write_index_ok :: bool
  write_chunks_ok :: bool

text \<open>Lines 50-56: a missing metadata file ends the run with \<open>sys.exit(1)\<close>; otherwise the
  parsed list.\<close>

definition load_metadata :: "ingest_env \<Rightarrow> doc_meta list py_result" where
  "load_metadata env =
     (case metadata_file env of
        None \<Rightarrow> Inl (SystemExit 1)
      | Some metadata \<Rightarrow> Inr metadata)"

text \<open>Lines 100-106: the tasks for the PDFs that exist, in metadata order.\<close>

definition pool_tasks :: "ingest_env \<Rightarrow> doc_meta list \<Rightarrow> (string \<times> doc_meta) list" where
  "pool_tasks env metadata =
     map (\<lambda>m. (filename m, m)) (filter (\<lambda>m. data_dir env (filename m) \<noteq> None) metadata)"

definition imap_unordered :: "('a \<Rightarrow> 'b) \<Rightarrow> 'a list \<Rightarrow> nat list \<Rightarrow> 'b list" where
  "imap_unordered f tasks order = map (\<lambda>i. f (tasks ! i)) order"

definition completion_order :: "nat \<Rightarrow> nat list \<Rightarrow> bool" where
  "completion_order n order \<longleftrightarrow> mset order = mset [0..<n]"

text \<open>Lines 128-131: uids by enumeration from 1 of the concatenated results.\<close>

definition assign_uids :: "chunk list \<Rightarrow> chunk list" where
  "assign_uids all_chunks_raw = map (\<lambda>(idx, c). c\<lparr>uid := Some idx\<rparr>) (enumerate 1 all_chunks_raw)"

text \<open>Lines 169-170: \<open>IndexFlatIP(embeddings.shape[1])\<close> and \<open>add\<close>.\<close>

text \<open>Lines 115-131: the pool's results in completion order, concatenated and numbered.\<close>

definition collect_chunks :: "'t tokenizer \<Rightarrow> ingest_env \<Rightarrow> (string \<times> doc_meta) list \<Rightarrow> nat list \<Rightarrow> chunk list" where
  "collect_chunks tokenizer env tasks order =
     assign_uids (concat (imap_unordered (process_pdf_for_worker tokenizer (data_dir env)) tasks order))"

definition build_index :: "vec list \<Rightarrow> flat_index py_result" where
  "build_index embeddings = index_add (IndexFlatIP (length (hd embeddings))) embeddings"

definition ingest_main :: "'t tokenizer \<Rightarrow> ingest_env \<Rightarrow> nat list \<Rightarrow> disk \<Rightarrow> nat \<times> disk" where
  "ingest_main tokenizer env order d =
     (if \<not> makedirs_ok env then (1, d) else
      case load_metadata env of
        Inl e \<Rightarrow> (exit_status e, d)
      | Inr metadata \<Rightarrow>
          (let tasks = pool_tasks env metadata in
           if tasks = [] then (0, d) else
           if \<not> pool_ok env then (1, d) else
           (let all_chunks = collect_chunks tokenizer env tasks order
            in if all_chunks = [] then (0, d) else
               if \<not> model_ok env \<or> \<not> encode_ok env then (1, d) else
               (let embeddings = normalize_embeddings (map (encode env) (map ctext all_chunks))
                in case build_index embeddings of
                     Inl e \<Rightarrow> (1, d)
                   | Inr index \<Rightarrow>
                       if \<not> write_index_ok env then (1, d) else
                       if \<not> write_chunks_ok env then (1, d\<lparr>index_file := Some index\<rparr>)
                       else (0, d\<lparr>index_file := Some index, chunks_file := Some all_chunks\<rparr>)))))"

text \<open>Running the script (lines 185-186) first imports the module, which loads the tokenizer
  (lines 29-36): when \<open>AutoTokenizer.from_pretrained\<close> raises, the process exits with
  status 1 before \<open>main\<close> runs. \<open>tok_load\<close> is the loaded tokenizer, or \<open>None\<close> when the
  load raises.\<close>

definition run_ingest2 :: "'t tokenizer option \<Rightarrow> ingest_env \<Rightarrow> nat list \<Rightarrow> disk \<Rightarrow> nat \<times> disk" where
  "run_ingest2 tok_load env order d =
     (case tok_load of
        None \<Rightarrow> (exit_status (SystemExit 1), d)
      | Some tokenizer \<Rightarrow> ingest_main tokenizer env order d)"

text \<open>The one-document run of the examples.\<close>

definition char_tokenizer :: "char tokenizer" where
  "char_tokenizer = \<lparr>tok_encode = (\<lambda>s. s), tok_decode = (\<lambda>s. s)\<rparr>"

definition example_meta :: doc_meta where
  "example_meta = \<lparr>filename = ''d.pdf'', doc_title = ''T'', doc_date = ''D''\<rparr>"

definition example_env :: ingest_env where
  "example_env = \<lparr>makedirs_ok = True, metadata_file = Some [example_meta],
     data_dir = Map.empty(''d.pdf'' \<mapsto> PdfPages [PageText ''ab'']), pool_ok = True, model_ok = True,
     encode = (\<lambda>_. [1]), encode_ok = True, write_index_ok = True, write_chunks_ok = True\<rparr>"

definition empty_disk :: disk where
  "empty_disk = \<lparr>index_file = None, chunks_file = None\<rparr>"

subsection \<open>Uids\<close>

lemma assign_uids_length [simp]: "length (assign_uids cs) = length cs"
  by (simp add: assign_uids_def)

lemma assign_uids_nth:
  "i < length cs \<Longrightarrow> assign_uids cs ! i = (cs ! i)\<lparr>uid := Some (Suc i)\<rparr>"
  by (simp add: assign_uids_def nth_enumerate_eq)

lemma assign_uids_uids: "map uid (assign_uids cs) = map Some [1..<Suc (length cs)]"
  by (rule nth_equalityI) (simp_all add: assign_uids_nth del: upt_Suc)

lemma assign_uids_texts [simp]: "map ctext (assign_uids cs) = map ctext cs"
  by (rule nth_equalityI) (simp_all add: assign_uids_nth)

lemma assign_uids_forget: "map (\<lambda>c. c\<lparr>uid := None\<rparr>) (assign_uids cs) = map (\<lambda>c. c\<lparr>uid := None\<rparr>) cs"
  by (rule nth_equalityI) (simp_all add: assign_uids_nth)

subsection \<open>The index built\<close>

lemma build_index_Inr:
  "build_index embeddings = Inr index \<Longrightarrow> xb index = embeddings"
  by (auto simp: build_index_def index_add_def IndexFlatIP_def split: if_splits)

lemma build_index_ok:
  "list_all (\<lambda>v. length v = length (hd embeddings)) embeddings \<Longrightarrow>
   build_index embeddings = Inr \<lparr>dim = length (hd embeddings), xb = embeddings\<rparr>"
  by (simp add: build_index_def index_add_def IndexFlatIP_def)

subsection \<open>Completion order\<close>

lemma mset_concat_sum: "mset (concat xss) = sum_list (map mset xss)"
  by (induction xss) simp_all

lemma mset_concat_perm:
  "mset order = mset order' \<Longrightarrow>
   mset (concat (map f order)) = mset (concat (map f order'))"
proof -
  assume eq: "mset order = mset order'"
  have "\<And>xs. sum_list (map (\<lambda>i. mset (f i)) xs) = sum_mset (image_mset (\<lambda>i. mset (f i)) (mset xs))"
    by (metis mset_map sum_mset_sum_list)
  then show ?thesis using eq by (simp add: mset_concat_sum comp_def)
qed

lemma collect_chunks_forget:
  "completion_order (length tasks) order \<Longrightarrow>
   mset (map (\<lambda>c. c\<lparr>uid := None\<rparr>) (collect_chunks tokenizer env tasks order)) =
   mset (map (\<lambda>c. c\<lparr>uid := None\<rparr>) (concat (map (process_pdf_for_worker tokenizer (data_dir env)) tasks)))"
proof -
  assume co: "completion_order (length tasks) order"
  let ?w = "process_pdf_for_worker tokenizer (data_dir env)"
  have "mset (concat (map (\<lambda>i. ?w (tasks ! i)) order)) =
        mset (concat (map (\<lambda>i. ?w (tasks ! i)) [0..<length tasks]))"
    using co by (simp add: completion_order_def mset_concat_perm)
  also have "map (\<lambda>i. ?w (tasks ! i)) [0..<length tasks] = map ?w tasks"
    by (rule nth_equalityI) simp_all
  finally show ?thesis
    by (simp add: collect_chunks_def imap_unordered_def assign_uids_forget)
qed

subsection \<open>Runs\<close>

text \<open>The path of a run that reaches the writes.\<close>

lemma ingest_main_path:
  assumes "makedirs_ok env" "metadata_file env = Some metadata" "pool_tasks env metadata = tasks"
    "tasks \<noteq> []" "pool_ok env" "collect_chunks tokenizer env tasks order = cs" "cs \<noteq> []"
    "model_ok env" "encode_ok env"
    "build_index (normalize_embeddings (map (encode env) (map ctext cs))) = Inr index"
  shows "ingest_main tokenizer env order d =
    (if \<not> write_index_ok env then (1, d) else
     if \<not> write_chunks_ok env then (1, d\<lparr>index_file := Some index\<rparr>)
     else (0, d\<lparr>index_file := Some index, chunks_file := Some cs\<rparr>))"
  using assms by (simp add: ingest_main_def load_metadata_def Let_def)

lemma ingest_main_written:
  assumes "ingest_main tokenizer env order d = (code, d')" and "chunks_file d' \<noteq> chunks_file d"
  shows "\<exists>metadata index. metadata_file env = Some metadata \<and> makedirs_ok env \<and>
           pool_tasks env metadata \<noteq> [] \<and> pool_ok env \<and> model_ok env \<and> encode_ok env \<and>
           collect_chunks tokenizer env (pool_tasks env metadata) order \<noteq> [] \<and>
           build_index (normalize_embeddings (map (encode env)
             (map ctext (collect_chunks tokenizer env (pool_tasks env metadata) order)))) = Inr index \<and>
           write_index_ok env \<and> write_chunks_ok env \<and> code = 0 \<and>
           d' = d\<lparr>index_file := Some index,
                   chunks_file := Some (collect_chunks tokenizer env (pool_tasks env metadata) order)\<rparr>"
  using assms
  by (auto simp: ingest_main_def load_metadata_def Let_def split: if_splits option.splits sum.splits)

lemma run_ingest2_changed:
  "run_ingest2 tok_load env order d = (code, d') \<Longrightarrow> chunks_file d' \<noteq> chunks_file d \<Longrightarrow>
   \<exists>tokenizer. tok_load = Some tokenizer \<and> ingest_main tokenizer env order d = (code, d')"
  by (cases tok_load) (auto simp: run_ingest2_def)

lemma normalize_embeddings_nth:
  "i < length cs \<Longrightarrow>
   normalize_embeddings (map f (map ctext cs)) ! i = normalize_row (f (ctext (cs ! i)))"
  by (simp add: normalize_embeddings_def)

text \<open>C15. Matched pair: whenever a run changes \<open>chunks.json\<close>, it exits with status 0
  and writes the index with it; the index has one row per chunk, row \<open>i\<close> is the
  normalised embedding of chunk \<open>i\<close>'s text, and the uids are \<open>1..n\<close> in list order.\<close>

theorem ingest_writes_matched_pair:
  assumes "ingest_main tokenizer env order d = (code, d')" and "chunks_file d' \<noteq> chunks_file d"
  shows "code = 0 \<and> (\<exists>index cs. index_file d' = Some index \<and> chunks_file d' = Some cs \<and>
           length (xb index) = length cs \<and>
           (\<forall>i < length cs. xb index ! i = normalize_row (encode env (ctext (cs ! i)))) \<and>
           map uid cs = map Some [1..<Suc (length cs)])"
proof -
  from ingest_main_written [OF assms] obtain metadata index where
    b: "build_index (normalize_embeddings (map (encode env)
          (map ctext (collect_chunks tokenizer env (pool_tasks env metadata) order)))) = Inr index"
    and c: "code = 0"
    and d': "d' = d\<lparr>index_file := Some index,
                  chunks_file := Some (collect_chunks tokenizer env (pool_tasks env metadata) order)\<rparr>"
    by blast
  let ?cs = "collect_chunks tokenizer env (pool_tasks env metadata) order"
  have x: "xb index = normalize_embeddings (map (encode env) (map ctext ?cs))"
    by (rule build_index_Inr [OF b])
  have u: "map uid ?cs = map Some [1..<Suc (length ?cs)]"
    by (simp add: collect_chunks_def assign_uids_uids)
  show ?thesis
    using c u by (simp add: d' x normalize_embeddings_nth) (simp add: normalize_embeddings_def)
qed

text \<open>Failed runs: a run that exits with status 1 never changes \<open>chunks.json\<close>; it
  changes \<open>index.faiss\<close> only when the index write succeeded and the chunk write failed.\<close>

theorem ingest_failure_effects:
  assumes "ingest_main tokenizer env order d = (1, d')"
  shows "chunks_file d' = chunks_file d \<and>
         (index_file d' = index_file d \<or> (write_index_ok env \<and> \<not> write_chunks_ok env))"
  using assms
  by (auto simp: ingest_main_def load_metadata_def Let_def split: if_splits option.splits sum.splits)

text \<open>C16. Non-atomic persistence: the run that writes a matched pair, replayed with the
  chunk write failing, exits with status 1 and leaves the new index beside the old chunk
  list, the mismatched pair spec section 4.3 rules out.\<close>

theorem ingest_partial_write:
  assumes "ingest_main tokenizer env order d = (0, d')" and "chunks_file d' \<noteq> chunks_file d"
  shows "ingest_main tokenizer (env\<lparr>write_chunks_ok := False\<rparr>) order d =
         (1, d'\<lparr>chunks_file := chunks_file d\<rparr>)"
proof -
  from ingest_main_written [OF assms] obtain metadata index where
    facts: "metadata_file env = Some metadata" "makedirs_ok env" "pool_tasks env metadata \<noteq> []"
      "pool_ok env" "model_ok env" "encode_ok env"
      "collect_chunks tokenizer env (pool_tasks env metadata) order \<noteq> []"
      "build_index (normalize_embeddings (map (encode env)
         (map ctext (collect_chunks tokenizer env (pool_tasks env metadata) order)))) = Inr index"
      "write_index_ok env"
    and d': "d' = d\<lparr>index_file := Some index,
                  chunks_file := Some (collect_chunks tokenizer env (pool_tasks env metadata) order)\<rparr>"
    by blast
  have same: "pool_tasks (env\<lparr>write_chunks_ok := False\<rparr>) metadata = pool_tasks env metadata"
    "collect_chunks tokenizer (env\<lparr>write_chunks_ok := False\<rparr>) = collect_chunks tokenizer env"
    by (simp_all add: pool_tasks_def collect_chunks_def [abs_def])
  show ?thesis
    using facts by (simp add: ingest_main_def load_metadata_def Let_def same d')
qed

text \<open>C17. Nothing to ingest: when no listed PDF exists, or the existing ones yield no
  chunk, the run exits with status 0 and writes nothing, where spec section 4.3 asks for
  a non-zero status.\<close>

theorem ingest_nothing_exit_zero:
  assumes "makedirs_ok env" and "metadata_file env = Some metadata"
    and "pool_tasks env metadata = [] \<or>
         (pool_ok env \<and> collect_chunks tokenizer env (pool_tasks env metadata) order = [])"
  shows "ingest_main tokenizer env order d = (0, d)"
  using assms by (auto simp: ingest_main_def load_metadata_def Let_def)

text \<open>C18. Completion order: in any completion order of the pool, the run numbers the
  same chunks, the workers' outputs in task order up to reordering, with uids
  \<open>1..n\<close>; only which chunk gets which uid depends on the order.\<close>

theorem collect_chunks_order_independent:
  assumes "completion_order (length tasks) order"
  shows "mset (map (\<lambda>c. c\<lparr>uid := None\<rparr>) (collect_chunks tokenizer env tasks order)) =
         mset (map (\<lambda>c. c\<lparr>uid := None\<rparr>) (concat (map (process_pdf_for_worker tokenizer (data_dir env)) tasks))) \<and>
         map uid (collect_chunks tokenizer env tasks order) =
         map Some [1..<Suc (length (collect_chunks tokenizer env tasks order))]"
  using collect_chunks_forget [OF assms] by (simp add: collect_chunks_def assign_uids_uids)

subsection \<open>Witnesses\<close>

lemma empty_disk_files [simp]: "index_file empty_disk = None" "chunks_file empty_disk = None"
  by (simp_all add: empty_disk_def)

lemma example_page_chunks:
  "page_chunks char_tokenizer example_meta (Suc 0) ''ab'' =
   [\<lparr>source = ''d.pdf'', title = ''T'', date = ''D'', page = Suc 0,
     chunk_index_on_page = Suc 0, ctext = ''ab'', uid = None\<rparr>]"
  by (simp add: page_chunks_def chunk_text_def chunk_slices.simps py_slice_def char_tokenizer_def
                example_meta_def CHUNK_SIZE_def CHUNK_OVERLAP_def chunk_stride_def)

lemma example_collect:
  "collect_chunks char_tokenizer example_env (pool_tasks example_env [example_meta]) [0] =
   [\<lparr>source = ''d.pdf'', title = ''T'', date = ''D'', page = 1,
     chunk_index_on_page = 1, ctext = ''ab'', uid = Some 1\<rparr>]"
  by (simp add: collect_chunks_def pool_tasks_def example_env_def example_meta_def imap_unordered_def
      process_pdf_for_worker_def py_string_eval example_page_chunks [unfolded example_meta_def]
      assign_uids_def)

lemma example_run:
  "ingest_main char_tokenizer example_env [0] empty_disk =
   (0, \<lparr>index_file = Some \<lparr>dim = 1, xb = [[1]]\<rparr>,
        chunks_file = Some [\<lparr>source = ''d.pdf'', title = ''T'', date = ''D'', page = 1,
                             chunk_index_on_page = 1, ctext = ''ab'', uid = Some 1\<rparr>]\<rparr>)"
  by (subst ingest_main_path [where metadata = "[example_meta]", OF _ _ refl _ _ example_collect])
     (simp_all add: example_env_def pool_tasks_def example_meta_def empty_disk_def build_index_def
       index_add_def IndexFlatIP_def normalize_embeddings_def normalize_row_def l2_norm_def EPS_def)

lemma example_run_changes_chunks:
  "chunks_file (snd (ingest_main char_tokenizer example_env [0] empty_disk)) \<noteq> chunks_file empty_disk"
  by (simp add: example_run)

theorem ingest_writes_matched_pair_witness:
  "fst (ingest_main char_tokenizer example_env [0] empty_disk) = 0 \<and>
   chunks_file (snd (ingest_main char_tokenizer example_env [0] empty_disk)) \<noteq> chunks_file empty_disk \<and>
   length (xb (the (index_file (snd (ingest_main char_tokenizer example_env [0] empty_disk))))) = 1"
  using ingest_writes_matched_pair [OF prod.collapse [symmetric] example_run_changes_chunks]
    example_run example_run_changes_chunks
  by simp

theorem ingest_failure_effects_witness:
  "ingest_main char_tokenizer (example_env\<lparr>makedirs_ok := False\<rparr>) [0] empty_disk = (1, empty_disk) \<and>
   chunks_file empty_disk = None"
proof -
  have r: "ingest_main char_tokenizer (example_env\<lparr>makedirs_ok := False\<rparr>) [0] empty_disk = (1, empty_disk)"
    by (simp add: ingest_main_def load_metadata_def)
  show ?thesis using ingest_failure_effects [OF r] r by simp
qed

theorem ingest_partial_write_witness:
  "ingest_main char_tokenizer (example_env\<lparr>write_chunks_ok := False\<rparr>) [0] empty_disk =
   (1, \<lparr>index_file = Some \<lparr>dim = 1, xb = [[1]]\<rparr>, chunks_file = None\<rparr>)"
proof -
  have r: "ingest_main char_tokenizer example_env [0] empty_disk =
     (0, snd (ingest_main char_tokenizer example_env [0] empty_disk))"
    by (simp add: example_run)
  show ?thesis
    using ingest_partial_write [OF r example_run_changes_chunks]
    by (simp add: example_run)
qed

theorem ingest_nothing_exit_zero_witness:
  "pool_tasks (example_env\<lparr>data_dir := Map.empty\<rparr>) [example_meta] = [] \<and>
   ingest_main char_tokenizer (example_env\<lparr>data_dir := Map.empty\<rparr>) [0] empty_disk = (0, empty_disk)"
proof -
  have t: "pool_tasks (example_env\<lparr>data_dir := Map.empty\<rparr>) [example_meta] = []"
    by (simp add: pool_tasks_def)
  show ?thesis
    using ingest_nothing_exit_zero [where env = "example_env\<lparr>data_dir := Map.empty\<rparr>"
        and metadata = "[example_meta]" and tokenizer = char_tokenizer and order = "[0]" and d = empty_disk]
      t by (simp add: example_env_def)
qed

theorem collect_chunks_order_independent_witness:
  "completion_order 1 [0] \<and>
   map uid (collect_chunks char_tokenizer example_env (pool_tasks example_env [example_meta]) [0]) = [Some 1]"
proof -
  have co: "completion_order (length (pool_tasks example_env [example_meta])) [0]"
    by (simp add: completion_order_def pool_tasks_def example_env_def example_meta_def)
  show ?thesis
    using collect_chunks_order_independent [OF co, where tokenizer = char_tokenizer]
    by (simp add: completion_order_def example_collect)
qed

end
