(* ===== verification/Credentials.thy ===== *)
theory Credentials
  imports Prelude
begin

text \<open>
  The API-key pool of \<open>src/mha_chatbot/chat2.py\<close>: the module-level check of the key
  list (lines 33-34), \<open>_configure_gemini_client\<close> (42-51), \<open>_rotate_api_key\<close>
  (53-58) and the initial configuration (line 81). The two module globals
  \<open>current_key_index\<close> and \<open>GEMINI_GENERATIVE_MODEL\<close> are the state record; the
  model object is represented by the key it was configured with (\<open>None\<close> before the
  first configuration). The key list itself is a parameter: the theorems hold for every
  pool. The states the process can be in are those of \<open>client_reach\<close>: the configured
  initial state and whatever rotations make of it. \<open>query_llm\<close> reads the state and never
  writes it (theory \<open>Answer\<close>).
\<close>

record gemini_state =
  current_key_index :: nat
  configured_key :: "string option"

definition PLACEHOLDER_KEY :: string where
  "PLACEHOLDER_KEY = ''YOUR_GEMINI_API_KEY_1''"

definition check_api_keys :: "string list \<Rightarrow> unit py_result" where
  "check_api_keys keys =
     (if keys = [] \<or> list_ex (\<lambda>key. key = PLACEHOLDER_KEY) keys
      then Inl (ValueError ''GEMINI_API_KEYS are not set or still contain placeholders. Please set your actual API keys.'')
      else Inr ())"

definition configure_gemini_client :: "string list \<Rightarrow> gemini_state \<Rightarrow> gemini_state py_result" where
  "configure_gemini_client keys st =
     (if keys = [] then Inl (ValueError ''No Gemini API keys available in the pool.'')
      else (case py_getitem keys (int (current_key_index st)) of
              Inl e \<Rightarrow> Inl e
            | Inr key \<Rightarrow> Inr (st\<lparr>configured_key := Some key\<rparr>)))"

text \<open>\<open>(current_key_index + 1) % len(GEMINI_API_KEYS)\<close> raises \<open>ZeroDivisionError\<close>
  on an empty pool before anything is assigned.\<close>

definition rotate_api_key :: "string list \<Rightarrow> gemini_state \<Rightarrow> gemini_state py_result" where
  "rotate_api_key keys st =
     (if keys = [] then Inl ZeroDivisionError
      else configure_gemini_client keys
             (st\<lparr>current_key_index := (current_key_index st + 1) mod length keys\<rparr>))"

definition init_gemini :: "string list \<Rightarrow> gemini_state py_result" where
  "init_gemini keys =
     (case check_api_keys keys of
        Inl e \<Rightarrow> Inl e
      | Inr _ \<Rightarrow> configure_gemini_client keys \<lparr>current_key_index = 0, configured_key = None\<rparr>)"

inductive client_reach :: "string list \<Rightarrow> gemini_state \<Rightarrow> bool" for keys where
  init: "init_gemini keys = Inr st \<Longrightarrow> client_reach keys st"
| rotate: "client_reach keys st \<Longrightarrow> rotate_api_key keys st = Inr st' \<Longrightarrow> client_reach keys st'"

text \<open>\<open>n\<close> consecutive rotations, as \<open>n\<close> exhaustion failures would trigger them.\<close>

fun rotate_n :: "string list \<Rightarrow> nat \<Rightarrow> gemini_state \<Rightarrow> gemini_state py_result" where
  "rotate_n keys 0 st = Inr st"
| "rotate_n keys (Suc n) st =
     (case rotate_api_key keys st of Inl e \<Rightarrow> Inl e | Inr st' \<Rightarrow> rotate_n keys n st')"

definition key_inv :: "string list \<Rightarrow> gemini_state \<Rightarrow> bool" where
  "key_inv keys st \<longleftrightarrow>
     current_key_index st < length keys \<and> configured_key st = Some (keys ! current_key_index st)"

subsection \<open>One operation at a time\<close>

lemma configure_ok:
  "i < length keys \<Longrightarrow>
   configure_gemini_client keys (st\<lparr>current_key_index := i\<rparr>) =
     Inr (st\<lparr>current_key_index := i, configured_key := Some (keys ! i)\<rparr>)"
  by (auto simp: configure_gemini_client_def)

lemma rotate_ok:
  "keys \<noteq> [] \<Longrightarrow>
   rotate_api_key keys st =
     Inr (st\<lparr>current_key_index := (current_key_index st + 1) mod length keys,
             configured_key := Some (keys ! ((current_key_index st + 1) mod length keys))\<rparr>)"
  by (simp add: rotate_api_key_def configure_ok [where st = st, simplified])

lemma init_ok:
  "check_api_keys keys = Inr () \<Longrightarrow>
   init_gemini keys = Inr \<lparr>current_key_index = 0, configured_key = Some (keys ! 0)\<rparr>"
  by (auto simp: init_gemini_def check_api_keys_def configure_gemini_client_def py_getitem_zero)

lemma check_api_keys_nonempty: "check_api_keys keys = Inr u \<Longrightarrow> keys \<noteq> []"
  by (auto simp: check_api_keys_def split: if_splits)

lemma init_gemini_Inr:
  "init_gemini keys = Inr st \<Longrightarrow> keys \<noteq> [] \<and> st = \<lparr>current_key_index = 0, configured_key = Some (keys ! 0)\<rparr>"
  by (auto simp: init_gemini_def check_api_keys_def configure_gemini_client_def py_getitem_zero
           split: if_splits)

lemma rotate_key_inv:
  assumes "rotate_api_key keys st = Inr st'"
  shows "key_inv keys st'"
proof (cases "keys = []")
  case True
  with assms show ?thesis by (simp add: rotate_api_key_def)
next
  case False
  with assms show ?thesis by (auto simp: rotate_ok key_inv_def)
qed

lemma rotate_n_ok:
  "keys \<noteq> [] \<Longrightarrow>
   rotate_n keys (Suc n) st =
     Inr (st\<lparr>current_key_index := (current_key_index st + Suc n) mod length keys,
             configured_key := Some (keys ! ((current_key_index st + Suc n) mod length keys))\<rparr>)"
proof (induction n arbitrary: st)
  case 0
  then show ?case by (simp add: rotate_ok)
next
  case (Suc n)
  let ?i = "Suc (current_key_index st) mod length keys"
  have IH: "rotate_n keys (Suc n) (st\<lparr>current_key_index := ?i, configured_key := Some (keys ! ?i)\<rparr>) =
     Inr (st\<lparr>current_key_index := (?i + Suc n) mod length keys,
             configured_key := Some (keys ! ((?i + Suc n) mod length keys))\<rparr>)"
    using Suc.IH [OF Suc.prems] by simp
  have "(?i + Suc n) mod length keys = (Suc (current_key_index st) + Suc n) mod length keys"
    by (rule mod_add_left_eq)
  also have "Suc (current_key_index st) + Suc n = current_key_index st + Suc (Suc n)"
    by simp
  finally have "(?i + Suc n) mod length keys = (current_key_index st + Suc (Suc n)) mod length keys" .
  with IH Suc.prems show ?case by (simp add: rotate_ok)
qed

subsection \<open>Reachable states\<close>

lemma reach_key_inv: "client_reach keys st \<Longrightarrow> key_inv keys st"
proof (induction rule: client_reach.induct)
  case (init st)
  then show ?case by (auto simp: key_inv_def dest: init_gemini_Inr)
next
  case (rotate st st')
  show ?case by (rule rotate_key_inv [OF rotate.hyps(2)])
qed

lemma reach_checked: "client_reach keys st \<Longrightarrow> check_api_keys keys = Inr ()"
  by (induction rule: client_reach.induct)
     (auto simp: init_gemini_def split: sum.splits)

text \<open>C19. Key-pool invariant: in every state the process can reach (the initial
  configuration and any number of rotations), the pool passed the module check, the cursor
  is a valid index and the client is configured with the key under the cursor.\<close>

theorem client_reach_invariant:
  assumes "client_reach keys st"
  shows "keys \<noteq> [] \<and> \<not> list_ex (\<lambda>key. key = PLACEHOLDER_KEY) keys \<and>
         current_key_index st < length keys \<and>
         configured_key st = Some (keys ! current_key_index st)"
  using reach_key_inv [OF assms] reach_checked [OF assms]
  by (auto simp: key_inv_def check_api_keys_def split: if_splits)

text \<open>C20. Rotation wraps around: from any reachable state, \<open>n\<close> consecutive rotations
  never raise and leave the cursor at \<open>(i + n) mod N\<close> for the starting cursor \<open>i\<close> and a
  pool of \<open>N\<close> keys, with the client configured with the key there; after \<open>N\<close> rotations
  the state is the one it started from.\<close>

theorem rotate_cyclic:
  assumes "client_reach keys st"
  shows "rotate_n keys n st =
           Inr (st\<lparr>current_key_index := (current_key_index st + n) mod length keys,
                   configured_key := Some (keys ! ((current_key_index st + n) mod length keys))\<rparr>) \<and>
         rotate_n keys (length keys) st = Inr st"
proof -
  from reach_key_inv [OF assms] have inv: "key_inv keys st" .
  then have ne: "keys \<noteq> []" by (auto simp: key_inv_def)
  have same: "st\<lparr>current_key_index := current_key_index st mod length keys,
                 configured_key := Some (keys ! (current_key_index st mod length keys))\<rparr> = st"
    using inv by (simp add: key_inv_def)
  have gen: "rotate_n keys m st =
           Inr (st\<lparr>current_key_index := (current_key_index st + m) mod length keys,
                   configured_key := Some (keys ! ((current_key_index st + m) mod length keys))\<rparr>)" for m
  proof (cases m)
    case 0
    then show ?thesis using same by simp
  next
    case (Suc n')
    then show ?thesis using rotate_n_ok [OF ne, of n' st] by simp
  qed
  have "(current_key_index st + length keys) mod length keys = current_key_index st mod length keys"
    by simp
  then have "rotate_n keys (length keys) st = Inr st"
    using gen [of "length keys"] same by simp
  with gen [of n] show ?thesis by blast
qed

text \<open>Pool errors: an empty pool or one holding the placeholder fails the module
  check; on an empty pool configuring raises \<open>ValueError\<close> and rotating raises
  \<open>ZeroDivisionError\<close> before touching the state.\<close>

theorem key_pool_errors:
  "(keys = [] \<or> list_ex (\<lambda>key. key = PLACEHOLDER_KEY) keys \<longrightarrow>
     (\<exists>msg. init_gemini keys = Inl (ValueError msg))) \<and>
   configure_gemini_client [] st = Inl (ValueError ''No Gemini API keys available in the pool.'') \<and>
   rotate_api_key [] st = Inl ZeroDivisionError"
  by (auto simp: init_gemini_def check_api_keys_def configure_gemini_client_def rotate_api_key_def)

subsection \<open>Witnesses\<close>

lemma two_keys_reach: "client_reach [''k0'', ''k1''] \<lparr>current_key_index = 0, configured_key = Some ''k0''\<rparr>"
  by (rule client_reach.init) (simp add: init_ok check_api_keys_def PLACEHOLDER_KEY_def)

theorem client_reach_invariant_witness:
  "current_key_index \<lparr>current_key_index = 0, configured_key = Some ''k0''\<rparr> < length [''k0'', ''k1'']"
  using client_reach_invariant [OF two_keys_reach] by simp

theorem rotate_cyclic_witness:
  "rotate_n [''k0'', ''k1''] 3 \<lparr>current_key_index = 0, configured_key = Some ''k0''\<rparr> =
   Inr \<lparr>current_key_index = 1, configured_key = Some ''k1''\<rparr>"
proof -
  have m: "(current_key_index \<lparr>current_key_index = 0, configured_key = Some ''k0''\<rparr> + 3) mod
           length [''k0'', ''k1''] = 1"
    by (simp add: numeral_3_eq_3 mod_Suc)
  show ?thesis using conjunct1 [OF rotate_cyclic [OF two_keys_reach, of 3]] unfolding m by simp
qed

theorem key_pool_errors_witness:
  "(\<exists>msg. init_gemini [] = Inl (ValueError msg)) \<and>
   rotate_api_key [] \<lparr>current_key_index = 0, configured_key = None\<rparr> = Inl ZeroDivisionError"
  using key_pool_errors [of "[]" "\<lparr>current_key_index = 0, configured_key = None\<rparr>"] by simp

end
