(* ===== verification/Answer.thy ===== *)
theory Answer
  imports Retriever Credentials
begin

text \<open>
  The answer side of \<open>src/mha_chatbot/chat2.py\<close>: \<open>build_context\<close> (lines 146-151), the
  fixed prompt of \<open>query_llm\<close> (157-173) and the call of the generative model with the
  configured client (175-180). The model is a collaborator: \<open>llm_backend\<close> maps the key
  the client was configured with and the prompt parts to a reply or to a raised exception
  with its message (\<open>generate_content\<close> and the read of \<open>response.text\<close>). The client state
  is the \<open>gemini_state\<close> of theory \<open>Credentials\<close>; \<open>query_llm\<close> reads it and changes nothing.
\<close>

definition DQUOTE :: char where
  "DQUOTE = CHR 0x22"

definition NEWLINE :: char where
  "NEWLINE = CHR 0x0A"

text \<open>One iteration of the loop: the f-strings of lines 149-150. Retrieval summaries always
  carry \<open>source\<close>, \<open>page\<close> and \<open>text\<close>, so the \<open>get\<close> defaults are never taken.\<close>

definition context_block :: "summary \<Rightarrow> string" where
  "context_block c =
     ''According to '' @ [DQUOTE] @ r_source c @ [DQUOTE] @ '' (Page '' @ py_str_nat (r_page c) @
     ''):'' @ [NEWLINE] @ r_text c @ [NEWLINE, NEWLINE]"

definition build_context :: "summary list \<Rightarrow> string" where
  "build_context chunks = foldl (\<lambda>context c. context @ context_block c) [] chunks"

definition REFUSAL :: string where
  "REFUSAL = ''I apologize, but the information needed to answer this specific question is not available in the provided government documents.''"

definition prompt_parts :: "string \<Rightarrow> string \<Rightarrow> string list" where
  "prompt_parts context user_query =
     [''You are an exceptionally accurate and helpful Government Helpdesk Assistant.'',
      '''',
      ''**Instructions:**'',
      ''1.  **General Queries**: If the user's question is a general greeting or conversational statement, respond naturally.'',
      ''2.  **Specific Queries**: If the question asks for specific government info, use **only** the provided `Context`.'',
      ''    - If the answer is found, provide it.'',
      ''    - If not, respond: '' @ [DQUOTE] @ REFUSAL @ [DQUOTE],
      '''',
      ''Context:'',
      context,
      '''',
      ''Question:'',
      user_query,
      '''',
      ''Answer:'']"

datatype llm_reply = LlmText string | LlmRaise string

type_synonym llm_backend = "string \<Rightarrow> string list \<Rightarrow> llm_reply"

definition LLM_ERROR_PREFIX :: string where
  "LLM_ERROR_PREFIX = ''Error querying Gemini LLM: ''"

text \<open>With no client configured, \<open>GEMINI_GENERATIVE_MODEL\<close> is \<open>None\<close> and the attribute
  lookup raises inside the \<open>try\<close>; the handler turns it into text like any other error.\<close>

definition NO_CLIENT_MSG :: string where
  "NO_CLIENT_MSG = [CHR 0x27] @ ''NoneType'' @ [CHR 0x27] @ '' object has no attribute '' @
                   [CHR 0x27] @ ''generate_content'' @ [CHR 0x27]"

definition query_llm :: "llm_backend \<Rightarrow> gemini_state \<Rightarrow> string \<Rightarrow> string \<Rightarrow> string" where
  "query_llm generate st context user_query =
     (case configured_key st of
        None \<Rightarrow> LLM_ERROR_PREFIX @ NO_CLIENT_MSG
      | Some key \<Rightarrow>
          (case generate key (prompt_parts context user_query) of
             LlmText t \<Rightarrow> py_strip t
           | LlmRaise e \<Rightarrow> LLM_ERROR_PREFIX @ e))"

text \<open>A backend whose quota is exhausted, for the examples.\<close>

definition quota_backend :: llm_backend where
  "quota_backend key parts = LlmRaise ''429 Resource has been exhausted''"

text \<open>The debug helper \<open>debug_retrieval\<close> (lines 185-194): the same \<open>retrieve\<close> with the
  default boost, and for every result the printed preview of its text, the first
  \<open>preview_chars\<close> characters with newlines turned into spaces, stripped, with \<open>...\<close> when the
  text is longer. The header line of each result, with the score printed to four decimals,
  is not modelled.\<close>

definition PREVIEW_CHARS :: nat where
  "PREVIEW_CHARS = 300"

definition text_preview :: "nat \<Rightarrow> string \<Rightarrow> string" where
  "text_preview preview_chars t =
     py_strip (map (\<lambda>c. if c = NEWLINE then CHR '' '' else c) (take preview_chars t)) @
     (if preview_chars < length t then ''...'' else [])"

definition debug_retrieval ::
  "chat_ctx \<Rightarrow> string \<Rightarrow> int \<Rightarrow> nat \<Rightarrow> (summary list \<times> string list) py_result" where
  "debug_retrieval ctx query k preview_chars =
     (case retrieve ctx query k KEYWORD_BOOST of
        Inl e \<Rightarrow> Inl e
      | Inr retrieved \<Rightarrow> Inr (retrieved, map (\<lambda>r. text_preview preview_chars (r_text r)) retrieved))"

subsection \<open>Context builder\<close>

lemma foldl_append_acc:
  "foldl (\<lambda>acc c. acc @ f c) a xs = a @ concat (map f xs)"
  by (induction xs arbitrary: a) simp_all

lemma build_context_append:
  "build_context (xs @ ys) = build_context xs @ build_context ys"
  by (simp add: build_context_def foldl_append_acc)

lemma build_context_Cons:
  "build_context (c # cs) = context_block c @ build_context cs"
  by (simp add: build_context_def foldl_append_acc)

subsection \<open>Properties\<close>

text \<open>Context builder: the accumulating loop of \<open>build_context\<close> produces exactly the
  concatenation, in retrieval order, of one attributed block per chunk; nothing is
  reordered or merged.\<close>

theorem build_context_blocks: "build_context cs = concat (map context_block cs)"
  using foldl_append_acc [of context_block "[]" cs] by (simp add: build_context_def)

text \<open>Prompt shape: the prompt has fifteen parts; the context is the tenth and the
  question the thirteenth; every other part is fixed text independent of both, and the
  refusal sentence appears verbatim, in double quotes, in the seventh.\<close>

theorem prompt_parts_shape:
  "length (prompt_parts context q) = 15 \<and>
   prompt_parts context q ! 9 = context \<and> prompt_parts context q ! 12 = q \<and>
   (\<forall>i < 15. i \<noteq> 9 \<and> i \<noteq> 12 \<longrightarrow> prompt_parts context q ! i = prompt_parts context' q' ! i) \<and>
   (\<exists>pre. prompt_parts context q ! 6 = pre @ [DQUOTE] @ REFUSAL @ [DQUOTE])"
proof -
  have "\<forall>i < 15. i \<noteq> 9 \<and> i \<noteq> 12 \<longrightarrow> prompt_parts context q ! i = prompt_parts context' q' ! i"
    by (auto simp: prompt_parts_def less_Suc_eq numeral_eq_Suc)
  then show ?thesis by (simp add: prompt_parts_def)
qed

text \<open>Answer client: in every reachable client state the model is called with the key
  under the cursor and the fixed prompt; a reply is returned stripped and a raised error
  comes back as the text \<open>Error querying Gemini LLM: \<close> followed by its message.\<close>

theorem query_llm_reachable:
  assumes "client_reach keys st"
  shows "query_llm generate st context q =
           (case generate (keys ! current_key_index st) (prompt_parts context q) of
              LlmText t \<Rightarrow> py_strip t
            | LlmRaise e \<Rightarrow> LLM_ERROR_PREFIX @ e)"
  using reach_key_inv [OF assms] by (simp add: query_llm_def key_inv_def)

lemma text_preview_bounds:
  "length (text_preview n t) \<le> n + 3 \<and> NEWLINE \<notin> set (text_preview n t)"
proof -
  let ?m = "map (\<lambda>c. if c = NEWLINE then CHR '' '' else c) (take n t)"
  have "length (py_strip ?m) \<le> n" using length_py_strip [of ?m] by simp
  moreover have "NEWLINE \<notin> set (py_strip ?m)"
    using set_py_strip [of ?m] by (auto simp: NEWLINE_def)
  moreover have "NEWLINE \<notin> set ''...''" by (simp add: NEWLINE_def)
  ultimately show ?thesis by (auto simp: text_preview_def)
qed

text \<open>Debug helper: \<open>debug_retrieval\<close> performs exactly the retrieval of \<open>retrieve\<close>
  with the default boost and returns its result; it prints one preview per result, of at
  most \<open>preview_chars + 3\<close> characters and without newlines.\<close>

theorem debug_retrieval_same:
  "(case debug_retrieval ctx q k n of
      Inl e \<Rightarrow> retrieve ctx q k KEYWORD_BOOST = Inl e
    | Inr (rs, previews) \<Rightarrow> retrieve ctx q k KEYWORD_BOOST = Inr rs \<and> length previews = length rs \<and>
        (\<forall>p\<in>set previews. length p \<le> n + 3 \<and> NEWLINE \<notin> set p))"
  using text_preview_bounds
  by (auto simp: debug_retrieval_def split: sum.splits)

subsection \<open>Witnesses\<close>

theorem prompt_parts_shape_witness:
  "prompt_parts ''ctx'' ''q'' ! 9 = ''ctx''"
  using prompt_parts_shape [of "''ctx''" "''q''"] by blast

theorem debug_retrieval_same_witness:
  "retrieve example_ctx ''visa fee'' 2 KEYWORD_BOOST = Inr (fst (projr (debug_retrieval example_ctx ''visa fee'' 2 PREVIEW_CHARS)))"
proof -
  have r: "retrieve example_ctx ''visa fee'' 2 KEYWORD_BOOST =
   Inr [\<lparr>score = example_sem + 2 / 5, r_uid = Some 1, r_source = ''doc.pdf'', r_page = 1,
          r_text = ''Visa application fee is 500 rupees''\<rparr>,
        \<lparr>score = example_sem, r_uid = Some 2, r_source = ''doc.pdf'', r_page = 2,
          r_text = ''Passport renewal takes 30 days''\<rparr>]"
    using example_retrieve by (simp add: KEYWORD_BOOST_def)
  show ?thesis
    using debug_retrieval_same [of example_ctx "''visa fee''" 2 PREVIEW_CHARS] r
    by (auto simp: debug_retrieval_def)
qed

theorem query_llm_reachable_witness:
  "query_llm quota_backend \<lparr>current_key_index = 0, configured_key = Some ''k0''\<rparr> ''ctx'' ''q'' =
   ''Error querying Gemini LLM: 429 Resource has been exhausted''"
  using query_llm_reachable [OF two_keys_reach, of quota_backend]
  by (simp add: quota_backend_def LLM_ERROR_PREFIX_def)

end
