(* ===== verification/Paths.thy ===== *)
theory Paths
  imports Prelude
begin

text \<open>
  Where the scripts of \<open>src/mha_chatbot\<close> read and write their files. Paths are strings;
  \<open>os.path.join\<close> is \<open>posixpath.join\<close> of two parts (\<open>py_path_join\<close>), and a relative path
  opened by \<open>open\<close> or \<open>pathlib\<close> names the file of that path joined to the working
  directory. On Windows a backslash also separates directories; \<open>win_path\<close> reads a path
  that way by turning every backslash into a slash. The directory of a module,
  \<open>os.path.dirname(__file__)\<close>, is the parameter \<open>here\<close>; \<open>ingest2.py\<close> and \<open>chat2.py\<close>
  live in the same directory, so they share it.
\<close>

definition SEP :: char where
  "SEP = CHR ''/''"

definition BACKSLASH :: char where
  "BACKSLASH = CHR 0x5C"

definition py_path_join :: "string \<Rightarrow> string \<Rightarrow> string" where
  "py_path_join a b =
     (if py_startswith b [SEP] then b
      else if a = [] \<or> py_endswith a [SEP] then a @ b
      else a @ [SEP] @ b)"

definition win_path :: "string \<Rightarrow> string" where
  "win_path p = map (\<lambda>c. if c = BACKSLASH then SEP else c) p"

subsection \<open>\<open>ingest2.py\<close>\<close>

text \<open>Lines 18-20, and the two files \<open>main\<close> writes (lines 171 and 177).\<close>

definition ingest2_DATA_DIR :: "string \<Rightarrow> string" where
  "ingest2_DATA_DIR here = py_path_join here ''data2''"

definition ingest2_METADATA_PATH :: "string \<Rightarrow> string" where
  "ingest2_METADATA_PATH here = py_path_join here ''metadata2.json''"

definition ingest2_FAISS_DIR :: "string \<Rightarrow> string" where
  "ingest2_FAISS_DIR here = py_path_join here ''faiss_index2''"

definition ingest2_index_path :: "string \<Rightarrow> string" where
  "ingest2_index_path here = py_path_join (ingest2_FAISS_DIR here) ''index.faiss''"

definition ingest2_chunks_path :: "string \<Rightarrow> string" where
  "ingest2_chunks_path here = py_path_join (ingest2_FAISS_DIR here) ''chunks.json''"

subsection \<open>\<open>chat2.py\<close> and \<open>api.py\<close>\<close>

text \<open>Lines 15-19 of \<open>chat2.py\<close>; \<open>api.py\<close> imports \<open>CHUNKS_PATH\<close> under the name
  \<open>chunks_path\<close> (line 7), so it reads the same file.\<close>

definition chat2_DATA_DIR :: "string \<Rightarrow> string" where
  "chat2_DATA_DIR here = py_path_join here ''data2''"

definition chat2_FAISS_DIR :: "string \<Rightarrow> string" where
  "chat2_FAISS_DIR here = py_path_join here ''faiss_index2''"

definition chat2_CHUNKS_PATH :: "string \<Rightarrow> string" where
  "chat2_CHUNKS_PATH here = py_path_join (chat2_FAISS_DIR here) ''chunks.json''"

definition chat2_FAISS_INDEX_PATH :: "string \<Rightarrow> string" where
  "chat2_FAISS_INDEX_PATH here = py_path_join (chat2_FAISS_DIR here) ''index.faiss''"

subsection \<open>The scraper and the downloader\<close>

text \<open>\<open>Scrapper_mha.py\<close> line 7 and \<open>download_pdfs.py\<close> lines 7 and 9: the relative
  paths of the listing file, and the downloader's absolute Windows data folder, a folder of
  the author's machine. Whether that folder is ingestion's \<open>data2\<close> depends on where the
  repository is checked out and on Windows path identity (drive letters, case), which this
  theory does not model; theory \<open>Pipeline\<close> hands the downloads over as the specification's
  contract says.\<close>

definition OUTPUT_FILE :: string where
  "OUTPUT_FILE = ''mha_whats_new.json''"

definition JSON_FILE :: string where
  "JSON_FILE = ''mha_chatbot'' @ [BACKSLASH] @ ''mha_whats_new.json''"

definition DATA_FOLDER :: string where
  "DATA_FOLDER = ''C:'' @ [BACKSLASH] @ ''Users'' @ [BACKSLASH] @ ''Aman'' @ [BACKSLASH] @
     ''OneDrive'' @ [BACKSLASH] @ ''Desktop'' @ [BACKSLASH] @ ''MHA Chatbot'' @ [BACKSLASH] @
     ''mha_chatbot'' @ [BACKSLASH] @ ''data2''"

subsection \<open>Joining relative paths\<close>

definition join_prefix :: "string \<Rightarrow> string" where
  "join_prefix a = (if a = [] \<or> py_endswith a [SEP] then a else a @ [SEP])"

lemma py_path_join_rel:
  "\<not> py_startswith b [SEP] \<Longrightarrow> py_path_join a b = join_prefix a @ b"
  by (simp add: py_path_join_def join_prefix_def)

lemma py_endswith_append_nonempty:
  "b \<noteq> [] \<Longrightarrow> py_endswith (a @ b) [x] \<longleftrightarrow> py_endswith b [x]"
  by (cases b rule: rev_cases) (simp_all add: py_endswith_iff)

lemma join_prefix_append [simp]:
  "b \<noteq> [] \<Longrightarrow> \<not> py_endswith b [SEP] \<Longrightarrow> join_prefix (a @ b) = a @ b @ [SEP]"
  using py_endswith_append_nonempty [of b a SEP] by (simp add: join_prefix_def)

lemmas path_literal_simps = py_startswith_def py_endswith_def SEP_def

lemma ingest2_paths:
  "ingest2_DATA_DIR here = join_prefix here @ ''data2'' \<and>
   ingest2_METADATA_PATH here = join_prefix here @ ''metadata2.json'' \<and>
   ingest2_index_path here = join_prefix here @ ''faiss_index2/index.faiss'' \<and>
   ingest2_chunks_path here = join_prefix here @ ''faiss_index2/chunks.json''"
  by (simp add: ingest2_DATA_DIR_def ingest2_METADATA_PATH_def ingest2_FAISS_DIR_def
      ingest2_index_path_def ingest2_chunks_path_def py_path_join_rel
      path_literal_simps)

lemma chat2_paths:
  "chat2_DATA_DIR here = join_prefix here @ ''data2'' \<and>
   chat2_FAISS_INDEX_PATH here = join_prefix here @ ''faiss_index2/index.faiss'' \<and>
   chat2_CHUNKS_PATH here = join_prefix here @ ''faiss_index2/chunks.json''"
  by (simp add: chat2_DATA_DIR_def chat2_FAISS_DIR_def chat2_FAISS_INDEX_PATH_def
      chat2_CHUNKS_PATH_def py_path_join_rel path_literal_simps)

subsection \<open>Properties\<close>

text \<open>C28. Ingestion and serving share their files: in the same directory, \<open>chat2\<close> (and with
  it \<open>api.py\<close>) reads the index and the chunk list exactly where \<open>ingest2\<close> writes them
  and both use the same data folder; the index, the chunk list, the metadata file and
  any PDF of the data folder under a relative name are four different files.\<close>

theorem ingest_serve_paths_agree:
  assumes "\<not> py_startswith f [SEP]"
  shows "chat2_FAISS_INDEX_PATH here = ingest2_index_path here \<and>
         chat2_CHUNKS_PATH here = ingest2_chunks_path here \<and>
         chat2_DATA_DIR here = ingest2_DATA_DIR here \<and>
         distinct [ingest2_index_path here, ingest2_chunks_path here, ingest2_METADATA_PATH here,
                   py_path_join (ingest2_DATA_DIR here) f]"
proof -
  have "join_prefix (ingest2_DATA_DIR here) = join_prefix here @ ''data2/''"
    using ingest2_paths [of here] by (simp add: path_literal_simps)
  then have "py_path_join (ingest2_DATA_DIR here) f = join_prefix here @ ''data2/'' @ f"
    using py_path_join_rel [OF assms] by simp
  then show ?thesis using ingest2_paths [of here] chat2_paths [of here] by simp
qed

text \<open>C29. Listing hand-off: run from the same directory, the downloader opens a different file
  from the one the scraper writes, whether the backslash of \<open>JSON_FILE\<close> is read as a
  character (POSIX) or as a separator (Windows); on Windows it opens the scraper's file only
  when the scraper ran in the subdirectory \<open>mha_chatbot\<close>.\<close>

theorem downloader_reads_other_file:
  "py_path_join cwd JSON_FILE \<noteq> py_path_join cwd OUTPUT_FILE \<and>
   py_path_join (win_path cwd) (win_path JSON_FILE) \<noteq> py_path_join (win_path cwd) OUTPUT_FILE \<and>
   py_path_join (win_path cwd) (win_path JSON_FILE) =
     py_path_join (py_path_join (win_path cwd) ''mha_chatbot'') OUTPUT_FILE"
  by (simp add: py_path_join_rel JSON_FILE_def OUTPUT_FILE_def win_path_def
      BACKSLASH_def path_literal_simps)

subsection \<open>Witnesses\<close>

theorem ingest_serve_paths_agree_witness:
  "chat2_FAISS_INDEX_PATH ''/srv/mha_chatbot'' = ingest2_index_path ''/srv/mha_chatbot'' \<and>
   chat2_CHUNKS_PATH ''/srv/mha_chatbot'' = ingest2_chunks_path ''/srv/mha_chatbot'' \<and>
   chat2_DATA_DIR ''/srv/mha_chatbot'' = ingest2_DATA_DIR ''/srv/mha_chatbot'' \<and>
   distinct [ingest2_index_path ''/srv/mha_chatbot'', ingest2_chunks_path ''/srv/mha_chatbot'',
             ingest2_METADATA_PATH ''/srv/mha_chatbot'',
             py_path_join (ingest2_DATA_DIR ''/srv/mha_chatbot'') ''a.pdf'']"
  by (rule ingest_serve_paths_agree) (simp add: path_literal_simps)

end
