(* ===== verification/Api.thy ===== *)
theory Api
  imports Answer Ingestion Paths
begin

text \<open>
  The serving side: the start-up of \<open>src/mha_chatbot/chat2.py\<close> when \<open>api.py\<close> imports it
  (key check, lines 33-34; index and chunk files, 66-73; first client configuration, 81)
  and the three handlers of \<open>src/mha_chatbot/api.py\<close>: \<open>get_stats\<close> (21-34),
  \<open>chat_endpoint\<close> (36-60) and \<open>get_chunks\<close> (62-69). The request body of the chat
  endpoint is the parsed JSON object, a map from keys to JSON scalars; \<open>int()\<close> and
  \<open>float()\<close> of such a value follow Python's conversions. A handler that raises is answered
  with status 500, a query parameter that fails FastAPI's bounds with status 422. The files
  are the \<open>disk\<close> of theory \<open>Ingestion\<close>; the chat state is read once at start-up.
\<close>

datatype json_val = JNull | JBool bool | JInt int | JFloat real | JStr string

type_synonym json_obj = "string \<rightharpoonup> json_val"

datatype 'a http_response = HttpOk 'a | HttpUnprocessable | HttpServerError py_exc

subsection \<open>Python's \<open>int()\<close> and \<open>float()\<close> on JSON values\<close>

definition is_digit :: "char \<Rightarrow> bool" where
  "is_digit c \<longleftrightarrow> 48 \<le> (of_char c :: nat) \<and> (of_char c :: nat) \<le> 57"

text \<open>A digit part of a numeric literal: digits, single underscores between them.\<close>

definition py_digits_ok :: "string \<Rightarrow> bool" where
  "py_digits_ok s \<longleftrightarrow> s \<noteq> [] \<and> is_digit (hd s) \<and> is_digit (last s) \<and>
     list_all (\<lambda>c. is_digit c \<or> c = CHR ''_'') s \<and>
     successively (\<lambda>a b. \<not> (a = CHR ''_'' \<and> b = CHR ''_'')) s"

definition read_digits :: "string \<Rightarrow> nat" where
  "read_digits s = read_nat (filter is_digit s)"

definition py_sign_split :: "string \<Rightarrow> int \<times> string" where
  "py_sign_split s =
     (if s \<noteq> [] \<and> hd s = CHR ''-'' then (-1, tl s)
      else if s \<noteq> [] \<and> hd s = CHR ''+'' then (1, tl s) else (1, s))"

definition py_int_str :: "string \<Rightarrow> int py_result" where
  "py_int_str s =
     (case py_sign_split (py_strip s) of
        (sg, ds) \<Rightarrow> if py_digits_ok ds then Inr (sg * int (read_digits ds))
                   else Inl (ValueError ''invalid literal for int() with base 10''))"

text \<open>\<open>float()\<close> of a string: sign, digit part with optional fraction, optional exponent.
  The spellings of infinity and NaN, which Python accepts, have no real value and are
  rejected here.\<close>

definition py_float_str :: "string \<Rightarrow> real py_result" where
  "py_float_str s =
     (case py_sign_split (py_strip s) of
        (sg, body) \<Rightarrow>
          let mant = takeWhile (\<lambda>c. c \<noteq> CHR ''e'' \<and> c \<noteq> CHR ''E'') body;
              ex = dropWhile (\<lambda>c. c \<noteq> CHR ''e'' \<and> c \<noteq> CHR ''E'') body;
              ip = takeWhile (\<lambda>c. c \<noteq> CHR ''.'') mant;
              pt = dropWhile (\<lambda>c. c \<noteq> CHR ''.'') mant;
              fp = drop 1 pt;
              mant_ok = (if pt = [] then py_digits_ok ip
                         else (py_digits_ok ip \<and> (fp = [] \<or> py_digits_ok fp)) \<or>
                              (ip = [] \<and> py_digits_ok fp));
              (es, ed) = py_sign_split (drop 1 ex);
              ex_ok = (ex = [] \<or> py_digits_ok ed);
              m = real (read_digits ip) + real (read_digits fp) / 10 ^ length (filter is_digit fp);
              e = (if ex = [] then 0 else read_digits ed)
          in if mant_ok \<and> ex_ok
             then Inr (of_int sg * m * (if es < 0 then inverse (10 ^ e) else 10 ^ e))
             else Inl (ValueError ''could not convert string to float''))"

definition py_int_json :: "json_val \<Rightarrow> int py_result" where
  "py_int_json v =
     (case v of
        JNull \<Rightarrow> Inl (TypeError ''int() argument must be a string, a bytes-like object or a real number, not NoneType'')
      | JBool b \<Rightarrow> Inr (if b then 1 else 0)
      | JInt i \<Rightarrow> Inr i
      | JFloat r \<Rightarrow> Inr (if 0 \<le> r then \<lfloor>r\<rfloor> else \<lceil>r\<rceil>)
      | JStr s \<Rightarrow> py_int_str s)"

definition py_float_json :: "json_val \<Rightarrow> real py_result" where
  "py_float_json v =
     (case v of
        JNull \<Rightarrow> Inl (TypeError ''float() argument must be a string or a real number, not NoneType'')
      | JBool b \<Rightarrow> Inr (if b then 1 else 0)
      | JInt i \<Rightarrow> Inr (of_int i)
      | JFloat r \<Rightarrow> Inr r
      | JStr s \<Rightarrow> py_float_str s)"

text \<open>The decimal string of an integer, Python's \<open>str(i)\<close>.\<close>

definition py_str_int :: "int \<Rightarrow> string" where
  "py_str_int i = (if i < 0 then CHR ''-'' # py_str_nat (nat (- i)) else py_str_nat (nat i))"


subsection \<open>Start-up of \<open>chat2\<close>\<close>

text \<open>Module load in source order: the key check, the index file, the chunks file, loading
  both with the embedding model, then the first \<open>_configure_gemini_client()\<close>. Any raise
  aborts the import, so the server does not start.\<close>

definition load_chat2 ::
  "string \<Rightarrow> string list \<Rightarrow> disk \<Rightarrow> (string \<Rightarrow> vec) \<Rightarrow> (chat_ctx \<times> gemini_state) py_result" where
  "load_chat2 here keys d model =
     (case check_api_keys keys of
        Inl e \<Rightarrow> Inl e
      | Inr _ \<Rightarrow>
          (case index_file d of
             None \<Rightarrow> Inl (FileNotFoundError (''FAISS index not found: '' @ chat2_FAISS_INDEX_PATH here))
           | Some index \<Rightarrow>
               (case chunks_file d of
                  None \<Rightarrow> Inl (FileNotFoundError (''Chunks metadata not found: '' @ chat2_CHUNKS_PATH here))
                | Some chunks \<Rightarrow>
                    (case configure_gemini_client keys \<lparr>current_key_index = 0, configured_key = None\<rparr> of
                       Inl e \<Rightarrow> Inl e
                     | Inr st \<Rightarrow> Inr (\<lparr>INDEX = index, CHUNKS = chunks, MODEL = model\<rparr>, st)))))"

subsection \<open>Handlers of \<open>api.py\<close>\<close>

record stats =
  documents :: nat
  num_chunks :: nat
  sources :: nat

text \<open>\<open>get_stats\<close> reads the chunks file on every request.\<close>

definition get_stats :: "disk \<Rightarrow> stats" where
  "get_stats d =
     (case chunks_file d of
        None \<Rightarrow> \<lparr>documents = 0, num_chunks = 0, sources = 0\<rparr>
      | Some chunks \<Rightarrow>
          (let srcs = set (map source chunks)
           in \<lparr>documents = card srcs, num_chunks = length chunks, sources = card srcs\<rparr>))"

text \<open>\<open>offset: int = Query(0, ge=0)\<close>, \<open>limit: int = Query(50, ge=1, le=500)\<close>: FastAPI
  checks the bounds before the handler runs.\<close>

definition MAX_LIMIT :: int where
  "MAX_LIMIT = 500"

definition get_chunks :: "disk \<Rightarrow> int \<Rightarrow> int \<Rightarrow> chunk list http_response" where
  "get_chunks d offset limit =
     (if offset < 0 \<or> limit < 1 \<or> MAX_LIMIT < limit then HttpUnprocessable
      else (case chunks_file d of
              None \<Rightarrow> HttpOk []
            | Some chunks \<Rightarrow> HttpOk (py_slice chunks (nat offset) (nat offset + nat limit))))"

record chat_reply =
  answer :: string
  reply_chunks :: "summary list"
  reply_context :: string

definition json_get :: "json_obj \<Rightarrow> string \<Rightarrow> json_val \<Rightarrow> json_val" where
  "json_get data key dflt = (case data key of None \<Rightarrow> dflt | Some v \<Rightarrow> v)"

text \<open>The query reaches the embedding model, which accepts only text.\<close>

definition query_text :: "json_val \<Rightarrow> string py_result" where
  "query_text v = (case v of JStr s \<Rightarrow> Inr s | _ \<Rightarrow> Inl (TypeError ''query must be a string''))"

text \<open>\<open>chat_endpoint\<close> in source order: \<open>k\<close>, then \<open>keyword_boost\<close>, then retrieval,
  context and answer; the handler touches no global, so the client state it returns is the
  one it was given. \<open>convert\<close> only turns numpy scalars into Python numbers.\<close>

definition chat_endpoint ::
  "llm_backend \<Rightarrow> chat_ctx \<Rightarrow> gemini_state \<Rightarrow> json_obj \<Rightarrow> chat_reply http_response \<times> gemini_state" where
  "chat_endpoint generate ctx st data =
     (let user_query = json_get data ''query'' (JStr '''') in
      case py_int_json (json_get data ''k'' (JInt 7)) of
        Inl e \<Rightarrow> (HttpServerError e, st)
      | Inr k \<Rightarrow>
          (case py_float_json (json_get data ''keyword_boost'' (JFloat (2 / 10))) of
             Inl e \<Rightarrow> (HttpServerError e, st)
           | Inr kw_boost \<Rightarrow>
               (case query_text user_query of
                  Inl e \<Rightarrow> (HttpServerError e, st)
                | Inr q \<Rightarrow>
                    (case retrieve ctx q k kw_boost of
                       Inl e \<Rightarrow> (HttpServerError e, st)
                     | Inr retrieved_chunks \<Rightarrow>
                         (let context = build_context retrieved_chunks
                          in (HttpOk \<lparr>answer = query_llm generate st context q,
                                      reply_chunks = retrieved_chunks, reply_context = context\<rparr>, st))))))"


text \<open>The stores of the examples below.\<close>

definition page_store :: "chunk list" where
  "page_store = [chunk_A, chunk_B, chunk_A]"

definition page_disk :: disk where
  "page_disk = \<lparr>index_file = None, chunks_file = Some page_store\<rparr>"

text \<open>Files of two different runs: an index of two rows beside a store of one chunk.\<close>

definition skew_disk :: disk where
  "skew_disk = \<lparr>index_file = Some \<lparr>dim = 1, xb = [[1], [1]]\<rparr>, chunks_file = Some [chunk_A]\<rparr>"

definition served_disk :: disk where
  "served_disk = \<lparr>index_file = Some \<lparr>dim = 1, xb = [[1], [1]]\<rparr>, chunks_file = Some [chunk_A, chunk_B]\<rparr>"

subsection \<open>Conversions\<close>

lemma is_digit_not_space: "is_digit c \<Longrightarrow> \<not> is_py_space c"
  by (simp add: is_digit_def is_py_space_def)

lemma digit_char_is_digit: "d < 10 \<Longrightarrow> is_digit (digit_char d)"
  by (simp add: is_digit_def digit_char_def)

lemma py_str_nat_digits: "list_all is_digit (py_str_nat n)"
proof (induction n rule: py_str_nat.induct)
  case (1 n)
  then show ?case by (subst py_str_nat.simps) (simp add: digit_char_is_digit)
qed

lemma digits_successively:
  "list_all is_digit s \<Longrightarrow> successively (\<lambda>a b. \<not> (a = CHR ''_'' \<and> b = CHR ''_'')) s"
  by (induction s rule: induct_list012) (auto simp: is_digit_def)

lemma py_digits_ok_str_nat: "py_digits_ok (py_str_nat n)"
proof -
  have ds: "list_all is_digit (py_str_nat n)" by (rule py_str_nat_digits)
  have ne: "py_str_nat n \<noteq> []" by (rule py_str_nat_nonempty)
  from ds ne have "is_digit (hd (py_str_nat n))" "is_digit (last (py_str_nat n))"
    by (simp_all add: list_all_iff)
  with ds ne digits_successively [OF ds] show ?thesis
    by (simp add: py_digits_ok_def list_all_iff)
qed

lemma read_digits_str_nat: "read_digits (py_str_nat n) = n"
proof -
  have "filter is_digit (py_str_nat n) = py_str_nat n"
    using py_str_nat_digits [of n] by (simp add: list_all_iff)
  then show ?thesis by (simp add: read_digits_def read_py_str_nat)
qed

lemma py_strip_unchanged:
  assumes "s \<noteq> []" "\<not> is_py_space (hd s)" "\<not> is_py_space (last s)"
  shows "py_strip s = s"
proof -
  have "dropWhile is_py_space s = s" using assms(2) by (simp add: dropWhile_eq_self_iff)
  moreover have "dropWhile is_py_space (rev s) = rev s"
    using assms(1,3) by (simp add: dropWhile_eq_self_iff hd_rev)
  ultimately show ?thesis by (simp add: py_strip_def)
qed

lemma py_strip_str_nat: "py_strip (py_str_nat n) = py_str_nat n"
proof -
  have ne: "py_str_nat n \<noteq> []" by (rule py_str_nat_nonempty)
  with py_str_nat_digits [of n] show ?thesis
    by (intro py_strip_unchanged) (auto simp: list_all_iff is_digit_not_space)
qed

lemma py_strip_minus_str_nat: "py_strip (CHR ''-'' # py_str_nat n) = CHR ''-'' # py_str_nat n"
proof -
  have ne: "py_str_nat n \<noteq> []" by (rule py_str_nat_nonempty)
  with py_str_nat_digits [of n] have "\<not> is_py_space (last (py_str_nat n))"
    by (simp add: list_all_iff is_digit_not_space)
  moreover have "\<not> is_py_space (CHR ''-'')" by (simp add: is_py_space_def)
  ultimately show ?thesis using ne by (intro py_strip_unchanged) simp_all
qed

lemma py_sign_split_str_nat: "py_sign_split (py_str_nat n) = (1, py_str_nat n)"
proof -
  have ne: "py_str_nat n \<noteq> []" by (rule py_str_nat_nonempty)
  with py_str_nat_digits [of n] have "is_digit (hd (py_str_nat n))" by (simp add: list_all_iff)
  then show ?thesis by (auto simp: py_sign_split_def is_digit_def)
qed

subsection \<open>Pagination\<close>

lemma concat_pages:
  "concat (map (\<lambda>i. take L (drop (i * L) xs)) [0..<n]) = take (n * L) xs"
proof (induction n)
  case 0
  then show ?case by simp
next
  case (Suc n)
  have "take (n * L + L) xs = take (n * L) xs @ take L (drop (n * L) xs)"
    by (rule take_add)
  with Suc show ?case by (simp add: add.commute)
qed

lemma pages_cover:
  assumes "1 \<le> L"
  shows "concat (map (\<lambda>i. take L (drop (i * L) xs)) [0..<length xs div L + 1]) = xs"
proof -
  have "length xs < (length xs div L + 1) * L"
    using assms by (simp add: dividend_less_div_times)
  then show ?thesis by (simp add: concat_pages)
qed

subsection \<open>Start-up\<close>

lemma load_chat2_Inr:
  assumes "load_chat2 here keys d model = Inr (ctx, st)"
  shows "check_api_keys keys = Inr () \<and> index_file d = Some (INDEX ctx) \<and>
         chunks_file d = Some (CHUNKS ctx) \<and> MODEL ctx = model \<and> init_gemini keys = Inr st"
  using assms
  by (auto simp: load_chat2_def init_gemini_def split: sum.splits option.splits)

lemma load_chat2_ok:
  assumes "check_api_keys keys = Inr ()" "index_file d = Some index" "chunks_file d = Some chunks"
  shows "load_chat2 here keys d model =
           Inr (\<lparr>INDEX = index, CHUNKS = chunks, MODEL = model\<rparr>,
                \<lparr>current_key_index = 0, configured_key = Some (keys ! 0)\<rparr>)"
  using assms init_ok [OF assms(1)] by (simp add: load_chat2_def init_gemini_def)


lemma snd_chat_endpoint: "snd (chat_endpoint generate ctx st data) = st"
  by (simp add: chat_endpoint_def Let_def split: sum.split)

lemma suc_mod_ne:
  assumes "i < n" "2 \<le> n"
  shows "Suc i mod n \<noteq> i"
proof (cases "Suc i < n")
  case True
  then show ?thesis by simp
next
  case False
  with assms(1) have "Suc i = n" by simp
  with assms(2) show ?thesis by auto
qed

lemma py_str_int_parts:
  "py_sign_split (py_strip (py_str_int i)) = (if i < 0 then -1 else 1, py_str_nat (nat \<bar>i\<bar>))"
proof (cases "i < 0")
  case True
  then show ?thesis by (simp add: py_str_int_def py_strip_minus_str_nat py_sign_split_def)
next
  case False
  then show ?thesis by (simp add: py_str_int_def py_strip_str_nat py_sign_split_str_nat)
qed

lemma digits_no_separators:
  assumes "list_all is_digit s"
  shows "takeWhile (\<lambda>c. c \<noteq> CHR ''e'' \<and> c \<noteq> CHR ''E'') s = s"
    and "dropWhile (\<lambda>c. c \<noteq> CHR ''e'' \<and> c \<noteq> CHR ''E'') s = []"
    and "takeWhile (\<lambda>c. c \<noteq> CHR ''.'') s = s"
    and "dropWhile (\<lambda>c. c \<noteq> CHR ''.'') s = []"
proof -
  have h: "\<forall>c\<in>set s. c \<noteq> CHR ''e'' \<and> c \<noteq> CHR ''E'' \<and> c \<noteq> CHR ''.''"
    using assms by (auto simp: list_all_iff is_digit_def)
  from h show "takeWhile (\<lambda>c. c \<noteq> CHR ''e'' \<and> c \<noteq> CHR ''E'') s = s" by simp
  from h show "dropWhile (\<lambda>c. c \<noteq> CHR ''e'' \<and> c \<noteq> CHR ''E'') s = []" by simp
  from h show "takeWhile (\<lambda>c. c \<noteq> CHR ''.'') s = s" by simp
  from h show "dropWhile (\<lambda>c. c \<noteq> CHR ''.'') s = []" by simp
qed

lemma py_num_str_nat:
  assumes "py_sign_split (py_strip s) = (sg, py_str_nat n)"
  shows "py_int_str s = Inr (sg * int n) \<and> py_float_str s = Inr (of_int sg * real n)"
proof -
  have ok: "py_digits_ok (py_str_nat n)" by (rule py_digits_ok_str_nat)
  have rd: "read_digits (py_str_nat n) = n" by (rule read_digits_str_nat)
  note sep = digits_no_separators [OF py_str_nat_digits, of n]
  have nil: "read_digits [] = 0" "py_sign_split [] = (1, [])"
    by (simp_all add: read_digits_def read_nat_def py_sign_split_def)
  have nd: "\<forall>x\<in>set (py_str_nat n). x \<noteq> CHR ''e'' \<and> x \<noteq> CHR ''E''"
    "\<forall>x\<in>set (py_str_nat n). x \<noteq> CHR ''.''"
    using py_str_nat_digits [of n] by (auto simp: list_all_iff is_digit_def)
  show ?thesis
    by (simp add: assms ok rd sep nil nd py_int_str_def py_float_str_def Let_def)
qed

subsection \<open>Properties\<close>

text \<open>Chat defaults: a request carrying only a query is served with \<open>k = 7\<close> and the
  boost \<open>KEYWORD_BOOST\<close> of \<open>chat2\<close>; a retrieval error becomes status 500, otherwise the
  reply carries the answer for the built context, the retrieved summaries and the context.\<close>

theorem chat_endpoint_defaults:
  "fst (chat_endpoint generate ctx st [''query'' \<mapsto> JStr q]) =
     (case retrieve ctx q 7 KEYWORD_BOOST of
        Inl e \<Rightarrow> HttpServerError e
      | Inr rs \<Rightarrow> HttpOk \<lparr>answer = query_llm generate st (build_context rs) q,
                         reply_chunks = rs, reply_context = build_context rs\<rparr>)"
  by (simp add: chat_endpoint_def json_get_def py_int_json_def py_float_json_def query_text_def
                KEYWORD_BOOST_def Let_def split: sum.split)

text \<open>C21. No rotation on the serving path: a chat request leaves the client state as it
  was, whatever the model replies, although for a pool of two or more keys the rotation of
  the key pool would move the cursor.\<close>

theorem chat_endpoint_never_rotates:
  assumes "client_reach keys st" "2 \<le> length keys"
  shows "snd (chat_endpoint generate ctx st data) = st \<and>
         (\<exists>st'. rotate_api_key keys st = Inr st' \<and> current_key_index st' \<noteq> current_key_index st)"
proof -
  from reach_key_inv [OF assms(1)] have i: "current_key_index st < length keys"
    by (simp add: key_inv_def)
  have "Suc (current_key_index st) mod length keys \<noteq> current_key_index st"
    using i assms(2) by (rule suc_mod_ne)
  moreover have "keys \<noteq> []" using assms(2) by auto
  ultimately show ?thesis by (simp add: snd_chat_endpoint rotate_ok)
qed

text \<open>Start-up: the server starts only when the key check passes and both the index
  file and the chunks file exist; it then serves exactly those files with the given
  embedding model, and its client state is reachable for the key pool.\<close>

theorem load_chat2_startup:
  "(load_chat2 here keys d model = Inr (ctx, st) \<longrightarrow>
      index_file d = Some (INDEX ctx) \<and> chunks_file d = Some (CHUNKS ctx) \<and>
      MODEL ctx = model \<and> client_reach keys st) \<and>
   (index_file d = None \<or> chunks_file d = None \<or> check_api_keys keys \<noteq> Inr () \<longrightarrow>
      (\<exists>e. load_chat2 here keys d model = Inl e))"
proof -
  have "load_chat2 here keys d model = Inr (ctx, st) \<Longrightarrow> client_reach keys st"
    using load_chat2_Inr by (blast intro: client_reach.init)
  moreover have "index_file d = None \<or> chunks_file d = None \<or> check_api_keys keys \<noteq> Inr () \<Longrightarrow>
                 \<exists>e. load_chat2 here keys d model = Inl e"
    by (auto simp: load_chat2_def split: sum.splits option.splits)
  ultimately show ?thesis using load_chat2_Inr by blast
qed


text \<open>C23. No matched-pair check at start-up: files from two different runs, and an
  embedding model whose dimension differs from the index, are accepted when the server
  starts; the skew only shows as a per-request error of \<open>retrieve\<close>.\<close>

theorem load_accepts_mismatched_pair:
  "\<exists>ctx st. load_chat2 ''/srv/mha_chatbot'' [''k0'', ''k1''] skew_disk (\<lambda>_. [1, 0]) = Inr (ctx, st) \<and>
     length (CHUNKS ctx) \<noteq> length (xb (INDEX ctx)) \<and>
     length (MODEL ctx ''visa fee'') \<noteq> dim (INDEX ctx) \<and>
     retrieve ctx ''visa fee'' 7 KEYWORD_BOOST = Inl (dim_mismatch 2 1)"
proof -
  have chk: "check_api_keys [''k0'', ''k1''] = Inr ()"
    by (simp add: check_api_keys_def PLACEHOLDER_KEY_def)
  have "index_file skew_disk = Some \<lparr>dim = 1, xb = [[1], [1]]\<rparr>" "chunks_file skew_disk = Some [chunk_A]"
    by (simp_all add: skew_disk_def)
  from load_chat2_ok [OF chk this] show ?thesis
    by (simp add: retrieve_def numeral_2_eq_2)
qed

text \<open>C24. Pagination: with any page size the bounds allow, the pages at offsets
  \<open>0, L, 2L, ...\<close> are all answered and concatenate back to the stored chunks in storage
  order, each holding at most \<open>L\<close> chunks.\<close>

theorem get_chunks_pagination:
  assumes "1 \<le> L" "L \<le> 500" "chunks_file d = Some cs"
  shows "\<exists>pages. map (\<lambda>i. get_chunks d (int (i * L)) (int L)) [0..<length cs div L + 1] =
                   map HttpOk pages \<and> concat pages = cs \<and> (\<forall>p\<in>set pages. length p \<le> L)"
proof -
  have "\<And>i. get_chunks d (int (i * L)) (int L) = HttpOk (take L (drop (i * L) cs))"
    using assms by (simp add: get_chunks_def MAX_LIMIT_def py_slice_def del: of_nat_mult)
  then show ?thesis
    using pages_cover [OF assms(1), of cs]
    by (intro exI [of _ "map (\<lambda>i. take L (drop (i * L) cs)) [0..<length cs div L + 1]"]) auto
qed

text \<open>Chunk listing bounds: status 422 exactly when the offset is negative or the
  limit lies outside 1..500; a successful reply never holds more than \<open>limit\<close> chunks.\<close>

theorem get_chunks_bounds:
  "(get_chunks d offset limit = HttpUnprocessable \<longleftrightarrow> offset < 0 \<or> limit < 1 \<or> 500 < limit) \<and>
   (get_chunks d offset limit = HttpOk cs \<longrightarrow> length cs \<le> nat limit \<and> limit \<le> 500)"
  by (auto simp: get_chunks_def MAX_LIMIT_def py_slice_def split: option.splits)

text \<open>Stats: the reported number of documents equals the number of distinct sources,
  which never exceeds the number of chunks and is zero exactly when the store is empty or
  missing.\<close>

theorem get_stats_bounds:
  "documents (get_stats d) = sources (get_stats d) \<and> sources (get_stats d) \<le> num_chunks (get_stats d) \<and>
   (sources (get_stats d) = 0 \<longleftrightarrow> num_chunks (get_stats d) = 0)"
proof (cases "chunks_file d")
  case None
  then show ?thesis by (simp add: get_stats_def)
next
  case (Some cs)
  have "card (set (map source cs)) \<le> length cs"
    using card_length [of "map source cs"] by simp
  with Some show ?thesis by (simp add: get_stats_def Let_def)
qed

text \<open>Request conversions: a \<open>k\<close> or \<open>keyword_boost\<close> sent as the decimal string of an
  integer is read by \<open>int()\<close> and \<open>float()\<close> as exactly that integer.\<close>

theorem py_int_float_roundtrip:
  "py_int_json (JStr (py_str_int i)) = Inr i \<and> py_float_json (JStr (py_str_int i)) = Inr (of_int i)"
proof -
  note conv = py_num_str_nat [OF py_str_int_parts [of i]]
  show ?thesis
    using conv by (cases "i < 0") (simp_all add: py_int_json_def py_float_json_def)
qed

text \<open>C22. Grounded answers: when a chat request is answered with status 200 in a reachable
  client state, the reply's chunks are what \<open>retrieve\<close> returned for the request's query, with the
  request's \<open>k\<close> and \<open>keyword_boost\<close> as \<open>int()\<close> and \<open>float()\<close> read them (7 and 0.2 when absent),
  the reply's context is exactly their attributed blocks in retrieval order, and the answer
  is the model's reply, with the key under the cursor, to the fixed prompt around that
  context and that query, or the text of the error it raised.\<close>

theorem chat_answer_grounded:
  assumes "client_reach keys st" and "fst (chat_endpoint generate ctx st data) = HttpOk reply"
  shows "\<exists>q k kb. query_text (json_get data ''query'' (JStr '''')) = Inr q \<and>
           py_int_json (json_get data ''k'' (JInt 7)) = Inr k \<and>
           py_float_json (json_get data ''keyword_boost'' (JFloat (2 / 10))) = Inr kb \<and>
           retrieve ctx q k kb = Inr (reply_chunks reply) \<and>
           reply_context reply = concat (map context_block (reply_chunks reply)) \<and>
           answer reply =
             (case generate (keys ! current_key_index st) (prompt_parts (reply_context reply) q) of
                LlmText t \<Rightarrow> py_strip t
              | LlmRaise e \<Rightarrow> LLM_ERROR_PREFIX @ e)"
proof -
  from assms(2) obtain q k kb where q: "query_text (json_get data ''query'' (JStr '''')) = Inr q"
    and pk: "py_int_json (json_get data ''k'' (JInt 7)) = Inr k"
    and pb: "py_float_json (json_get data ''keyword_boost'' (JFloat (2 / 10))) = Inr kb"
    and r: "retrieve ctx q k kb = Inr (reply_chunks reply)"
    and c: "reply_context reply = build_context (reply_chunks reply)"
    and a: "answer reply = query_llm generate st (reply_context reply) q"
    by (auto simp: chat_endpoint_def Let_def split: sum.splits)
  show ?thesis
    using q pk pb r c a build_context_blocks query_llm_reachable [OF assms(1)] by auto
qed

subsection \<open>Witnesses\<close>

lemma example_retrieve_default:
  "retrieve example_ctx ''visa fee'' 7 KEYWORD_BOOST =
   Inr [\<lparr>score = example_sem + 2 / 5, r_uid = Some 1, r_source = ''doc.pdf'', r_page = 1,
          r_text = ''Visa application fee is 500 rupees''\<rparr>,
        \<lparr>score = example_sem, r_uid = Some 2, r_source = ''doc.pdf'', r_page = 2,
          r_text = ''Passport renewal takes 30 days''\<rparr>]"
proof -
  have "filter (kept [chunk_A, chunk_B]) (index_search \<lparr>dim = 1, xb = [[1], [1]]\<rparr> (normalize_query [1]) 50) =
        [(0, example_sem), (1, example_sem)]"
    by (simp add: filter_kept_search example_ranking)
  then have "retrieve example_ctx ''visa fee'' 7 (1 / 5) =
    Inr (map summary.truncate (py_prefix (rerank
      [make_hit (word_set ''visa fee'') (1 / 5) chunk_A example_sem,
       make_hit (word_set ''visa fee'') (1 / 5) chunk_B example_sem]) 7))"
    by (simp add: retrieve_ok)
  then show ?thesis
    by (simp add: example_rerank summary.defs example_scores make_hit_fields py_prefix_def KEYWORD_BOOST_def)
qed

theorem chat_answer_grounded_witness:
  "\<exists>reply. fst (chat_endpoint quota_backend example_ctx \<lparr>current_key_index = 0, configured_key = Some ''k0''\<rparr>
                 [''query'' \<mapsto> JStr ''visa fee'']) = HttpOk reply \<and>
     answer reply = ''Error querying Gemini LLM: 429 Resource has been exhausted''"
proof -
  let ?st = "\<lparr>current_key_index = 0, configured_key = Some ''k0''\<rparr>"
  obtain reply where ok: "fst (chat_endpoint quota_backend example_ctx ?st [''query'' \<mapsto> JStr ''visa fee'']) =
      HttpOk reply"
    using chat_endpoint_defaults [of quota_backend example_ctx ?st "''visa fee''"] example_retrieve_default
    by simp
  from chat_answer_grounded [OF two_keys_reach ok] have
    "answer reply = ''Error querying Gemini LLM: 429 Resource has been exhausted''"
    by (auto simp: quota_backend_def LLM_ERROR_PREFIX_def)
  with ok show ?thesis by blast
qed

theorem chat_endpoint_never_rotates_witness:
  "snd (chat_endpoint quota_backend example_ctx \<lparr>current_key_index = 0, configured_key = Some ''k0''\<rparr> Map.empty) =
     \<lparr>current_key_index = 0, configured_key = Some ''k0''\<rparr> \<and>
   rotate_api_key [''k0'', ''k1''] \<lparr>current_key_index = 0, configured_key = Some ''k0''\<rparr> =
     Inr \<lparr>current_key_index = 1, configured_key = Some ''k1''\<rparr>"
  using chat_endpoint_never_rotates [OF two_keys_reach, of quota_backend example_ctx Map.empty]
  by (simp add: rotate_ok)

theorem load_chat2_startup_witness:
  "(\<exists>e. load_chat2 ''/srv/mha_chatbot'' [''k0'', ''k1''] empty_disk (\<lambda>_. [1]) = Inl e) \<and>
   client_reach [''k0'', ''k1''] (snd (projr (load_chat2 ''/srv/mha_chatbot'' [''k0'', ''k1''] served_disk (\<lambda>_. [1]))))"
proof -
  have chk: "check_api_keys [''k0'', ''k1''] = Inr ()"
    by (simp add: check_api_keys_def PLACEHOLDER_KEY_def)
  have files: "index_file served_disk = Some \<lparr>dim = 1, xb = [[1], [1]]\<rparr>"
    "chunks_file served_disk = Some [chunk_A, chunk_B]"
    by (simp_all add: served_disk_def)
  note ok = load_chat2_ok [OF chk files, where model = "\<lambda>_. [1]" and here = "''/srv/mha_chatbot''"]
  show ?thesis
    using load_chat2_startup [of "''/srv/mha_chatbot''" "[''k0'', ''k1'']" empty_disk "\<lambda>_. [1]"]
          load_chat2_startup [of "''/srv/mha_chatbot''" "[''k0'', ''k1'']" served_disk "\<lambda>_. [1]"] ok
    by auto
qed

theorem get_chunks_pagination_witness:
  "\<exists>pages. map (\<lambda>i. get_chunks page_disk (int (i * 2)) 2) [0..<2] = map HttpOk pages \<and>
           concat pages = page_store"
proof -
  have l: "length page_store div 2 + 1 = 2" by (simp add: page_store_def)
  have f: "chunks_file page_disk = Some page_store" by (simp add: page_disk_def)
  show ?thesis using get_chunks_pagination [of 2 page_disk page_store] f
    by (simp only: l) auto
qed

theorem get_chunks_bounds_witness:
  "get_chunks page_disk (-1) 10 = HttpUnprocessable \<and> get_chunks page_disk 0 501 = HttpUnprocessable \<and>
   get_chunks page_disk 1 1 = HttpOk [chunk_B] \<and> length [chunk_B] \<le> nat 1"
proof -
  have r: "get_chunks page_disk 1 1 = HttpOk [chunk_B]"
    by (simp add: get_chunks_def MAX_LIMIT_def page_disk_def page_store_def py_slice_def)
  show ?thesis
    using get_chunks_bounds [of page_disk "-1" 10] get_chunks_bounds [of page_disk 0 501]
          get_chunks_bounds [of page_disk 1 1 "[chunk_B]"] r
    by simp
qed

end
