(* ===== verification/Scraper.thy ===== *)
theory Scraper
  imports Prelude
begin

text \<open>
  The listing scraper \<open>src/mha_chatbot/Scrapper_mha.py\<close>. The browser is abstracted to
  the \<open>site\<close>: what loading the archive page with a given page number shows, either a
  navigation failure raised by \<open>page.goto\<close>, no table within the timeout, or the table's
  rows. A row is its list of cells; a cell is its inner text, its first link (the link's
  inner text and its \<open>href\<close> attribute, if any) and the inner text of its first
  \<open>time\<close> element. The row loop and the page loop are modelled as the code writes them;
  the page loop has no bound of its own, so it is a \<open>partial_function (option)\<close> whose
  value \<open>None\<close> means that the scraper never stops. A result \<open>Inr data\<close> is what the scraper
  writes to \<open>mha_whats_new.json\<close>; \<open>Inl e\<close> is an exception that ends it before anything is
  written.
\<close>

record td =
  td_text :: string
  td_link :: "(string \<times> string option) option"
  td_time :: "string option"

datatype page_load = GotoFailed string | NoTable | TableRows "td list list"

type_synonym site = "nat \<Rightarrow> page_load"

text \<open>One entry of the output, the dict of lines 59-64.\<close>

record scraped =
  entry_filename :: string
  entry_title :: string
  entry_date :: string
  entry_url :: string

definition TARGET_PDF_COUNT :: nat where
  "TARGET_PDF_COUNT = 648"

definition MHA_ORIGIN :: string where
  "MHA_ORIGIN = ''https://www.mha.gov.in''"

text \<open>Lines 41-42: the link text of the second cell, else its stripped text.\<close>

definition cell_title :: "td \<Rightarrow> string" where
  "cell_title cell = (case td_link cell of Some (t, _) \<Rightarrow> t | None \<Rightarrow> py_strip (td_text cell))"

text \<open>Lines 45-46: the \<open>href\<close> of the third cell's link.\<close>

definition cell_href :: "td \<Rightarrow> string option" where
  "cell_href cell = (case td_link cell of Some (_, h) \<Rightarrow> h | None \<Rightarrow> None)"

text \<open>Lines 56-57: the text of the fourth cell's \<open>time\<close> element, else its stripped text.\<close>

definition cell_date :: "td \<Rightarrow> string" where
  "cell_date cell = (case td_time cell of Some d \<Rightarrow> d | None \<Rightarrow> py_strip (td_text cell))"

text \<open>Lines 48-50: strip, then make a site-relative path absolute.\<close>

definition absolute_url :: "string \<Rightarrow> string" where
  "absolute_url pdf_url =
     (let u = py_strip pdf_url in if py_startswith u ''/'' then MHA_ORIGIN @ u else u)"

text \<open>Lines 36-64 for one row: \<open>None\<close> for a malformed row (fewer than four cells) and
  for a row whose third cell links to no \<open>.pdf\<close>.\<close>

definition parse_row :: "td list \<Rightarrow> scraped option" where
  "parse_row tds =
     (if length tds < 4 then None
      else
        (let title = cell_title (tds ! 1) in
         case cell_href (tds ! 2) of
           None \<Rightarrow> None
         | Some pdf_url \<Rightarrow>
             if py_endswith pdf_url ''.pdf'' then
               (let u = absolute_url pdf_url
                in Some \<lparr>entry_filename = last (py_split CHR ''/'' u), entry_title = title,
                         entry_date = cell_date (tds ! 3), entry_url = u\<rparr>)
             else None))"

text \<open>The row loop (lines 35-68): a malformed row is skipped by \<open>continue\<close> before the
  target check; every other row is followed by it.\<close>

fun scan_rows :: "nat \<Rightarrow> scraped list \<Rightarrow> td list list \<Rightarrow> scraped list" where
  "scan_rows target all_data [] = all_data"
| "scan_rows target all_data (tds # rows) =
     (if length tds < 4 then scan_rows target all_data rows
      else
        (let all_data' = (case parse_row tds of None \<Rightarrow> all_data | Some e \<Rightarrow> all_data @ [e])
         in if target \<le> length all_data' then all_data' else scan_rows target all_data' rows))"

text \<open>The page loop (lines 18-70).\<close>

partial_function (option) scrape_pages ::
  "site \<Rightarrow> nat \<Rightarrow> scraped list \<Rightarrow> nat \<Rightarrow> scraped list py_result option" where
  "scrape_pages site target all_data page_num =
     (if target \<le> length all_data then Some (Inr all_data)
      else
        (case site page_num of
           GotoFailed e \<Rightarrow> Some (Inl (PlaywrightError e))
         | NoTable \<Rightarrow> Some (Inr all_data)
         | TableRows rows \<Rightarrow>
             if rows = [] then Some (Inr all_data)
             else scrape_pages site target (scan_rows target all_data rows) (Suc page_num)))"

definition scrape_mha_whats_new :: "site \<Rightarrow> scraped list py_result option" where
  "scrape_mha_whats_new site = scrape_pages site TARGET_PDF_COUNT [] 0"

text \<open>The abstract listing: the entries of a page in row order, and the entries of the
  pages before the first page that ends the loop.\<close>

definition page_entries :: "site \<Rightarrow> nat \<Rightarrow> scraped list" where
  "page_entries site p =
     (case site p of TableRows rows \<Rightarrow> List.map_filter parse_row rows | _ \<Rightarrow> [])"

definition stops_at :: "site \<Rightarrow> nat \<Rightarrow> bool" where
  "stops_at site p \<longleftrightarrow> site p = NoTable \<or> site p = TableRows [] \<or> (\<exists>e. site p = GotoFailed e)"

definition entry_wf :: "scraped \<Rightarrow> bool" where
  "entry_wf e \<longleftrightarrow> py_endswith (entry_filename e) ''.pdf'' \<and> CHR ''/'' \<notin> set (entry_filename e) \<and>
     py_endswith (entry_url e) (entry_filename e)"

text \<open>The property the page loop keeps: a result \<open>Inr data\<close> reached from page \<open>p\<close> with
  the entries \<open>all_data\<close> is the first \<open>target\<close> entries of the pages from \<open>p\<close> up to the page
  where the loop ended.\<close>

definition listing_ok :: "site \<Rightarrow> nat \<Rightarrow> scraped list \<Rightarrow> nat \<Rightarrow> scraped list py_result \<Rightarrow> bool" where
  "listing_ok site target all_data p r \<longleftrightarrow> (\<forall>data. r = Inr data \<longrightarrow> length all_data \<le> target \<longrightarrow>
     (\<exists>n\<ge>p. data = take target (all_data @ concat (map (page_entries site) [p..<n])) \<and>
        (\<forall>q\<in>{p..<n}. \<not> stops_at site q) \<and>
        (site n = NoTable \<or> site n = TableRows [] \<or> length data = target)))"

text \<open>The example listing: one archive page with one row linking a PDF by a site-relative
  path, then a page without a table.\<close>

definition ex_row :: "td list" where
  "ex_row = [\<lparr>td_text = ''1'', td_link = None, td_time = None\<rparr>,
             \<lparr>td_text = '''', td_link = Some (''Advisory'', None), td_time = None\<rparr>,
             \<lparr>td_text = '''', td_link = Some (''PDF'', Some '' /sites/a.pdf''), td_time = None\<rparr>,
             \<lparr>td_text = '''', td_link = None, td_time = Some ''01-01-2025''\<rparr>]"

definition ex_site :: site where
  "ex_site p = (if p = 0 then TableRows [ex_row] else NoTable)"

definition ex_entry :: scraped where
  "ex_entry = \<lparr>entry_filename = ''a.pdf'', entry_title = ''Advisory'', entry_date = ''01-01-2025'',
               entry_url = ''https://www.mha.gov.in/sites/a.pdf''\<rparr>"

text \<open>An archive whose second page does not load.\<close>

definition goto_site :: site where
  "goto_site p = (if p = 0 then TableRows [ex_row] else GotoFailed ''Timeout 30000ms exceeded'')"

text \<open>An archive whose every page shows one row without cells.\<close>

definition endless_site :: site where
  "endless_site p = TableRows [[]]"

subsection \<open>The row loop and the page loop\<close>

lemma take_take_append: "take n (take n xs @ ys) = take n (xs @ ys)"
  by (cases "length xs \<le> n") (simp_all add: min_def)

lemma scan_rows_take:
  "length all_data < target \<Longrightarrow>
   scan_rows target all_data rows = take target (all_data @ List.map_filter parse_row rows)"
proof (induction target all_data rows rule: scan_rows.induct)
  case (1 target all_data)
  then show ?case by simp
next
  case (2 target all_data tds rows)
  show ?case
  proof (cases "length tds < 4")
    case True
    then have "parse_row tds = None" by (simp add: parse_row_def)
    with True 2 show ?thesis by (simp add: List.map_filter_simps)
  next
    case False
    show ?thesis
    proof (cases "parse_row tds")
      case None
      with False 2 show ?thesis by (simp add: List.map_filter_simps)
    next
      case (Some e)
      show ?thesis
      proof (cases "target \<le> Suc (length all_data)")
        case True
        with "2.prems" have "target = Suc (length all_data)" by simp
        with False Some show ?thesis by (simp add: List.map_filter_simps)
      next
        case le: False
        with False Some le "2.IH" show ?thesis
          by (simp add: List.map_filter_simps)
      qed
    qed
  qed
qed

lemma listing_ok_step:
  assumes IH: "\<And>site target all_data p r. f site target all_data p = Some r \<Longrightarrow> listing_ok site target all_data p r"
    and eq: "(if target \<le> length all_data then Some (Inr all_data)
      else case site p of
           GotoFailed e \<Rightarrow> Some (Inl (PlaywrightError e))
           | NoTable \<Rightarrow> Some (Inr all_data)
           | TableRows rows \<Rightarrow>
               if rows = [] then Some (Inr all_data)
               else f site target (scan_rows target all_data rows) (Suc p)) = Some r"
  shows "listing_ok site target all_data p r"
  unfolding listing_ok_def
proof (intro allI impI)
  fix data
  assume r: "r = Inr data" and len: "length all_data \<le> target"
  show "\<exists>n\<ge>p. data = take target (all_data @ concat (map (page_entries site) [p..<n])) \<and>
        (\<forall>q\<in>{p..<n}. \<not> stops_at site q) \<and>
        (site n = NoTable \<or> site n = TableRows [] \<or> length data = target)"
  proof (cases "target \<le> length all_data")
    case True
    with eq r len show ?thesis by (intro exI [of _ p]) auto
  next
    case lt: False
    show ?thesis
    proof (cases "site p")
      case (GotoFailed e)
      with lt eq r show ?thesis by simp
    next
      case NoTable
      with lt eq r show ?thesis by (intro exI [of _ p]) auto
    next
      case (TableRows rows)
      show ?thesis
      proof (cases "rows = []")
        case True
        with TableRows lt eq r show ?thesis by (intro exI [of _ p]) auto
      next
        case ne: False
        let ?acc = "scan_rows target all_data rows"
        have acc: "?acc = take target (all_data @ page_entries site p)"
          using lt TableRows by (simp add: scan_rows_take page_entries_def)
        from TableRows lt ne eq r have "f site target ?acc (Suc p) = Some (Inr data)" by simp
        from IH [OF this] acc obtain n where n: "Suc p \<le> n"
          and d: "data = take target (?acc @ concat (map (page_entries site) [Suc p..<n]))"
          and nq: "\<forall>q\<in>{Suc p..<n}. \<not> stops_at site q"
          and stop: "site n = NoTable \<or> site n = TableRows [] \<or> length data = target"
          by (auto simp: listing_ok_def)
        have "[p..<n] = p # [Suc p..<n]" using n by (simp add: upt_conv_Cons)
        then have "data = take target (all_data @ concat (map (page_entries site) [p..<n]))"
          using d acc by (simp add: take_take_append [of target "all_data @ page_entries site p", simplified])
        moreover have "\<not> stops_at site p" using TableRows ne by (simp add: stops_at_def)
        moreover have "\<forall>q\<in>{p..<n}. \<not> stops_at site q"
          using nq \<open>\<not> stops_at site p\<close> by (metis atLeastLessThan_iff le_antisym not_less_eq_eq)
        ultimately show ?thesis using n stop by (intro exI [of _ n]) auto
      qed
    qed
  qed
qed

lemma scrape_pages_listing:
  assumes "scrape_pages site target all_data p = Some (Inr data)" and "length all_data \<le> target"
  shows "\<exists>n\<ge>p. data = take target (all_data @ concat (map (page_entries site) [p..<n])) \<and>
           (\<forall>q\<in>{p..<n}. \<not> stops_at site q) \<and>
           (site n = NoTable \<or> site n = TableRows [] \<or> length data = target)"
proof -
  have "listing_ok site target all_data p (Inr data)"
    by (rule scrape_pages.raw_induct [OF listing_ok_step assms(1)])
  with assms(2) show ?thesis by (simp add: listing_ok_def)
qed


lemma strip_keeps_pdf:
  assumes "py_endswith s ''.pdf''" shows "\<exists>v. py_strip s = v @ ''.pdf''"
proof -
  from assms obtain w where w: "s = w @ ''.pdf''" by (auto simp: py_endswith_iff)
  have "\<exists>v. dropWhile is_py_space s = v @ ''.pdf''"
    by (auto simp: w dropWhile_append is_py_space_def)
  then obtain v where v: "dropWhile is_py_space s = v @ ''.pdf''" by blast
  have "py_strip s = v @ ''.pdf''"
    by (simp add: py_strip_def v is_py_space_def)
  then show ?thesis by blast
qed

lemma absolute_url_pdf:
  assumes "py_endswith pdf_url ''.pdf''" shows "\<exists>v. absolute_url pdf_url = v @ ''.pdf''"
  using strip_keeps_pdf [OF assms] by (auto simp: absolute_url_def Let_def)

lemma rev_takeWhile_rev_suffix: "\<exists>w. u = w @ rev (takeWhile P (rev u))"
proof -
  have "rev u = takeWhile P (rev u) @ dropWhile P (rev u)" by simp
  then have "u = rev (dropWhile P (rev u)) @ rev (takeWhile P (rev u))"
    by (metis rev_append rev_rev_ident)
  then show ?thesis by blast
qed

lemma parse_row_wf: "parse_row tds = Some e \<Longrightarrow> entry_wf e"
proof -
  assume p: "parse_row tds = Some e"
  then obtain pdf_url where h: "py_endswith pdf_url ''.pdf''"
    and e: "e = \<lparr>entry_filename = last (py_split CHR ''/'' (absolute_url pdf_url)),
                 entry_title = cell_title (tds ! 1), entry_date = cell_date (tds ! 3),
                 entry_url = absolute_url pdf_url\<rparr>"
    by (auto simp: parse_row_def Let_def split: if_splits option.splits)
  from absolute_url_pdf [OF h] obtain v where v: "absolute_url pdf_url = v @ ''.pdf''" by blast
  have "CHR ''/'' \<notin> set ''.pdf''" by simp
  from takeWhile_rev_suffix [OF this, of v] obtain u
    where f: "rev (takeWhile (\<lambda>x. x \<noteq> CHR ''/'') (rev (v @ ''.pdf''))) = u @ ''.pdf''" by blast
  show "entry_wf e"
    using f takeWhile_rev_no_sep [of "CHR ''/''" "v @ ''.pdf''"]
          rev_takeWhile_rev_suffix [of "v @ ''.pdf''" "\<lambda>x. x \<noteq> CHR ''/''"]
    by (auto simp: entry_wf_def e v py_split_last py_endswith_iff)
qed

lemma page_entries_wf: "list_all entry_wf (page_entries site p)"
  by (auto simp: page_entries_def list_all_iff List.map_filter_def parse_row_wf split: page_load.splits)

lemma scrape_pages_stops:
  assumes "stops_at site N"
  shows "p \<le> N \<Longrightarrow> \<exists>r. scrape_pages site target all_data p = Some r"
proof (induction "N - p" arbitrary: p all_data)
  case 0
  then have "p = N" by simp
  with assms show ?case
    by (subst scrape_pages.simps) (auto simp: stops_at_def split: page_load.splits)
next
  case (Suc k)
  then have p: "p < N" "k = N - Suc p" by simp_all
  have IH: "\<exists>r. scrape_pages site target acc (Suc p) = Some r" for acc
    using Suc.hyps(1) [OF p(2)] p(1) by simp
  show ?case
    by (subst scrape_pages.simps) (auto simp: IH split: page_load.splits)
qed

lemma scrape_pages_entries:
  assumes "\<forall>q\<ge>p. page_entries site q \<noteq> []"
  shows "\<exists>r. scrape_pages site target all_data p = Some r"
  using assms
proof (induction "target - length all_data" arbitrary: p all_data rule: less_induct)
  case less
  show ?case
  proof (cases "target \<le> length all_data")
    case True
    then show ?thesis by (subst scrape_pages.simps) simp
  next
    case False
    then have lt: "length all_data < target" by simp
    from less.prems have "page_entries site p \<noteq> []" by simp
    then obtain rows where rows: "site p = TableRows rows" "List.map_filter parse_row rows \<noteq> []"
      by (auto simp: page_entries_def split: page_load.splits)
    then have ne: "rows \<noteq> []" by (auto simp: List.map_filter_def)
    let ?acc = "scan_rows target all_data rows"
    have acc: "?acc = take target (all_data @ List.map_filter parse_row rows)"
      using lt by (rule scan_rows_take)
    with lt rows(2) have grow: "length all_data < length ?acc" "length ?acc \<le> target" by auto
    then have "target - length ?acc < target - length all_data" using lt by linarith
    moreover have "\<forall>q\<ge>Suc p. page_entries site q \<noteq> []" using less.prems by simp
    ultimately have "\<exists>r. scrape_pages site target ?acc (Suc p) = Some r" by (rule less.hyps)
    with lt rows ne show ?thesis by (subst scrape_pages.simps) simp
  qed
qed

lemma scrape_pages_goto_failed:
  assumes "p0 \<le> p" and "\<forall>q\<in>{p0..<p}. \<not> stops_at site q" and "site p = GotoFailed e"
    and "length (all_data @ concat (map (page_entries site) [p0..<p])) < target"
  shows "scrape_pages site target all_data p0 = Some (Inl (PlaywrightError e))"
  using assms
proof (induction "p - p0" arbitrary: p0 all_data)
  case 0
  then have "p0 = p" by simp
  with 0 show ?case by (subst scrape_pages.simps) simp
next
  case (Suc m)
  then have lt: "p0 < p" and ns: "\<not> stops_at site p0" by auto
  then obtain rows where rows: "site p0 = TableRows rows" "rows \<noteq> []"
    by (cases "site p0") (auto simp: stops_at_def)
  have split: "[p0..<p] = p0 # [Suc p0..<p]" using lt by (simp add: upt_conv_Cons)
  have len: "length (all_data @ page_entries site p0 @ concat (map (page_entries site) [Suc p0..<p])) < target"
    using Suc.prems(4) split by simp
  then have short: "length all_data < target" by simp
  have scan: "scan_rows target all_data rows = all_data @ page_entries site p0"
    using scan_rows_take [OF short] len rows(1) by (simp add: page_entries_def)
  have "scrape_pages site target (all_data @ page_entries site p0) (Suc p0) = Some (Inl (PlaywrightError e))"
    using Suc.hyps(1) [of "Suc p0" "all_data @ page_entries site p0"] Suc.hyps(2) Suc.prems(2,3) len lt
    by simp
  then show ?case using short rows scan by (subst scrape_pages.simps) simp
qed

lemma scrape_pages_no_pdf:
  assumes rows: "\<forall>p. \<exists>rows. site p = TableRows rows \<and> rows \<noteq> [] \<and> page_entries site p = []"
    and pos: "0 < target"
  shows "scrape_pages site target [] p = None"
proof (rule ccontr)
  assume "scrape_pages site target [] p \<noteq> None"
  then obtain r where r: "scrape_pages site target [] p = Some r" by blast
  have "site = site \<longrightarrow> target = target \<longrightarrow> [] = ([] :: scraped list) \<longrightarrow> False"
  proof (rule scrape_pages.raw_induct [where P = "\<lambda>site' target' acc p r.
      site' = site \<longrightarrow> target' = target \<longrightarrow> acc = [] \<longrightarrow> False", OF _ r])
    fix f site' target' and acc :: "scraped list" and p' r'
    assume IH: "\<And>site' target' acc p' r'. f site' target' acc p' = Some r' \<Longrightarrow>
                  site' = site \<longrightarrow> target' = target \<longrightarrow> acc = [] \<longrightarrow> False"
      and eq: "(if target' \<le> length acc then Some (Inr acc)
          else case site' p' of GotoFailed e \<Rightarrow> Some (Inl (PlaywrightError e))
               | NoTable \<Rightarrow> Some (Inr acc)
               | TableRows rows \<Rightarrow>
                   if rows = [] then Some (Inr acc)
                   else f site' target' (scan_rows target' acc rows) (Suc p')) = Some r'"
    show "site' = site \<longrightarrow> target' = target \<longrightarrow> acc = [] \<longrightarrow> False"
    proof (intro impI)
      assume s: "site' = site" and t: "target' = target" and a: "acc = []"
      from rows obtain rs where rs: "site p' = TableRows rs" "rs \<noteq> []" "page_entries site p' = []"
        by blast
      have "scan_rows target [] rs = []"
        using pos rs(1,3) by (simp add: scan_rows_take page_entries_def)
      with eq s t a pos rs have "f site target [] (Suc p') = Some r'" by simp
      then show False using IH by blast
    qed
  qed
  then show False by simp
qed

subsection \<open>Properties\<close>

text \<open>C30. Listing refinement: when the scraper finishes and writes its file, the data is
  the first \<open>TARGET_PDF_COUNT\<close> entries, in page and row order, of the archive pages before
  the page where it stopped; none of those pages stops the loop, and the loop stopped on a
  page without a table or rows, or because the target was reached.\<close>

theorem scrape_listing:
  assumes "scrape_mha_whats_new site = Some (Inr data)"
  shows "\<exists>n. data = take TARGET_PDF_COUNT (concat (map (page_entries site) [0..<n])) \<and>
           (\<forall>q<n. \<not> stops_at site q) \<and>
           (site n = NoTable \<or> site n = TableRows [] \<or> length data = TARGET_PDF_COUNT)"
  using scrape_pages_listing [OF assms [unfolded scrape_mha_whats_new_def]] by auto

text \<open>C31. Entry shape: every entry the scraper writes has a file name ending in
  \<open>.pdf\<close> with no \<open>/\<close> in it, and its URL ends with that file name.\<close>

theorem scrape_entries_wf:
  assumes "scrape_mha_whats_new site = Some (Inr data)"
  shows "list_all entry_wf data"
proof -
  from scrape_pages_listing [OF assms [unfolded scrape_mha_whats_new_def]] obtain n
    where d: "data = take TARGET_PDF_COUNT (concat (map (page_entries site) [0..<n]))" by auto
  have "list_all entry_wf (concat (map (page_entries site) [0..<n]))"
    using page_entries_wf by (auto simp: list_all_iff)
  then show ?thesis
    using set_take_subset [of TARGET_PDF_COUNT "concat (map (page_entries site) [0..<n])"]
    by (auto simp: d list_all_iff)
qed

text \<open>C32. Termination: the scraper returns (writes its file or raises) when some archive
  page has no table, no rows or fails to load, and also when every page has at least one
  PDF row.\<close>

theorem scrape_terminates:
  assumes "(\<exists>N. stops_at site N) \<or> (\<forall>q. page_entries site q \<noteq> [])"
  shows "\<exists>r. scrape_mha_whats_new site = Some r"
  using assms scrape_pages_stops [of site _ 0] scrape_pages_entries [of 0 site]
  by (auto simp: scrape_mha_whats_new_def)

text \<open>C33. No progress without PDFs: if every archive page shows rows but none links a
  PDF, the page loop never ends; the scraper neither returns nor writes its file.\<close>

theorem scrape_no_pdf_forever:
  assumes "\<forall>p. \<exists>rows. site p = TableRows rows \<and> rows \<noteq> [] \<and> page_entries site p = []"
  shows "scrape_mha_whats_new site = None"
  using scrape_pages_no_pdf [OF assms, of TARGET_PDF_COUNT 0]
  by (simp add: scrape_mha_whats_new_def TARGET_PDF_COUNT_def)

subsection \<open>Examples\<close>

text \<open>C34. A page that fails to load loses everything: when every page before page \<open>p\<close> shows
  rows and page \<open>p\<close> fails to load before the target is reached, the scraper ends with the
  browser's error and writes no file, however many entries it had collected.\<close>

theorem scrape_goto_loses_entries:
  assumes "\<forall>q<p. \<not> stops_at site q" and "site p = GotoFailed e"
    and "length (concat (map (page_entries site) [0..<p])) < TARGET_PDF_COUNT"
  shows "scrape_mha_whats_new site = Some (Inl (PlaywrightError e))"
  unfolding scrape_mha_whats_new_def
  by (rule scrape_pages_goto_failed [where p = p]) (simp_all add: assms)

lemma ex_parse_row: "parse_row ex_row = Some ex_entry"
  by (simp add: parse_row_def ex_row_def ex_entry_def cell_title_def cell_href_def cell_date_def
                absolute_url_def py_endswith_def py_startswith_def py_strip_def is_py_space_def
                MHA_ORIGIN_def py_split_def)

lemma ex_scrape: "scrape_mha_whats_new ex_site = Some (Inr [ex_entry])"
proof -
  have rows: "scan_rows 648 [] [ex_row] = [ex_entry]"
    using ex_parse_row by (simp add: ex_row_def)
  have last: "scrape_pages ex_site 648 [ex_entry] (Suc 0) = Some (Inr [ex_entry])"
    by (subst scrape_pages.simps) (simp add: ex_site_def)
  show ?thesis
    unfolding scrape_mha_whats_new_def TARGET_PDF_COUNT_def
    by (subst scrape_pages.simps) (simp add: ex_site_def rows last del: scan_rows.simps)
qed

theorem scrape_listing_witness:
  "\<exists>n. [ex_entry] = take TARGET_PDF_COUNT (concat (map (page_entries ex_site) [0..<n])) \<and>
       (\<forall>q<n. \<not> stops_at ex_site q)"
  using scrape_listing [OF ex_scrape] by blast

theorem scrape_entries_wf_witness: "entry_wf ex_entry"
  using scrape_entries_wf [OF ex_scrape] by simp

theorem scrape_terminates_witness: "\<exists>r. scrape_mha_whats_new ex_site = Some r"
proof -
  have "stops_at ex_site 1" by (simp add: stops_at_def ex_site_def)
  then show ?thesis using scrape_terminates [of ex_site] by blast
qed

theorem scrape_goto_loses_entries_witness:
  "page_entries goto_site 0 = [ex_entry] \<and>
   scrape_mha_whats_new goto_site = Some (Inl (PlaywrightError ''Timeout 30000ms exceeded''))"
proof -
  have pe: "page_entries goto_site 0 = [ex_entry]"
    using ex_parse_row by (simp add: page_entries_def goto_site_def List.map_filter_def)
  have "\<forall>q<Suc 0. \<not> stops_at goto_site q" by (simp add: stops_at_def goto_site_def ex_row_def)
  moreover have "goto_site (Suc 0) = GotoFailed ''Timeout 30000ms exceeded''" by (simp add: goto_site_def)
  moreover have "length (concat (map (page_entries goto_site) [0..<Suc 0])) < TARGET_PDF_COUNT"
    using pe by (simp add: TARGET_PDF_COUNT_def)
  ultimately show ?thesis using scrape_goto_loses_entries pe by blast
qed

theorem scrape_no_pdf_forever_witness: "scrape_mha_whats_new endless_site = None"
proof -
  have "\<forall>p. \<exists>rows. endless_site p = TableRows rows \<and> rows \<noteq> [] \<and> page_entries endless_site p = []"
    by (simp add: endless_site_def page_entries_def parse_row_def)
  then show ?thesis by (rule scrape_no_pdf_forever)
qed

end
