(* ===== verification/Downloader.thy ===== *)
theory Downloader
  imports Scraper
begin

text \<open>
  The PDF downloader \<open>src/mha_chatbot/download_pdfs.py\<close>. Its input is the scraper's list
  of entries; the data folder is a map from file names to file contents; the web server is a
  function from URLs to the outcome of \<open>session.get\<close> (a failure, or a status with the
  outcome of reading the body). \<open>download_pdf\<close> is modelled twice: as one atomic function,
  and as four steps cut at its \<open>await\<close> points, which \<open>asyncio.gather\<close> (lines 37-40)
  interleaves in any order the connector allows. A schedule is the sequence of task numbers
  in the order their steps run. The connector hands out at most \<open>CONCURRENT_DOWNLOADS\<close>
  connections (lines 10 and 37); \<open>session.get\<close> waits for one before it sends the
  request, and the task holds it until its \<open>async with\<close> block ends, so a task can send its
  request only while fewer than \<open>limit\<close> tasks hold one (\<open>limit = 0\<close>: no limit).
\<close>

datatype body_read = Body string | ReadFailed string

datatype http_get = Response nat body_read | RequestFailed string

type_synonym server = "string \<Rightarrow> http_get"

type_synonym folder = "string \<rightharpoonup> string"

subsection \<open>One download as a function\<close>

text \<open>Lines 12-31. The file is created empty by \<open>aiofiles.open\<close> before the body is read;
  when the read raises, the exception is caught and the empty file stays.\<close>

definition download_pdf :: "server \<Rightarrow> folder \<Rightarrow> scraped \<Rightarrow> folder" where
  "download_pdf server fs pdf_info =
     (let filename = entry_filename pdf_info in
      if filename \<in> dom fs then fs
      else
        (case server (entry_url pdf_info) of
           RequestFailed e \<Rightarrow> fs
         | Response status body \<Rightarrow>
             if status = 200 then
               (case body of
                  Body b \<Rightarrow> fs(filename \<mapsto> b)
                | ReadFailed e \<Rightarrow> fs(filename \<mapsto> []))
             else fs))"

text \<open>The tasks run one after another: the reference behaviour of \<open>main\<close>.\<close>

definition download_all :: "server \<Rightarrow> folder \<Rightarrow> scraped list \<Rightarrow> folder" where
  "download_all server fs pdf_list = foldl (download_pdf server) fs pdf_list"

text \<open>What one download leaves for a file that did not exist.\<close>

definition pdf_outcome :: "server \<Rightarrow> scraped \<Rightarrow> string option" where
  "pdf_outcome server pdf_info =
     (case server (entry_url pdf_info) of
        Response status (Body b) \<Rightarrow> if status = 200 then Some b else None
      | Response status (ReadFailed e) \<Rightarrow> if status = 200 then Some [] else None
      | RequestFailed e \<Rightarrow> None)"

fun first_some :: "'a option list \<Rightarrow> 'a option" where
  "first_some [] = None"
| "first_some (Some x # xs) = Some x"
| "first_some (None # xs) = first_some xs"

subsection \<open>The downloads interleaved\<close>

text \<open>The phase of a task: before its existence check, waiting in \<open>session.get\<close> for a
  connection of the connector, holding a connection with the request in flight, with the
  file opened and the body still to be read, and finished.\<close>

datatype task_phase = Pending | Awaiting | Requesting | Opened body_read | Finished

definition CONCURRENT_DOWNLOADS :: nat where
  "CONCURRENT_DOWNLOADS = 10"

record dl_state =
  folder :: folder
  phases :: "task_phase list"

definition dl_init :: "folder \<Rightarrow> scraped list \<Rightarrow> dl_state" where
  "dl_init fs pdf_list = \<lparr>folder = fs, phases = replicate (length pdf_list) Pending\<rparr>"

text \<open>The connections held: \<open>session.get\<close> takes one from the connector before it sends
  the request, and the \<open>async with\<close> block gives it back when it ends.\<close>

fun conn_weight :: "task_phase \<Rightarrow> nat" where
  "conn_weight Requesting = 1"
| "conn_weight (Opened b) = 1"
| "conn_weight _ = 0"

definition open_connections :: "dl_state \<Rightarrow> nat" where
  "open_connections st = sum_list (map conn_weight (phases st))"

text \<open>One step of task \<open>i\<close>: the existence check up to \<open>session.get\<close> (lines 17-22);
  taking a connection, which \<open>TCPConnector(limit=CONCURRENT_DOWNLOADS)\<close> (line 37) grants
  only while fewer than \<open>limit\<close> are in use, \<open>limit = 0\<close> meaning no limit as in aiohttp;
  the response up to \<open>aiofiles.open\<close>, which creates the file (23-24); reading the body
  and writing it (25-27), or the exception that ends the task (30-31). \<open>None\<close>: task \<open>i\<close>
  cannot take a step now.\<close>

definition dl_step :: "nat \<Rightarrow> server \<Rightarrow> scraped list \<Rightarrow> nat \<Rightarrow> dl_state \<Rightarrow> dl_state option" where
  "dl_step limit server pdf_list i st =
     (if length pdf_list \<le> i then None
      else
        (let pdf_info = pdf_list ! i; filename = entry_filename pdf_info;
             done = st\<lparr>phases := (phases st)[i := Finished]\<rparr>
         in case phases st ! i of
              Pending \<Rightarrow>
                if filename \<in> dom (folder st) then Some done
                else Some (st\<lparr>phases := (phases st)[i := Awaiting]\<rparr>)
            | Awaiting \<Rightarrow>
                if 0 < limit \<and> limit \<le> open_connections st then None
                else Some (st\<lparr>phases := (phases st)[i := Requesting]\<rparr>)
            | Requesting \<Rightarrow>
                (case server (entry_url pdf_info) of
                   RequestFailed e \<Rightarrow> Some done
                 | Response status body \<Rightarrow>
                     if status = 200
                     then Some \<lparr>folder = (folder st)(filename \<mapsto> []),
                                phases = (phases st)[i := Opened body]\<rparr>
                     else Some done)
            | Opened body \<Rightarrow>
                (case body of
                   Body b \<Rightarrow> Some \<lparr>folder = (folder st)(filename \<mapsto> b),
                                   phases = (phases st)[i := Finished]\<rparr>
                 | ReadFailed e \<Rightarrow> Some done)
            | Finished \<Rightarrow> None))"

fun dl_run :: "nat \<Rightarrow> server \<Rightarrow> scraped list \<Rightarrow> nat list \<Rightarrow> dl_state \<Rightarrow> dl_state option" where
  "dl_run limit server pdf_list [] st = Some st"
| "dl_run limit server pdf_list (i # sched) st =
     (case dl_step limit server pdf_list i st of
        None \<Rightarrow> None
      | Some st' \<Rightarrow> dl_run limit server pdf_list sched st')"

definition all_finished :: "dl_state \<Rightarrow> bool" where
  "all_finished st \<longleftrightarrow> list_all (\<lambda>ph. ph = Finished) (phases st)"

text \<open>The steps a task still has to take.\<close>

fun phase_weight :: "task_phase \<Rightarrow> nat" where
  "phase_weight Pending = 4"
| "phase_weight Awaiting = 3"
| "phase_weight Requesting = 2"
| "phase_weight (Opened b) = 1"
| "phase_weight Finished = 0"

definition pending_steps :: "dl_state \<Rightarrow> nat" where
  "pending_steps st = sum_list (map phase_weight (phases st))"

text \<open>The value a task's file has while the task is in a given phase, when no other task
  names the same file: the invariant of the interleaving.\<close>

definition task_view :: "server \<Rightarrow> folder \<Rightarrow> scraped \<Rightarrow> task_phase \<Rightarrow> string option" where
  "task_view server fs pdf_info ph =
     (let k = entry_filename pdf_info in
      case ph of
        Pending \<Rightarrow> fs k
      | Awaiting \<Rightarrow> fs k
      | Requesting \<Rightarrow> fs k
      | Opened b \<Rightarrow> Some []
      | Finished \<Rightarrow> if k \<in> dom fs then fs k else pdf_outcome server pdf_info)"

definition dl_inv :: "server \<Rightarrow> folder \<Rightarrow> scraped list \<Rightarrow> dl_state \<Rightarrow> bool" where
  "dl_inv server fs pdf_list st \<longleftrightarrow>
     length (phases st) = length pdf_list \<and>
     (\<forall>k. k \<notin> set (map entry_filename pdf_list) \<longrightarrow> folder st k = fs k) \<and>
     (\<forall>i < length pdf_list.
        folder st (entry_filename (pdf_list ! i)) = task_view server fs (pdf_list ! i) (phases st ! i) \<and>
        (phases st ! i \<in> {Awaiting, Requesting} \<longrightarrow> entry_filename (pdf_list ! i) \<notin> dom fs) \<and>
        (\<forall>b. phases st ! i = Opened b \<longrightarrow>
           entry_filename (pdf_list ! i) \<notin> dom fs \<and> server (entry_url (pdf_list ! i)) = Response 200 b))"

text \<open>The examples: a server with one good and one truncated body, two entries with
  different file names, and an entry that repeats the first one's file name.\<close>

definition race_server :: server where
  "race_server u = (if u = ''u1'' then Response 200 (Body ''A'') else Response 200 (ReadFailed ''reset''))"

definition pdf_a :: scraped where
  "pdf_a = \<lparr>entry_filename = ''a.pdf'', entry_title = ''T'', entry_date = ''D'', entry_url = ''u1''\<rparr>"

definition pdf_b :: scraped where
  "pdf_b = \<lparr>entry_filename = ''b.pdf'', entry_title = ''T'', entry_date = ''D'', entry_url = ''u2''\<rparr>"

definition pdf_a_again :: scraped where
  "pdf_a_again = \<lparr>entry_filename = ''a.pdf'', entry_title = ''T'', entry_date = ''D'', entry_url = ''u2''\<rparr>"

subsection \<open>Sequential downloads\<close>

lemma download_pdf_at:
  "download_pdf server fs pdf_info k =
     (if k = entry_filename pdf_info \<and> k \<notin> dom fs then pdf_outcome server pdf_info else fs k)"
  by (auto simp: download_pdf_def pdf_outcome_def Let_def
           split: http_get.splits body_read.splits)

lemma download_all_Cons:
  "download_all server fs (pdf_info # pdf_list) = download_all server (download_pdf server fs pdf_info) pdf_list"
  by (simp add: download_all_def)

lemma download_all_file:
  "download_all server fs pdf_list k =
     (if k \<in> dom fs then fs k
      else first_some (map (pdf_outcome server) (filter (\<lambda>i. entry_filename i = k) pdf_list)))"
proof (induction pdf_list arbitrary: fs)
  case Nil
  then show ?case by (auto simp: download_all_def)
next
  case (Cons pdf_info pdf_list)
  show ?case
    by (auto simp: download_all_Cons Cons.IH download_pdf_at domIff split: option.splits)
qed

lemma sum_list_map_update:
  "i < length xs \<Longrightarrow>
   sum_list (map (f :: 'a \<Rightarrow> nat) (xs[i := y])) + f (xs ! i) = sum_list (map f xs) + f y"
proof (induction xs arbitrary: i)
  case Nil
  then show ?case by simp
next
  case (Cons x xs)
  show ?case
  proof (cases i)
    case 0
    then show ?thesis by simp
  next
    case (Suc j)
    with Cons.prems Cons.IH [of j] show ?thesis by (simp add: add.assoc)
  qed
qed

lemma dl_step_cases:
  assumes "dl_step limit server pdf_list i st = Some st'" and "length (phases st) = length pdf_list"
  shows "i < length pdf_list \<and> phases st ! i \<noteq> Finished \<and>
         phases st' = (phases st)[i := phases st' ! i] \<and>
         phase_weight (phases st' ! i) < phase_weight (phases st ! i)"
  using assms
  by (auto simp: dl_step_def Let_def split: if_splits task_phase.splits http_get.splits body_read.splits)


lemma dl_step_length:
  "dl_step limit server pdf_list i st = Some st' \<Longrightarrow> length (phases st') = length (phases st)"
  by (auto simp: dl_step_def Let_def split: if_splits task_phase.splits http_get.splits body_read.splits)

lemma dl_step_decreases:
  assumes "dl_step limit server pdf_list i st = Some st'" and "length (phases st) = length pdf_list"
  shows "pending_steps st' < pending_steps st"
proof -
  from dl_step_cases [OF assms] assms(2) have i: "i < length (phases st)"
    and upd: "phases st' = (phases st)[i := phases st' ! i]"
    and w: "phase_weight (phases st' ! i) < phase_weight (phases st ! i)" by auto
  have "pending_steps st' + phase_weight (phases st ! i) = pending_steps st + phase_weight (phases st' ! i)"
    unfolding pending_steps_def by (subst upd) (rule sum_list_map_update [OF i])
  with w show ?thesis by linarith
qed

lemma dl_step_enabled:
  assumes "i < length pdf_list" and "phases st ! i \<noteq> Finished"
    and "phases st ! i = Awaiting \<Longrightarrow> 0 < limit \<Longrightarrow> open_connections st < limit"
  shows "\<exists>st'. dl_step limit server pdf_list i st = Some st'"
  using assms
  by (auto simp: dl_step_def Let_def not_le split: task_phase.splits http_get.splits body_read.splits)

subsection \<open>The connection limit\<close>

lemma sum_list_map_pos: "0 < sum_list (map (f :: 'a \<Rightarrow> nat) xs) \<Longrightarrow> \<exists>x\<in>set xs. f x \<noteq> 0"
  by (induction xs) auto

lemma conn_weight_le: "conn_weight ph \<le> 1"
  by (cases ph) simp_all

lemma open_connections_init [simp]: "open_connections (dl_init fs pdf_list) = 0"
  by (simp add: open_connections_def dl_init_def sum_list_replicate)

lemma dl_step_opens:
  assumes step: "dl_step limit server pdf_list i st = Some st'" and len: "length (phases st) = length pdf_list"
  shows "open_connections st' + conn_weight (phases st ! i) = open_connections st + conn_weight (phases st' ! i) \<and>
         (0 < limit \<and> conn_weight (phases st ! i) < conn_weight (phases st' ! i) \<longrightarrow> open_connections st < limit)"
proof -
  from dl_step_cases [OF step len] have i: "i < length (phases st)"
    and upd: "phases st' = (phases st)[i := phases st' ! i]"
    using len by auto
  have "open_connections st' + conn_weight (phases st ! i) = open_connections st + conn_weight (phases st' ! i)"
    unfolding open_connections_def by (subst upd) (rule sum_list_map_update [OF i])
  moreover have "0 < limit \<Longrightarrow> conn_weight (phases st ! i) < conn_weight (phases st' ! i) \<Longrightarrow>
                  open_connections st < limit"
    using step i
    by (auto simp: dl_step_def Let_def not_le split: if_splits task_phase.splits http_get.splits body_read.splits)
  ultimately show ?thesis by blast
qed

lemma dl_step_connections:
  assumes "dl_step limit server pdf_list i st = Some st'" and "length (phases st) = length pdf_list"
    and "open_connections st \<le> limit" and "0 < limit"
  shows "open_connections st' \<le> limit"
  using dl_step_opens [OF assms(1,2)] assms(3,4) conn_weight_le [of "phases st' ! i"]
  by (cases "conn_weight (phases st ! i) < conn_weight (phases st' ! i)") auto

lemma dl_run_connections:
  "dl_run limit server pdf_list sched st = Some st' \<Longrightarrow> length (phases st) = length pdf_list \<Longrightarrow>
   open_connections st \<le> limit \<Longrightarrow> 0 < limit \<Longrightarrow> open_connections st' \<le> limit"
proof (induction sched arbitrary: st)
  case Nil
  then show ?case by simp
next
  case (Cons i sched)
  then obtain st1 where s1: "dl_step limit server pdf_list i st = Some st1"
    and r: "dl_run limit server pdf_list sched st1 = Some st'"
    by (auto split: option.splits)
  have l1: "length (phases st1) = length pdf_list" using dl_step_length [OF s1] Cons.prems(2) by simp
  show ?case by (rule Cons.IH [OF r l1 dl_step_connections [OF s1 Cons.prems(2,3,4)] Cons.prems(4)])
qed

lemma dl_some_enabled:
  assumes len: "length (phases st) = length pdf_list" and nf: "\<not> all_finished st"
  shows "\<exists>i st'. dl_step limit server pdf_list i st = Some st'"
proof (cases "0 < limit \<and> limit \<le> open_connections st")
  case False
  from nf len obtain i where i: "i < length pdf_list" "phases st ! i \<noteq> Finished"
    by (auto simp: all_finished_def list_all_length)
  have "\<exists>st'. dl_step limit server pdf_list i st = Some st'"
    by (rule dl_step_enabled [OF i]) (use False in linarith)
  then show ?thesis by blast
next
  case True
  then have "0 < sum_list (map conn_weight (phases st))"
    unfolding open_connections_def by linarith
  then obtain ph where ph: "ph \<in> set (phases st)" "conn_weight ph \<noteq> 0"
    by (blast dest: sum_list_map_pos)
  then have "ph \<noteq> Finished" "ph \<noteq> Awaiting" by auto
  moreover from ph(1) obtain i where i: "i < length pdf_list" "phases st ! i = ph"
    using len by (metis in_set_conv_nth)
  ultimately have "\<exists>st'. dl_step limit server pdf_list i st = Some st'"
    by (intro dl_step_enabled) simp_all
  then show ?thesis by blast
qed

lemma dl_step_all_finished:
  "all_finished st \<Longrightarrow> length (phases st) = length pdf_list \<Longrightarrow> dl_step limit server pdf_list i st = None"
  by (simp add: all_finished_def list_all_length dl_step_def)

lemma dl_run_bound:
  "dl_run limit server pdf_list sched st = Some st' \<Longrightarrow> length (phases st) = length pdf_list \<Longrightarrow>
   length sched + pending_steps st' \<le> pending_steps st \<and> length (phases st') = length pdf_list"
proof (induction sched arbitrary: st)
  case Nil
  then show ?case by simp
next
  case (Cons i sched)
  then obtain st1 where s1: "dl_step limit server pdf_list i st = Some st1"
    and r: "dl_run limit server pdf_list sched st1 = Some st'"
    by (auto split: option.splits)
  have l1: "length (phases st1) = length pdf_list" using dl_step_length [OF s1] Cons.prems(2) by simp
  from Cons.IH [OF r l1] dl_step_decreases [OF s1 Cons.prems(2)] show ?case by simp
qed

lemma pending_steps_init: "pending_steps (dl_init fs pdf_list) = 4 * length pdf_list"
  by (simp add: pending_steps_def dl_init_def sum_list_replicate)

lemma read_failed_empty_file:
  assumes "server (entry_url pdf_info) = Response 200 (ReadFailed e)"
    and "entry_filename pdf_info \<notin> dom fs"
  shows "download_pdf server fs pdf_info = fs(entry_filename pdf_info \<mapsto> [])"
  using assms by (simp add: download_pdf_def)

lemma download_pdf_existing:
  "entry_filename pdf_info \<in> dom fs \<Longrightarrow> download_pdf server fs pdf_info = fs"
  by (simp add: download_pdf_def)


lemma dl_inv_init: "dl_inv server fs pdf_list (dl_init fs pdf_list)"
  by (simp add: dl_inv_def dl_init_def task_view_def)

lemma distinct_names_other:
  "distinct (map f xs) \<Longrightarrow> i < length xs \<Longrightarrow> j < length xs \<Longrightarrow> j \<noteq> i \<Longrightarrow> f (xs ! j) \<noteq> f (xs ! i)"
  by (metis distinct_conv_nth length_map nth_map)

text \<open>One step of task \<open>i\<close> changes the folder only at task \<open>i\<close>'s file and the phases only at
  position \<open>i\<close>.\<close>

lemma dl_step_local:
  assumes "dl_step limit server pdf_list i st = Some st'" and "length (phases st) = length pdf_list"
  shows "(\<forall>k. k \<noteq> entry_filename (pdf_list ! i) \<longrightarrow> folder st' k = folder st k) \<and>
         (\<forall>j. j \<noteq> i \<longrightarrow> phases st' ! j = phases st ! j)"
  using assms
  by (auto simp: dl_step_def Let_def split: if_splits task_phase.splits http_get.splits body_read.splits)

lemma dl_step_own:
  assumes step: "dl_step limit server pdf_list i st = Some st'" and inv: "dl_inv server fs pdf_list st"
  shows "folder st' (entry_filename (pdf_list ! i)) = task_view server fs (pdf_list ! i) (phases st' ! i) \<and>
         (phases st' ! i \<in> {Awaiting, Requesting} \<longrightarrow> entry_filename (pdf_list ! i) \<notin> dom fs) \<and>
         (\<forall>b. phases st' ! i = Opened b \<longrightarrow>
            entry_filename (pdf_list ! i) \<notin> dom fs \<and> server (entry_url (pdf_list ! i)) = Response 200 b)"
proof -
  from step have i: "i < length pdf_list" by (simp add: dl_step_def split: if_splits)
  with inv have len: "length (phases st) = length pdf_list"
    and own: "folder st (entry_filename (pdf_list ! i)) = task_view server fs (pdf_list ! i) (phases st ! i)"
    and aw: "phases st ! i \<in> {Awaiting, Requesting} \<longrightarrow> entry_filename (pdf_list ! i) \<notin> dom fs"
    and op: "\<forall>b. phases st ! i = Opened b \<longrightarrow>
               entry_filename (pdf_list ! i) \<notin> dom fs \<and> server (entry_url (pdf_list ! i)) = Response 200 b"
    by (auto simp: dl_inv_def)
  show ?thesis
    using step i len own aw op
    by (auto simp: dl_step_def task_view_def pdf_outcome_def Let_def domIff
             split: if_splits task_phase.splits http_get.splits body_read.splits)
qed

lemma dl_step_inv:
  assumes step: "dl_step limit server pdf_list i st = Some st'" and inv: "dl_inv server fs pdf_list st"
    and dist: "distinct (map entry_filename pdf_list)"
  shows "dl_inv server fs pdf_list st'"
proof -
  from step have i: "i < length pdf_list" by (simp add: dl_step_def split: if_splits)
  from inv have len: "length (phases st) = length pdf_list" by (simp add: dl_inv_def)
  note loc = dl_step_local [OF step len]
  note own = dl_step_own [OF step inv]
  have len': "length (phases st') = length pdf_list" using dl_step_length [OF step] len by simp
  have out: "\<forall>k. k \<notin> set (map entry_filename pdf_list) \<longrightarrow> folder st' k = fs k"
  proof (intro allI impI)
    fix k assume k: "k \<notin> set (map entry_filename pdf_list)"
    with i have "k \<noteq> entry_filename (pdf_list ! i)" by (metis length_map nth_map nth_mem)
    with loc k inv show "folder st' k = fs k" by (simp add: dl_inv_def)
  qed
  have others: "folder st' (entry_filename (pdf_list ! j)) = task_view server fs (pdf_list ! j) (phases st' ! j) \<and>
       (phases st' ! j \<in> {Awaiting, Requesting} \<longrightarrow> entry_filename (pdf_list ! j) \<notin> dom fs) \<and>
       (\<forall>b. phases st' ! j = Opened b \<longrightarrow>
          entry_filename (pdf_list ! j) \<notin> dom fs \<and> server (entry_url (pdf_list ! j)) = Response 200 b)"
    if j: "j < length pdf_list" "j \<noteq> i" for j
  proof -
    have "entry_filename (pdf_list ! j) \<noteq> entry_filename (pdf_list ! i)"
      using distinct_names_other [OF dist i j(1) j(2)] .
    with loc j inv show ?thesis by (simp add: dl_inv_def)
  qed
  show ?thesis
    unfolding dl_inv_def using len' out own others by (metis (no_types, lifting))
qed

lemma dl_run_inv:
  "dl_run limit server pdf_list sched st = Some st' \<Longrightarrow> dl_inv server fs pdf_list st \<Longrightarrow>
   distinct (map entry_filename pdf_list) \<Longrightarrow> dl_inv server fs pdf_list st'"
proof (induction sched arbitrary: st)
  case Nil
  then show ?case by simp
next
  case (Cons i sched)
  then obtain st1 where s1: "dl_step limit server pdf_list i st = Some st1"
    and r: "dl_run limit server pdf_list sched st1 = Some st'"
    by (auto split: option.splits)
  show ?case by (rule Cons.IH [OF r dl_step_inv [OF s1 Cons.prems(2,3)] Cons.prems(3)])
qed

lemma filter_distinct_name:
  assumes "distinct (map entry_filename pdf_list)" and "i < length pdf_list"
  shows "filter (\<lambda>x. entry_filename x = entry_filename (pdf_list ! i)) pdf_list = [pdf_list ! i]"
  using assms
proof (induction pdf_list arbitrary: i)
  case Nil
  then show ?case by simp
next
  case (Cons x xs)
  show ?case
  proof (cases i)
    case 0
    have "\<forall>y\<in>set xs. entry_filename y \<noteq> entry_filename x"
      using Cons.prems(1) by (auto simp: image_iff)
    with 0 show ?thesis by (simp add: filter_empty_conv)
  next
    case (Suc j)
    with Cons.prems Cons.IH [of j] show ?thesis by auto
  qed
qed

lemma first_some_single: "first_some [x] = x"
  by (cases x) simp_all

lemma dl_inv_finished:
  assumes inv: "dl_inv server fs pdf_list st" and fin: "all_finished st"
    and dist: "distinct (map entry_filename pdf_list)"
  shows "folder st = download_all server fs pdf_list"
proof
  fix k
  show "folder st k = download_all server fs pdf_list k"
  proof (cases "k \<in> set (map entry_filename pdf_list)")
    case False
    with inv have "folder st k = fs k" by (simp add: dl_inv_def)
    moreover have "filter (\<lambda>i. entry_filename i = k) pdf_list = []"
      using False by (auto simp: filter_empty_conv)
    ultimately show ?thesis by (auto simp: download_all_file domIff)
  next
    case True
    then obtain i where i: "i < length pdf_list" and k: "k = entry_filename (pdf_list ! i)"
      by (auto simp: in_set_conv_nth)
    from inv fin i have "phases st ! i = Finished"
      by (auto simp: dl_inv_def all_finished_def list_all_length)
    with inv i k have "folder st k = task_view server fs (pdf_list ! i) Finished"
      by (simp add: dl_inv_def)
    then show ?thesis
      using filter_distinct_name [OF dist i] k
      by (simp add: download_all_file task_view_def first_some_single)
  qed
qed

subsection \<open>Properties\<close>

text \<open>C35. Sequential effect: downloading the list one entry after another leaves every
  existing file as it was and gives a missing file the outcome of the first entry with
  that name that produces a file; a second run with the same server changes nothing.\<close>

theorem download_all_effect:
  "download_all server fs pdf_list k =
     (if k \<in> dom fs then fs k
      else first_some (map (pdf_outcome server) (filter (\<lambda>i. entry_filename i = k) pdf_list))) \<and>
   download_all server (download_all server fs pdf_list) pdf_list = download_all server fs pdf_list"
proof -
  let ?r = "download_all server fs pdf_list"
  have "download_all server ?r pdf_list k' = ?r k'" for k'
    by (cases "k' \<in> dom ?r")
       (auto simp: download_all_file [of server ?r] download_all_file [of server fs] domIff split: if_splits)
  then show ?thesis by (auto simp: download_all_file)
qed

text \<open>C36. Interleaving refinement: when the entries have distinct file names, every
  order in which \<open>asyncio.gather\<close> may run the download steps ends, once all tasks have
  finished, with exactly the folder of the one-after-another run.\<close>

theorem download_interleaving_refines:
  assumes "distinct (map entry_filename pdf_list)"
    and "dl_run limit server pdf_list sched (dl_init fs pdf_list) = Some st" and "all_finished st"
  shows "folder st = download_all server fs pdf_list"
  using dl_inv_finished [OF dl_run_inv [OF assms(2) dl_inv_init assms(1)] assms(3) assms(1)] .

text \<open>C37. Downloads complete: when the entries have distinct file names, every schedule
  of \<open>asyncio.gather\<close> that runs until no task can take a step has finished every task,
  within four steps per entry, and leaves the folder of the one-after-another run; the
  connector's limit never deadlocks the tasks.\<close>

theorem downloads_complete:
  assumes dist: "distinct (map entry_filename pdf_list)"
    and run: "dl_run limit server pdf_list sched (dl_init fs pdf_list) = Some st"
    and stuck: "\<forall>i. dl_step limit server pdf_list i st = None"
  shows "all_finished st \<and> folder st = download_all server fs pdf_list \<and>
         length sched \<le> 4 * length pdf_list"
proof -
  have l0: "length (phases (dl_init fs pdf_list)) = length pdf_list" by (simp add: dl_init_def)
  from dl_run_bound [OF run l0] have b: "length sched \<le> 4 * length pdf_list"
    and l: "length (phases st) = length pdf_list"
    by (simp_all add: pending_steps_init)
  have fin: "all_finished st"
  proof (rule ccontr)
    assume "\<not> all_finished st"
    then obtain i st' where "dl_step limit server pdf_list i st = Some st'"
      using dl_some_enabled [OF l] by blast
    with stuck show False by simp
  qed
  have "folder st = download_all server fs pdf_list"
    by (rule dl_inv_finished [OF dl_run_inv [OF run dl_inv_init dist] fin dist])
  with fin b show ?thesis by blast
qed

text \<open>C38. Duplicate names race: with two entries naming the same file, an interleaving
  exists in which both pass the existence check, the first download completes and the
  second one's \<open>open\<close> truncates the file before its body read fails, leaving the file
  empty, while the one-after-another run keeps the first download.\<close>

theorem download_duplicate_race:
  "\<exists>sched st. dl_run CONCURRENT_DOWNLOADS race_server [pdf_a, pdf_a_again] sched (dl_init Map.empty [pdf_a, pdf_a_again]) = Some st \<and>
     all_finished st \<and> folder st ''a.pdf'' = Some [] \<and>
     download_all race_server Map.empty [pdf_a, pdf_a_again] ''a.pdf'' = Some ''A''"
proof -
  have r: "dl_run CONCURRENT_DOWNLOADS race_server [pdf_a, pdf_a_again] [0, 1, 0, 0, 0, 1, 1, 1] (dl_init Map.empty [pdf_a, pdf_a_again]) =
        Some \<lparr>folder = Map.empty(''a.pdf'' \<mapsto> []), phases = [Finished, Finished]\<rparr>"
    by (simp add: dl_init_def dl_step_def CONCURRENT_DOWNLOADS_def open_connections_def race_server_def pdf_a_def pdf_a_again_def)
  have d: "download_all race_server Map.empty [pdf_a, pdf_a_again] ''a.pdf'' = Some ''A''"
    by (simp add: download_all_def download_pdf_def race_server_def pdf_a_def pdf_a_again_def)
  have f: "all_finished \<lparr>folder = Map.empty(''a.pdf'' \<mapsto> []), phases = [Finished, Finished]\<rparr>"
    by (simp add: all_finished_def)
  have e: "folder \<lparr>folder = Map.empty(''a.pdf'' \<mapsto> []), phases = [Finished, Finished]\<rparr> ''a.pdf'' = Some []"
    by simp
  from r f e d show ?thesis by blast
qed

text \<open>C39. A failed body read sticks: when the response is 200 but reading its body
  raises, the download leaves an empty file under the entry's name, and every later run,
  whatever the server answers then, skips that file as already downloaded.\<close>

theorem read_error_sticky:
  assumes "server (entry_url pdf_info) = Response 200 (ReadFailed e)"
    and "entry_filename pdf_info \<notin> dom fs"
  shows "download_pdf server fs pdf_info (entry_filename pdf_info) = Some [] \<and>
         download_all server' (download_pdf server fs pdf_info) pdf_list (entry_filename pdf_info) = Some []"
  using read_failed_empty_file [where server = server and pdf_info = pdf_info and fs = fs, OF assms]
  by (simp add: download_all_file)

subsection \<open>Witnesses\<close>

lemma example_run_ab:
  "dl_run CONCURRENT_DOWNLOADS race_server [pdf_a, pdf_b] [0, 1, 0, 1, 0, 1, 0, 1] (dl_init Map.empty [pdf_a, pdf_b]) =
   Some \<lparr>folder = Map.empty(''b.pdf'' \<mapsto> [], ''a.pdf'' \<mapsto> ''A''), phases = [Finished, Finished]\<rparr>"
  by (simp add: dl_init_def dl_step_def CONCURRENT_DOWNLOADS_def open_connections_def race_server_def pdf_a_def pdf_b_def)

lemma example_names_ab: "distinct (map entry_filename [pdf_a, pdf_b])"
  by (simp add: pdf_a_def pdf_b_def)

lemma example_finished_ab:
  "all_finished \<lparr>folder = Map.empty(''b.pdf'' \<mapsto> [], ''a.pdf'' \<mapsto> ''A''), phases = [Finished, Finished]\<rparr>"
  by (simp add: all_finished_def)

theorem download_interleaving_refines_witness:
  "folder \<lparr>folder = Map.empty(''b.pdf'' \<mapsto> [], ''a.pdf'' \<mapsto> ''A''), phases = [Finished, Finished]\<rparr> =
   download_all race_server Map.empty [pdf_a, pdf_b]"
  by (rule download_interleaving_refines [OF example_names_ab example_run_ab example_finished_ab])

theorem downloads_complete_witness:
  "all_finished \<lparr>folder = Map.empty(''b.pdf'' \<mapsto> [], ''a.pdf'' \<mapsto> ''A''), phases = [Finished, Finished]\<rparr> \<and>
   folder \<lparr>folder = Map.empty(''b.pdf'' \<mapsto> [], ''a.pdf'' \<mapsto> ''A''), phases = [Finished, Finished]\<rparr> =
     download_all race_server Map.empty [pdf_a, pdf_b]"
proof -
  have "\<forall>i. dl_step CONCURRENT_DOWNLOADS race_server [pdf_a, pdf_b] i
          \<lparr>folder = Map.empty(''b.pdf'' \<mapsto> [], ''a.pdf'' \<mapsto> ''A''), phases = [Finished, Finished]\<rparr> = None"
    using dl_step_all_finished [OF example_finished_ab] by simp
  from downloads_complete [OF example_names_ab example_run_ab this] show ?thesis by blast
qed

theorem read_error_sticky_witness:
  "download_all race_server (download_pdf race_server Map.empty pdf_b) [pdf_b] ''b.pdf'' = Some []"
proof -
  have s: "race_server (entry_url pdf_b) = Response 200 (ReadFailed ''reset'')"
    by (simp add: race_server_def pdf_b_def)
  have n: "entry_filename pdf_b \<notin> dom (Map.empty :: folder)" by simp
  have "entry_filename pdf_b = ''b.pdf''" by (simp add: pdf_b_def)
  with read_error_sticky [where server = race_server and pdf_info = pdf_b and fs = Map.empty
                            and server' = race_server and pdf_list = "[pdf_b]", OF s n]
  show ?thesis by simp
qed

end
