(* ===== verification/Pipeline.thy ===== *)
theory Pipeline
  imports Paths Downloader Ingestion
begin

text \<open>
  The three offline scripts run one after another: \<open>Scrapper_mha.py\<close> lists the
  documents, \<open>download_pdfs.py\<close> fetches them into the data folder (once, or again later
  against the server as it then answers), and \<open>ingest2.py\<close> builds the corpus from the
  metadata file and the data folder. Theory \<open>Paths\<close> shows that the scripts as written do
  not find each other's files unless they are run from particular directories; here the
  files are handed over as the specification's collaborator contract says (section 6): the
  metadata file holds the scraped records without their URL (\<open>entry_meta\<close>), and ingestion
  opens a PDF of the data folder by handing its bytes to pdfplumber, a parameter
  \<open>read_pdf\<close> from the bytes of a file to what the OCR worker sees (\<open>pdf_dir\<close>). Ingestion
  is the script run (\<open>run_ingest2\<close>), whose tokenizer load may fail; the pool's completion
  order is chosen by a scheduler from the number of tasks.
\<close>

definition entry_meta :: "scraped \<Rightarrow> doc_meta" where
  "entry_meta e = \<lparr>filename = entry_filename e, doc_title = entry_title e, doc_date = entry_date e\<rparr>"

definition pdf_dir :: "(string \<Rightarrow> pdf_file) \<Rightarrow> folder \<Rightarrow> data_dir" where
  "pdf_dir read_pdf fs = (\<lambda>name. map_option read_pdf (fs name))"

text \<open>The downloader run once per server in the list, each run over the whole listing.\<close>

definition download_runs :: "server list \<Rightarrow> folder \<Rightarrow> scraped list \<Rightarrow> folder" where
  "download_runs servers fs es = foldl (\<lambda>f server. download_all server f es) fs servers"

definition pipeline_env :: "ingest_env \<Rightarrow> (string \<Rightarrow> pdf_file) \<Rightarrow> scraped list \<Rightarrow> folder \<Rightarrow> ingest_env" where
  "pipeline_env env read_pdf es fs =
     env\<lparr>metadata_file := Some (map entry_meta es), data_dir := pdf_dir read_pdf fs\<rparr>"

definition ingest_downloaded ::
  "'t tokenizer option \<Rightarrow> ingest_env \<Rightarrow> (string \<Rightarrow> pdf_file) \<Rightarrow> (nat \<Rightarrow> nat list) \<Rightarrow>
   scraped list \<Rightarrow> folder \<Rightarrow> disk \<Rightarrow> nat \<times> disk" where
  "ingest_downloaded tok_load env read_pdf sched es fs d =
     (let env' = pipeline_env env read_pdf es fs
      in run_ingest2 tok_load env' (sched (length (pool_tasks env' (map entry_meta es)))) d)"

definition pipeline ::
  "site \<Rightarrow> server list \<Rightarrow> (string \<Rightarrow> pdf_file) \<Rightarrow> 't tokenizer option \<Rightarrow> ingest_env \<Rightarrow>
   (nat \<Rightarrow> nat list) \<Rightarrow> folder \<Rightarrow> disk \<Rightarrow> (folder \<times> nat \<times> disk) py_result option" where
  "pipeline site servers read_pdf tok_load env sched fs d =
     (case scrape_mha_whats_new site of
        None \<Rightarrow> None
      | Some (Inl e) \<Rightarrow> Some (Inl e)
      | Some (Inr es) \<Rightarrow>
          (let fs' = download_runs servers fs es
           in Some (Inr (fs', ingest_downloaded tok_load env read_pdf sched es fs' d))))"

text \<open>The examples: pdfplumber rejects an empty file and reads any other as one page of
  text; the server answers every request with the body \<open>ab\<close>, or fails to deliver it.\<close>

definition ex_read_pdf :: "string \<Rightarrow> pdf_file" where
  "ex_read_pdf b = (if b = [] then PdfError else PdfPages [PageText b])"

definition ex_server :: server where
  "ex_server u = Response 200 (Body ''ab'')"

definition ex_entry_b :: scraped where
  "ex_entry_b = \<lparr>entry_filename = ''b.pdf'', entry_title = ''Notice'', entry_date = ''02-01-2025'',
                 entry_url = ''https://www.mha.gov.in/sites/b.pdf''\<rparr>"

definition reset_server :: server where
  "reset_server u =
     (if u = entry_url ex_entry then Response 200 (ReadFailed ''reset'') else Response 200 (Body ''ab''))"

subsection \<open>Downloads over several runs\<close>

lemma first_some_member: "first_some xs = Some b \<Longrightarrow> Some b \<in> set xs"
  by (induction xs rule: first_some.induct) auto

lemma download_all_some:
  assumes "download_all server fs es k = Some b"
  shows "fs k = Some b \<or> (\<exists>e\<in>set es. entry_filename e = k \<and> pdf_outcome server e = Some b)"
proof (cases "k \<in> dom fs")
  case True
  then show ?thesis using assms by (simp add: download_all_file)
next
  case False
  then have "first_some (map (pdf_outcome server) (filter (\<lambda>i. entry_filename i = k) es)) = Some b"
    using assms by (simp add: download_all_file)
  then have "Some b \<in> set (map (pdf_outcome server) (filter (\<lambda>i. entry_filename i = k) es))"
    by (rule first_some_member)
  then show ?thesis by auto
qed

lemma download_runs_Cons:
  "download_runs (server # servers) fs es = download_runs servers (download_all server fs es) es"
  by (simp add: download_runs_def)

lemma download_runs_some:
  "download_runs servers fs es k = Some b \<Longrightarrow>
   fs k = Some b \<or> (\<exists>s\<in>set servers. \<exists>e\<in>set es. entry_filename e = k \<and> pdf_outcome s e = Some b)"
proof (induction servers arbitrary: fs)
  case Nil
  then show ?case by (simp add: download_runs_def)
next
  case (Cons s servers)
  then show ?case using download_all_some by (fastforce simp: download_runs_Cons)
qed

lemma download_runs_keep: "fs k = Some b \<Longrightarrow> download_runs servers fs es k = Some b"
proof (induction servers arbitrary: fs)
  case Nil
  then show ?case by (simp add: download_runs_def)
next
  case (Cons s servers)
  then show ?case by (simp add: download_runs_Cons download_all_file domI)
qed

lemma download_all_first_read_failed:
  assumes "filter (\<lambda>i. entry_filename i = entry_filename e) es = e # rest"
    and "entry_filename e \<notin> dom fs" and "server (entry_url e) = Response 200 (ReadFailed msg)"
  shows "download_all server fs es (entry_filename e) = Some []"
  using assms by (simp add: download_all_file pdf_outcome_def)

subsection \<open>Where an ingested chunk comes from\<close>

lemma worker_chunk_meta:
  assumes "c \<in> set (process_pdf_for_worker tokenizer fs (pdf_path, m))"
  shows "source c = filename m \<and> title c = doc_title m \<and> date c = doc_date m \<and>
         (\<exists>pages. fs pdf_path = Some (PdfPages pages) \<and> PageError \<notin> set pages)"
proof -
  have "process_pdf_for_worker tokenizer fs (pdf_path, m) \<noteq> []" using assms by auto
  then obtain pages where p: "fs pdf_path = Some (PdfPages pages)" "PageError \<notin> set pages"
    using worker_nonempty by blast
  then obtain x where "x \<in> set (enumerate 1 pages)" "c \<in> set (page_contribution tokenizer m x)"
    using assms by (auto simp: worker_ok)
  then obtain n t where "c \<in> set (page_chunks tokenizer m n t)"
    by (metis page_contribution_member surj_pair)
  then show ?thesis using p page_chunks_fields by blast
qed

lemma collect_chunk_meta:
  assumes "completion_order (length tasks) order"
    and "c \<in> set (collect_chunks tokenizer env tasks order)"
  shows "\<exists>(p, m)\<in>set tasks. source c = filename m \<and> title c = doc_title m \<and> date c = doc_date m \<and>
           (\<exists>pages. data_dir env p = Some (PdfPages pages) \<and> PageError \<notin> set pages)"
proof -
  have "c\<lparr>uid := None\<rparr> \<in> set (map (\<lambda>c. c\<lparr>uid := None\<rparr>) (collect_chunks tokenizer env tasks order))"
    using assms(2) by simp
  then have "c\<lparr>uid := None\<rparr> \<in>
      set (map (\<lambda>c. c\<lparr>uid := None\<rparr>) (concat (map (process_pdf_for_worker tokenizer (data_dir env)) tasks)))"
    using collect_chunks_forget [OF assms(1)] by (metis set_mset_mset)
  then obtain t c0 where t: "t \<in> set tasks" "c0 \<in> set (process_pdf_for_worker tokenizer (data_dir env) t)"
    and eq: "c\<lparr>uid := None\<rparr> = c0\<lparr>uid := None\<rparr>"
    by auto
  obtain p m where "t = (p, m)" by fastforce
  then show ?thesis using t eq worker_chunk_meta [of c0 tokenizer "data_dir env" p m]
    by (cases c, cases c0) auto
qed

lemma ingest_chunk_origin:
  assumes run: "ingest_main tokenizer env order d = (code, d')" and changed: "chunks_file d' \<noteq> chunks_file d"
    and md: "metadata_file env = Some metadata"
    and order: "completion_order (length (pool_tasks env metadata)) order"
  shows "code = 0 \<and> (\<exists>cs. chunks_file d' = Some cs \<and>
           (\<forall>c\<in>set cs. \<exists>m\<in>set metadata. source c = filename m \<and> title c = doc_title m \<and>
              date c = doc_date m \<and>
              (\<exists>pages. data_dir env (filename m) = Some (PdfPages pages) \<and> PageError \<notin> set pages)))"
proof -
  obtain index where w: "code = 0"
    "d' = d\<lparr>index_file := Some index,
            chunks_file := Some (collect_chunks tokenizer env (pool_tasks env metadata) order)\<rparr>"
    using ingest_main_written [OF run changed] md by auto
  have "\<forall>c\<in>set (collect_chunks tokenizer env (pool_tasks env metadata) order).
          \<exists>m\<in>set metadata. source c = filename m \<and> title c = doc_title m \<and> date c = doc_date m \<and>
            (\<exists>pages. data_dir env (filename m) = Some (PdfPages pages) \<and> PageError \<notin> set pages)"
  proof
    fix c assume "c \<in> set (collect_chunks tokenizer env (pool_tasks env metadata) order)"
    from collect_chunk_meta [OF order this] show "\<exists>m\<in>set metadata. source c = filename m \<and>
        title c = doc_title m \<and> date c = doc_date m \<and>
        (\<exists>pages. data_dir env (filename m) = Some (PdfPages pages) \<and> PageError \<notin> set pages)"
      by (auto simp: pool_tasks_def)
  qed
  then show ?thesis using w by simp
qed

subsection \<open>The example runs\<close>

lemma completion_order_upt: "completion_order n [0..<n]"
  by (simp add: completion_order_def)

lemma ex_page_chunks:
  "page_chunks char_tokenizer m (Suc 0) ''ab'' =
   [\<lparr>source = filename m, title = doc_title m, date = doc_date m, page = Suc 0,
     chunk_index_on_page = Suc 0, ctext = ''ab'', uid = None\<rparr>]"
  by (simp add: page_chunks_def chunk_text_def chunk_slices.simps py_slice_def char_tokenizer_def
                CHUNK_SIZE_def CHUNK_OVERLAP_def chunk_stride_def)

lemma ex_worker_ab:
  "fs p = Some ''ab'' \<Longrightarrow>
   process_pdf_for_worker char_tokenizer (pdf_dir ex_read_pdf fs) (p, m) =
   [\<lparr>source = filename m, title = doc_title m, date = doc_date m,
     page = 1, chunk_index_on_page = 1, ctext = ''ab'', uid = None\<rparr>]"
  by (simp add: process_pdf_for_worker_def pdf_dir_def ex_read_pdf_def py_string_eval ex_page_chunks)

lemma ex_worker_empty:
  "fs p = Some [] \<Longrightarrow> process_pdf_for_worker char_tokenizer (pdf_dir ex_read_pdf fs) (p, m) = []"
  by (simp add: process_pdf_for_worker_def pdf_dir_def ex_read_pdf_def)

lemma ex_pipeline_run:
  "pipeline ex_site [ex_server] ex_read_pdf (Some char_tokenizer) example_env (\<lambda>n. [0..<n]) Map.empty empty_disk =
   Some (Inr (Map.empty(''a.pdf'' \<mapsto> ''ab''), 0,
     \<lparr>index_file = Some \<lparr>dim = 1, xb = [[1]]\<rparr>,
      chunks_file = Some [\<lparr>source = ''a.pdf'', title = ''Advisory'', date = ''01-01-2025'', page = 1,
                           chunk_index_on_page = 1, ctext = ''ab'', uid = Some 1\<rparr>]\<rparr>))"
proof -
  have fs: "download_all ex_server Map.empty [ex_entry] = Map.empty(''a.pdf'' \<mapsto> ''ab'')"
    by (simp add: download_all_def download_pdf_def ex_server_def ex_entry_def)
  let ?env = "pipeline_env example_env ex_read_pdf [ex_entry] (Map.empty(''a.pdf'' \<mapsto> ''ab''))"
  have tasks: "pool_tasks ?env (map entry_meta [ex_entry]) = [(''a.pdf'', entry_meta ex_entry)]"
    by (simp add: pool_tasks_def pipeline_env_def pdf_dir_def entry_meta_def ex_entry_def)
  have cs: "collect_chunks char_tokenizer ?env [(''a.pdf'', entry_meta ex_entry)] [0] =
    [\<lparr>source = ''a.pdf'', title = ''Advisory'', date = ''01-01-2025'', page = 1,
      chunk_index_on_page = 1, ctext = ''ab'', uid = Some 1\<rparr>]"
    by (simp add: collect_chunks_def imap_unordered_def pipeline_env_def ex_worker_ab assign_uids_def
        entry_meta_def ex_entry_def)
  have run: "ingest_main char_tokenizer ?env [0] empty_disk =
     (0, \<lparr>index_file = Some \<lparr>dim = 1, xb = [[1]]\<rparr>,
      chunks_file = Some [\<lparr>source = ''a.pdf'', title = ''Advisory'', date = ''01-01-2025'', page = 1,
                           chunk_index_on_page = 1, ctext = ''ab'', uid = Some 1\<rparr>]\<rparr>)"
    by (subst ingest_main_path [where metadata = "map entry_meta [ex_entry]", OF _ _ tasks _ _ cs])
       (simp_all add: pipeline_env_def example_env_def empty_disk_def build_index_def
         index_add_def IndexFlatIP_def normalize_embeddings_def normalize_row_def l2_norm_def EPS_def)
  show ?thesis
    using run tasks by (simp add: pipeline_def ex_scrape fs ingest_downloaded_def Let_def download_runs_def
      run_ingest2_def)
qed

lemma ex_reset_run:
  "ingest_downloaded (Some char_tokenizer) example_env ex_read_pdf (\<lambda>n. [0..<n]) [ex_entry, ex_entry_b]
     (download_runs [reset_server, ex_server] Map.empty [ex_entry, ex_entry_b]) empty_disk =
   (0, \<lparr>index_file = Some \<lparr>dim = 1, xb = [[1]]\<rparr>,
        chunks_file = Some [\<lparr>source = ''b.pdf'', title = ''Notice'', date = ''02-01-2025'', page = 1,
                             chunk_index_on_page = 1, ctext = ''ab'', uid = Some 1\<rparr>]\<rparr>)"
proof -
  let ?fs = "Map.empty(''a.pdf'' \<mapsto> [], ''b.pdf'' \<mapsto> ''ab'')"
  have fs: "download_runs [reset_server, ex_server] Map.empty [ex_entry, ex_entry_b] = ?fs"
    by (simp add: download_runs_def download_all_def download_pdf_def reset_server_def ex_entry_def
        ex_entry_b_def)
  let ?env = "pipeline_env example_env ex_read_pdf [ex_entry, ex_entry_b] ?fs"
  have tasks: "pool_tasks ?env (map entry_meta [ex_entry, ex_entry_b]) =
      [(''a.pdf'', entry_meta ex_entry), (''b.pdf'', entry_meta ex_entry_b)]"
    by (simp add: pool_tasks_def pipeline_env_def pdf_dir_def entry_meta_def ex_entry_def ex_entry_b_def)
  have cs: "collect_chunks char_tokenizer ?env
      [(''a.pdf'', entry_meta ex_entry), (''b.pdf'', entry_meta ex_entry_b)] [0, 1] =
    [\<lparr>source = ''b.pdf'', title = ''Notice'', date = ''02-01-2025'', page = 1,
      chunk_index_on_page = 1, ctext = ''ab'', uid = Some 1\<rparr>]"
    by (simp add: collect_chunks_def imap_unordered_def pipeline_env_def ex_worker_ab ex_worker_empty
        assign_uids_def entry_meta_def ex_entry_b_def)
  have run: "ingest_main char_tokenizer ?env [0, 1] empty_disk =
     (0, \<lparr>index_file = Some \<lparr>dim = 1, xb = [[1]]\<rparr>,
        chunks_file = Some [\<lparr>source = ''b.pdf'', title = ''Notice'', date = ''02-01-2025'', page = 1,
                             chunk_index_on_page = 1, ctext = ''ab'', uid = Some 1\<rparr>]\<rparr>)"
    by (subst ingest_main_path [where metadata = "map entry_meta [ex_entry, ex_entry_b]", OF _ _ tasks _ _ cs])
       (simp_all add: pipeline_env_def example_env_def empty_disk_def build_index_def
         index_add_def IndexFlatIP_def normalize_embeddings_def normalize_row_def l2_norm_def EPS_def)
  show ?thesis
    unfolding fs using run tasks by (simp add: ingest_downloaded_def Let_def upt_conv_Cons run_ingest2_def)
qed

subsection \<open>Properties\<close>

text \<open>C26. End to end: when the scraper, the downloader runs and ingestion complete and ingestion
  writes a new chunk list, every chunk in it carries the file name, title and date of a
  scraped entry, and it was read from that entry's file, whose bytes pdfplumber reads without
  a failing page and which was either already in the data folder or is the body one of the
  downloader runs fetched for an entry of that name with status 200.\<close>

theorem pipeline_chunk_origin:
  assumes sched: "\<forall>n. completion_order n (sched n)"
    and scrape: "scrape_mha_whats_new site = Some (Inr es)"
    and run: "pipeline site servers read_pdf tok_load env sched fs d = Some (Inr (fs', code, d'))"
    and changed: "chunks_file d' \<noteq> chunks_file d"
  shows "fs' = download_runs servers fs es \<and> code = 0 \<and>
         (\<exists>cs. chunks_file d' = Some cs \<and>
           (\<forall>c\<in>set cs. \<exists>e\<in>set es. source c = entry_filename e \<and> title c = entry_title e \<and>
              date c = entry_date e \<and>
              (\<exists>b pages. fs' (entry_filename e) = Some b \<and> read_pdf b = PdfPages pages \<and>
                 PageError \<notin> set pages \<and>
                 (fs (entry_filename e) = Some b \<or>
                  (\<exists>s\<in>set servers. \<exists>e'\<in>set es. entry_filename e' = entry_filename e \<and>
                     pdf_outcome s e' = Some b)))))"
proof -
  let ?env = "pipeline_env env read_pdf es fs'"
  have fs': "fs' = download_runs servers fs es"
    and r2: "run_ingest2 tok_load ?env (sched (length (pool_tasks ?env (map entry_meta es)))) d = (code, d')"
    using run scrape by (auto simp: pipeline_def ingest_downloaded_def Let_def)
  from run_ingest2_changed [OF r2 changed] obtain tokenizer
    where "tok_load = Some tokenizer" and ing: "ingest_main tokenizer ?env (sched (length (pool_tasks ?env (map entry_meta es)))) d = (code, d')"
    by blast
  have md: "metadata_file ?env = Some (map entry_meta es)" by (simp add: pipeline_env_def)
  obtain cs where c0: "code = 0" and cs: "chunks_file d' = Some cs"
    and each: "\<forall>c\<in>set cs. \<exists>m\<in>set (map entry_meta es). source c = filename m \<and> title c = doc_title m \<and>
        date c = doc_date m \<and>
        (\<exists>pages. data_dir ?env (filename m) = Some (PdfPages pages) \<and> PageError \<notin> set pages)"
    using ingest_chunk_origin [OF ing changed md] sched by blast
  have "\<forall>c\<in>set cs. \<exists>e\<in>set es. source c = entry_filename e \<and> title c = entry_title e \<and>
      date c = entry_date e \<and>
      (\<exists>b pages. fs' (entry_filename e) = Some b \<and> read_pdf b = PdfPages pages \<and> PageError \<notin> set pages \<and>
         (fs (entry_filename e) = Some b \<or>
          (\<exists>s\<in>set servers. \<exists>e'\<in>set es. entry_filename e' = entry_filename e \<and> pdf_outcome s e' = Some b)))"
  proof
    fix c assume "c \<in> set cs"
    then obtain e pages where e: "e \<in> set es" "source c = entry_filename e" "title c = entry_title e"
      "date c = entry_date e" "pdf_dir read_pdf fs' (entry_filename e) = Some (PdfPages pages)"
      "PageError \<notin> set pages"
      using each by (auto simp: entry_meta_def pipeline_env_def)
    then obtain b where b: "fs' (entry_filename e) = Some b" "read_pdf b = PdfPages pages"
      by (auto simp: pdf_dir_def)
    then have "fs (entry_filename e) = Some b \<or>
        (\<exists>s\<in>set servers. \<exists>e'\<in>set es. entry_filename e' = entry_filename e \<and> pdf_outcome s e' = Some b)"
      using download_runs_some fs' by simp
    then show "\<exists>e\<in>set es. source c = entry_filename e \<and> title c = entry_title e \<and>
      date c = entry_date e \<and>
      (\<exists>b pages. fs' (entry_filename e) = Some b \<and> read_pdf b = PdfPages pages \<and> PageError \<notin> set pages \<and>
         (fs (entry_filename e) = Some b \<or>
          (\<exists>s\<in>set servers. \<exists>e'\<in>set es. entry_filename e' = entry_filename e \<and> pdf_outcome s e' = Some b)))"
      using e b by blast
  qed
  then show ?thesis using fs' c0 cs by blast
qed

text \<open>C27. Silent loss of a document: if the first download of a new file gets status 200 but its
  body cannot be read, and pdfplumber rejects an empty file, then however often the
  downloader runs again and whatever the server answers then, the file stays empty, and an
  ingestion run that writes a chunk list exits with status 0 and has no chunk of that
  document.\<close>

theorem read_failure_never_ingested:
  assumes pdfplumber: "read_pdf [] = PdfError"
    and first: "filter (\<lambda>i. entry_filename i = entry_filename e) es = e # rest"
    and fresh: "entry_filename e \<notin> dom fs"
    and reset: "server (entry_url e) = Response 200 (ReadFailed msg)"
    and sched: "\<forall>n. completion_order n (sched n)"
    and run: "ingest_downloaded tok_load env read_pdf sched es (download_runs (server # servers) fs es) d =
              (code, d')"
    and changed: "chunks_file d' \<noteq> chunks_file d"
  shows "download_runs (server # servers) fs es (entry_filename e) = Some [] \<and> code = 0 \<and>
         (\<exists>cs. chunks_file d' = Some cs \<and> (\<forall>c\<in>set cs. source c \<noteq> entry_filename e))"
proof -
  let ?fs = "download_runs (server # servers) fs es"
  let ?env = "pipeline_env env read_pdf es ?fs"
  have empty: "?fs (entry_filename e) = Some []"
    using download_all_first_read_failed [where server = server, OF first fresh reset] download_runs_keep
    by (simp add: download_runs_Cons)
  have r2: "run_ingest2 tok_load ?env (sched (length (pool_tasks ?env (map entry_meta es)))) d = (code, d')"
    using run by (simp add: ingest_downloaded_def Let_def)
  from run_ingest2_changed [OF r2 changed] obtain tokenizer
    where "tok_load = Some tokenizer" and ing: "ingest_main tokenizer ?env (sched (length (pool_tasks ?env (map entry_meta es)))) d = (code, d')"
    by blast
  have md: "metadata_file ?env = Some (map entry_meta es)" by (simp add: pipeline_env_def)
  obtain cs where c0: "code = 0" and cs: "chunks_file d' = Some cs"
    and each: "\<forall>c\<in>set cs. \<exists>m\<in>set (map entry_meta es). source c = filename m \<and>
        (\<exists>pages. data_dir ?env (filename m) = Some (PdfPages pages))"
    using ingest_chunk_origin [OF ing changed md] sched by blast
  have "data_dir ?env (entry_filename e) = Some PdfError"
    using empty pdfplumber by (simp add: pipeline_env_def pdf_dir_def)
  then have "\<forall>c\<in>set cs. source c \<noteq> entry_filename e"
    using each by fastforce
  then show ?thesis using empty c0 cs by blast
qed

subsection \<open>Witnesses\<close>

theorem pipeline_chunk_origin_witness:
  "fst (snd (projr (the (pipeline ex_site [ex_server] ex_read_pdf (Some char_tokenizer) example_env
     (\<lambda>n. [0..<n]) Map.empty empty_disk)))) = 0"
proof -
  have "\<forall>n. completion_order n [0..<n]" by (simp add: completion_order_upt)
  moreover have "chunks_file \<lparr>index_file = Some \<lparr>dim = 1, xb = [[1]]\<rparr>,
      chunks_file = Some [\<lparr>source = ''a.pdf'', title = ''Advisory'', date = ''01-01-2025'', page = 1,
                           chunk_index_on_page = 1, ctext = ''ab'', uid = Some 1\<rparr>]\<rparr> \<noteq>
      chunks_file empty_disk"
    by simp
  ultimately show ?thesis
    using pipeline_chunk_origin [OF _ ex_scrape ex_pipeline_run] ex_pipeline_run by simp
qed

theorem read_failure_never_ingested_witness:
  "download_runs [reset_server, ex_server] Map.empty [ex_entry, ex_entry_b] ''a.pdf'' = Some [] \<and>
   fst (ingest_downloaded (Some char_tokenizer) example_env ex_read_pdf (\<lambda>n. [0..<n]) [ex_entry, ex_entry_b]
     (download_runs [reset_server, ex_server] Map.empty [ex_entry, ex_entry_b]) empty_disk) = 0"
proof -
  have first: "filter (\<lambda>i. entry_filename i = entry_filename ex_entry) [ex_entry, ex_entry_b] = ex_entry # []"
    by (simp add: ex_entry_def ex_entry_b_def)
  have reset: "reset_server (entry_url ex_entry) = Response 200 (ReadFailed ''reset'')"
    by (simp add: reset_server_def)
  have sched: "\<forall>n. completion_order n [0..<n]" by (simp add: completion_order_upt)
  have rp: "ex_read_pdf [] = PdfError" by (simp add: ex_read_pdf_def)
  have fresh: "entry_filename ex_entry \<notin> dom Map.empty" by simp
  have changed: "chunks_file \<lparr>index_file = Some \<lparr>dim = 1, xb = [[1]]\<rparr>,
        chunks_file = Some [\<lparr>source = ''b.pdf'', title = ''Notice'', date = ''02-01-2025'', page = 1,
                             chunk_index_on_page = 1, ctext = ''ab'', uid = Some 1\<rparr>]\<rparr> \<noteq>
      chunks_file empty_disk"
    by simp
  show ?thesis
    using read_failure_never_ingested [where read_pdf = ex_read_pdf and server = reset_server
        and servers = "[ex_server]" and sched = "\<lambda>n. [0..<n]", OF rp first fresh reset sched
        ex_reset_run changed] ex_reset_run
    by (simp add: ex_entry_def)
qed

end
