(* ===== verification/Spec2Isabelle.thy ===== *)
theory Spec2Isabelle
  imports Retriever Ingestion Answer Api Pipeline
begin

text \<open>
  \<^bold>\<open>A verification model of the MHA helpdesk chatbot\<close> (\<open>src/mha_chatbot\<close>).

  \<^bold>\<open>The program.\<close> First, \<open>Scrapper_mha.py\<close> pages through the ministry's
  "what's new" archive and writes the list of PDF entries, and \<open>download_pdfs.py\<close>
  downloads those PDFs concurrently into the data folder. Offline, \<open>ingest2.py\<close> reads
  document metadata, OCRs every page of every PDF (\<open>process_pdf_for_worker\<close>, run in a process pool), splits each
  page's token stream into overlapping windows (\<open>chunk_text\<close>), numbers the chunks,
  embeds and L2-normalises them (\<open>normalize_embeddings\<close>) and writes a flat
  inner-product FAISS index and the chunk list \<open>chunks.json\<close>. Online, \<open>api.py\<close>
  imports \<open>chat2.py\<close>, which checks the API-key pool, loads both files once and configures
  the language-model client. \<open>retrieve\<close> embeds a query, searches the index for
  \<open>max(50, k)\<close> candidates, adds a keyword boost, reranks with a stable descending
  sort and keeps \<open>k\<close>; \<open>build_context\<close> formats the hits and \<open>query_llm\<close> asks
  the language model with the configured key. \<open>api.py\<close> serves statistics, a paginated
  chunk listing and this chat pipeline over HTTP.

  \<^bold>\<open>Library layout\<close> (each theory imports the ones it calls).
  \<^item> \<open>Prelude\<close>: Python exceptions as a datatype (\<open>SystemExit\<close> included, with the exit
    status of an ended process) and results as \<open>py_exc + 'a\<close>; the
    built-ins the code calls (slicing, negative indexing, \<open>str.lower\<close>, \<open>str.strip\<close>,
    \<open>re.findall(r'\w+')\<close> on ASCII, \<open>str(int)\<close>, stable \<open>sort(reverse=True)\<close>,
    proved equal to the library's \<open>sort_key\<close> on negated keys).
  \<^item> \<open>Chunker\<close>: \<open>chunk_text\<close> (ingest2.py 38-48), its index loop as a \<open>function\<close>
    terminating on \<open>len - start\<close>; the tokenizer is a record of encode and decode.
    Lemmas: window sizes, exact overlap, reassembly of the token stream, where the early
    \<open>break\<close> stops (window \<open>j\<close> starts at \<open>j * stride\<close> and only the last reaches the end),
    empty input.
  \<^item> \<open>Extractor\<close>: \<open>process_pdf_for_worker\<close> (58-82). PDF files are a map from paths to
    lists of page scans, each the OCR text or a failure; the page loop is \<open>scan_pages\<close>.
    Lemmas: a failing file or page gives no chunk, per-page output, numbering, provenance.
  \<^item> \<open>Embedding\<close>: \<open>normalize_embeddings\<close> (84-87), the query normalisation of
    \<open>retrieve\<close> (chat2.py 101) over reals, and FAISS \<open>IndexFlatIP\<close> modelled from its
    contract (exact inner-product ranking, ties in row order, \<open>-1\<close> padding), since FAISS is
    not part of the repository. Lemmas: unit norm above the floor, rows below the floor
    divided by \<open>1e-12\<close> (the floor is pinned by rows of small non-zero norm, since HOL's
    \<open>x / 0 = 0\<close> hides a division by zero), scores in \<open>[-1, 1]\<close>. The two normalisation
    formulas of ingestion and retrieval agree in float32 for all but near-zero norms, so no
    property rests on their difference over reals.
  \<^item> \<open>Retriever\<close>: \<open>retrieve\<close> (chat2.py 86-141) over a context record for the module
    state \<open>INDEX\<close>, \<open>CHUNKS\<close>, \<open>MODEL\<close>. Lemmas: results sorted, refinement of the top-k
    contract \<open>top_k\<close> (the results are the best \<open>k\<close> hits of the pool), dimension error, length
    \<open>min(k, n)\<close>, negative \<open>k\<close>, keyword monotonicity, provenance (each result is chunk
    \<open>i\<close> of the store scored with index row \<open>i\<close>); the
    two-chunk example of the specification evaluated by \<open>simp\<close>.
  \<^item> \<open>Ingestion\<close>: the tokenizer load at import (29-36, \<open>run_ingest2\<close>), \<open>load_metadata\<close>
    (50-56) and \<open>main\<close> (90-183) as a function of an environment record (the outcome of
    each external call) and the pool's completion order, a permutation; its result is the
    exit status and the \<open>disk\<close> record of the two files. Each write is all-or-nothing
    (a failed write keeps the previous file); the source's \<open>open(..., 'w')\<close> truncates
    \<open>chunks.json\<close> before \<open>json.dump\<close>, so the claims that read "the chunk list
    changed" as "the run succeeded" hold up to that. Lemmas: a matched pair is written,
    effects of failed runs, non-atomic writes, exit 0 with nothing written, order
    independence of the chunk multiset.
  \<^item> \<open>Credentials\<close>: the key check (chat2.py 33-34), \<open>_configure_gemini_client\<close> (42-51),
    \<open>_rotate_api_key\<close> (53-58) over a state record of the two globals; the reachable
    states are the inductive \<open>client_reach\<close>. Lemmas: invariant by rule induction, \<open>n\<close>
    rotations move the cursor to \<open>(i + n) mod N\<close> and a full cycle is the identity,
    empty-pool errors.
  \<^item> \<open>Answer\<close>: \<open>build_context\<close> (146-151), the prompt and \<open>query_llm\<close> (156-180) with the
    language model as a function of key and prompt to a reply or a raised message, and
    the debug helper \<open>debug_retrieval\<close> (185-194): the same retrieval and one newline-free
    preview per result.
  \<^item> \<open>Paths\<close>: the path constants of all five scripts and the files \<open>main\<close> writes, with
    \<open>os.path.join\<close> as \<open>posixpath.join\<close> and a Windows reading that takes a backslash as a
    separator; the module and working directories are parameters. Lemmas: ingestion and
    serving agree on their files, which are distinct; the downloader opens another file
    than the scraper writes. The downloader's absolute folder \<open>DATA_FOLDER\<close> is defined but
    compared with nothing: whether it is ingestion's folder depends on the checkout and on
    Windows path identity, which is not modelled.
  \<^item> \<open>Api\<close>: the start-up of \<open>chat2\<close> (65-81), given the module directory, and the
    handlers \<open>get_stats\<close>, \<open>chat_endpoint\<close>, \<open>get_chunks\<close> of \<open>api.py\<close>, with Python's \<open>int()\<close> and \<open>float()\<close> of
    JSON values and HTTP statuses 200/422/500 as a datatype. Lemmas: start-up, no rotation
    on the serving path, answers grounded on exactly the chunks retrieved with the request's
    \<open>k\<close> and boost, pagination. Python's \<open>float()\<close> also accepts \<open>'nan'\<close> and \<open>'inf'\<close>;
    these are not reals, and the model answers them with status 500.
  \<^item> \<open>Scraper\<close>: \<open>Scrapper_mha.py\<close>. The browser is the \<open>site\<close>, a function from page
    numbers to what the archive page shows; the row parsing and the row loop are functions,
    the page loop a \<open>partial_function (option)\<close>. Lemmas: the output is the first 648
    entries of the listing in order (refinement), every entry's file name ends in \<open>.pdf\<close>
    without \<open>/\<close>, the loop returns when the listing ends, it never returns when every
    page has rows but no PDF link, and a page that fails to load loses every entry
    collected before it.
  \<^item> \<open>Downloader\<close>: \<open>download_pdfs.py\<close>. \<open>download_pdf\<close> as one function over the folder
    (a map from names to contents) and as four steps cut at its \<open>await\<close>s (existence check,
    taking a connector connection in \<open>session.get\<close>, the response and \<open>open\<close>, the body read
    and write); \<open>asyncio.gather\<close> is every schedule of those steps that the connector's limit
    of \<open>CONCURRENT_DOWNLOADS\<close> connections allows (\<open>dl_run\<close>), a connection being held from
    the request to the end of its \<open>async with\<close> block and \<open>limit = 0\<close> meaning no limit, as
    in aiohttp. Lemmas: effect and idempotence of the in-order run; with distinct names
    every finished schedule gives the in-order folder (refinement, by an invariant over the
    steps), and every schedule run until no task can step has finished within four steps
    per entry with that folder (no deadlock under the limit); a positive limit is never
    exceeded; the truncation race of duplicate names; a failed body read leaves an empty
    file for good.
  \<^item> \<open>Pipeline\<close>: the scraper, any number of downloader runs and ingestion in sequence.
    The files between them are handed over as the specification's collaborator contract
    says (section 6), since \<open>Paths\<close> shows the scripts do not find each other's files as
    written: the metadata file holds the scraped records without URL, and pdfplumber's
    reading of a saved file is a parameter; ingestion is the script run, tokenizer load
    included (\<open>run_ingest2\<close>). Lemmas: every ingested chunk comes from a
    scraped entry whose file was present or fetched with status 200; a failed body read
    loses the document for good while ingestion still exits 0.
  \<^item> This theory: ingestion output served by retrieval (end to end) and the examples of
    the specification.

  \<^bold>\<open>Bounds and fuel.\<close> Every loop of the code runs over a finite list or is the chunking
  index loop, whose termination is proved by a measure, except the scraper's page loop,
  which depends on the web site: it is a \<open>partial_function (option)\<close>, with a theorem for
  when it returns and one for when it does not. The interleaved downloads are bounded by
  four steps per entry, proved by a decreasing measure; no fuel is needed. The constants are
  the source's: \<open>CHUNK_SIZE = 512\<close>, \<open>CHUNK_OVERLAP = 75\<close>, \<open>EPS = 1e-12\<close>,
  \<open>KEYWORD_BOOST = 0.2\<close>, candidate pool \<open>max(50, k)\<close>, page size at most 500.

  \<^bold>\<open>Not modelled.\<close> FAISS itself, a library outside the repository: the index is its
  contract (spec section 4.4), and its binary file format is taken as identity, so the
  component stays partly modelled. Floating-point rounding (all arithmetic is on reals, so
  \<open>norm + 1e-12\<close> is never absorbed as it is in float32); Unicode beyond
  ASCII in \<open>\w\<close>, \<open>lower()\<close> and \<open>strip()\<close>; the internals of the tokenizer, the
  sentence-embedding model, Tesseract, pdfplumber and the language model, which are
  parameters; JSON (de)serialisation of the files, taken as identity, and a metadata file that
  does not parse; concurrent requests (the handlers are modelled one at a time); the score
  line printed by \<open>debug_retrieval\<close> (its previews are modelled); the browser and HTTP
  client themselves (the site and the server are parameters); Windows drive letters, case
  folding and the other details of \<open>ntpath\<close> beyond the backslash; partial files left by a
  failed write (writes are all-or-nothing); reading a response body and writing it as two
  steps (one step of the task, which holds its connection throughout); metadata entries
  without a \<open>title\<close> or \<open>date\<close> key, whose \<open>KeyError\<close> the worker catches (the
  metadata record has both fields); the CORS middleware and the
  \<open>uvicorn\<close> start-up of \<open>api.py\<close> and the Tesseract configuration (library
  configuration); the literal API keys of \<open>chat2.py\<close> (lines 27-31), which are not copied
  into the model: the key pool is a parameter.
\<close>


text \<open>The store of the statistics example of the specification: ten chunks over three
  documents.\<close>

definition stats_chunk :: "string \<Rightarrow> nat \<Rightarrow> chunk" where
  "stats_chunk src p = \<lparr>source = src, title = ''T'', date = ''D'', page = p,
     chunk_index_on_page = 1, ctext = '''', uid = None\<rparr>"

definition stats_disk :: disk where
  "stats_disk = \<lparr>index_file = None, chunks_file = Some
     [stats_chunk ''a.pdf'' 1, stats_chunk ''a.pdf'' 2, stats_chunk ''a.pdf'' 3, stats_chunk ''a.pdf'' 4,
      stats_chunk ''b.pdf'' 1, stats_chunk ''b.pdf'' 2, stats_chunk ''b.pdf'' 3,
      stats_chunk ''c.pdf'' 1, stats_chunk ''c.pdf'' 2, stats_chunk ''c.pdf'' 3]\<rparr>"

section \<open>Ingestion feeds serving\<close>

lemma build_index_dim:
  "build_index embeddings = Inr index \<Longrightarrow> dim index = length (hd embeddings)"
  by (auto simp: build_index_def index_add_def IndexFlatIP_def split: if_splits)

lemma ingest_served_files:
  assumes "ingest_main tokenizer env order d = (code, d')" "chunks_file d' \<noteq> chunks_file d"
    and "\<forall>s. length (encode env s) = D"
  shows "\<exists>index cs. index_file d' = Some index \<and> chunks_file d' = Some cs \<and> cs \<noteq> [] \<and>
           length (xb index) = length cs \<and> dim index = D"
proof -
  from ingest_main_written [OF assms(1,2)] obtain metadata index where
    b: "build_index (normalize_embeddings (map (encode env)
          (map ctext (collect_chunks tokenizer env (pool_tasks env metadata) order)))) = Inr index"
    and ne: "collect_chunks tokenizer env (pool_tasks env metadata) order \<noteq> []"
    and d': "d' = d\<lparr>index_file := Some index,
                  chunks_file := Some (collect_chunks tokenizer env (pool_tasks env metadata) order)\<rparr>"
    by blast
  have "xb index = normalize_embeddings (map (encode env)
          (map ctext (collect_chunks tokenizer env (pool_tasks env metadata) order)))"
    by (rule build_index_Inr [OF b])
  moreover have "dim index = D"
    using build_index_dim [OF b] ne assms(3)
    by (simp add: normalize_embeddings_def normalize_row_def hd_map)
  ultimately show ?thesis using ne by (simp add: d' normalize_embeddings_def)
qed

text \<open>C25. End to end: after an ingestion run that wrote its files, a server started on
  them with the same embedding model answers every query: \<open>retrieve\<close> returns
  \<open>min(k, n)\<close> summaries for the \<open>n\<close> stored chunks, with no dimension or index error.\<close>

theorem ingest_serve_retrieve:
  assumes "ingest_main tokenizer env order d = (code, d')" "chunks_file d' \<noteq> chunks_file d"
    and "\<forall>s. length (encode env s) = D" and "check_api_keys keys = Inr ()" and "0 \<le> k"
  shows "\<exists>ctx st rs. load_chat2 here keys d' (encode env) = Inr (ctx, st) \<and> client_reach keys st \<and>
           retrieve ctx q k kb = Inr rs \<and> length rs = min (nat k) (length (CHUNKS ctx)) \<and>
           CHUNKS ctx \<noteq> []"
proof -
  from ingest_served_files [OF assms(1-3)] obtain index cs where
    f: "index_file d' = Some index" "chunks_file d' = Some cs" and ne: "cs \<noteq> []"
    and n: "length (xb index) = length cs" and dm: "dim index = D"
    by blast
  note ld = load_chat2_ok [OF assms(4) f, where model = "encode env"]
  have reach: "client_reach keys \<lparr>current_key_index = 0, configured_key = Some (keys ! 0)\<rparr>"
    by (rule client_reach.init) (simp add: init_ok [OF assms(4)])
  have "nat k \<le> nat (max 50 k)" by simp
  then have "\<exists>rs. retrieve \<lparr>INDEX = index, CHUNKS = cs, MODEL = encode env\<rparr> q k kb = Inr rs \<and>
               length rs = min (nat k) (length cs)"
    using assms(3,5) n dm by (simp add: retrieve_ok filter_kept_search min_def)
  then show ?thesis using ld reach ne by auto
qed

section \<open>The examples of the specification\<close>

text \<open>The examples of the specification: for the two-chunk corpus, the query
  \<open>visa fee\<close> with \<open>k = 2\<close> and boost 0.2 ranks chunk A strictly above chunk B, and the
  context built from the top hit is exactly
  \<open>According to "doc.pdf" (Page 1):\<close> newline, the text of A, blank line; a store of ten
  chunks over three sources reports 3 documents, 10 chunks and 3 sources.\<close>

theorem spec_examples:
  "\<exists>rs. retrieve example_ctx ''visa fee'' 2 (2 / 10) = Inr rs \<and>
     map r_uid rs = [Some 1, Some 2] \<and> score (rs ! 1) < score (rs ! 0) \<and>
     build_context [rs ! 0] =
       ''According to '' @ [DQUOTE] @ ''doc.pdf'' @ [DQUOTE] @ '' (Page 1):'' @ [NEWLINE] @
       ''Visa application fee is 500 rupees'' @ [NEWLINE, NEWLINE] \<and>
   get_stats stats_disk = \<lparr>documents = 3, num_chunks = 10, sources = 3\<rparr>"
proof -
  have st: "get_stats stats_disk = \<lparr>documents = 3, num_chunks = 10, sources = 3\<rparr>"
    by (simp add: get_stats_def stats_disk_def stats_chunk_def numeral_eq_Suc)
  have "build_context [\<lparr>score = example_sem + 2 / 5, r_uid = Some 1, r_source = ''doc.pdf'', r_page = 1,
          r_text = ''Visa application fee is 500 rupees''\<rparr>] =
       ''According to '' @ [DQUOTE] @ ''doc.pdf'' @ [DQUOTE] @ '' (Page 1):'' @ [NEWLINE] @
       ''Visa application fee is 500 rupees'' @ [NEWLINE, NEWLINE]"
    by (simp add: build_context_def context_block_def py_str_nat_small)
  then show ?thesis using example_retrieve st by simp
qed

theorem ingest_serve_retrieve_witness:
  "\<exists>ctx st rs. load_chat2 ''/srv/mha_chatbot'' [''k0'', ''k1''] (snd (ingest_main char_tokenizer example_env [0] empty_disk))
       (encode example_env) = Inr (ctx, st) \<and>
     retrieve ctx ''ab'' 1 (1 / 5) = Inr rs \<and> length rs = min (nat 1) (length (CHUNKS ctx))"
proof -
  have chk: "check_api_keys [''k0'', ''k1''] = Inr ()"
    by (simp add: check_api_keys_def PLACEHOLDER_KEY_def)
  have dimf: "\<forall>s. length (encode example_env s) = 1" by (simp add: example_env_def)
  show ?thesis
    using ingest_serve_retrieve [OF prod.collapse [symmetric] example_run_changes_chunks dimf chk,
                                 where here = "''/srv/mha_chatbot''" and k = 1 and q = "''ab''"
                                 and kb = "1 / 5"]
    by auto
qed

end
